theory Spec2Isabelle
  imports Complex_Main
begin

section \<open>Pagination model of the layered engine (CSSEngine.createSpreads)\<close>

text \<open>
  A slot of a spread holds an image locator or \<open>null\<close>; \<open>None\<close> stands for
  \<open>null\<close>. The optional flags \<open>isCover\<close> and \<open>isBack\<close> are always written by
  \<open>createSpreads\<close>, so they are plain booleans here.
\<close>

record spread =
  left :: "string option"
  right :: "string option"
  isCover :: bool
  isBack :: bool

text \<open>
  \<open>xs[i]\<close> on a JavaScript array with an integer index: the element, or
  \<open>undefined\<close> out of range. \<open>None\<close> stands for \<open>undefined\<close>.
\<close>

definition js_index :: "'a list \<Rightarrow> int \<Rightarrow> 'a option" where
  "js_index xs i = (if 0 \<le> i \<and> i < int (length xs) then Some (xs ! nat i) else None)"

text \<open>
  \<open>v || null\<close>: every falsy value becomes \<open>null\<close>. Of the values a slot can
  take, \<open>undefined\<close> and the empty string are falsy.
\<close>

definition or_null :: "string option \<Rightarrow> string option" where
  "or_null v = (case v of None \<Rightarrow> None | Some s \<Rightarrow> (if s = [] then None else Some s))"

text \<open>
  The loop \<open>for (let i = 1; i < images.length - 1; i += 2)\<close>, with the spreads pushed
  so far as accumulator.
\<close>

function createSpreads_loop :: "string list \<Rightarrow> int \<Rightarrow> spread list \<Rightarrow> spread list" where
  "createSpreads_loop images i acc =
     (if i < int (length images) - 1
      then createSpreads_loop images (i + 2)
             (acc @ [\<lparr>left = or_null (js_index images i),
                      right = or_null (js_index images (i + 1)),
                      isCover = False, isBack = False\<rparr>])
      else acc)"
  by pat_completeness auto
termination
  by (relation "measure (\<lambda>(images, i, acc). nat (int (length images) - i))") auto

declare createSpreads_loop.simps [simp del]

definition createSpreads :: "string list \<Rightarrow> spread list" where
  "createSpreads images =
     (let s0 = (if length images > 0
                then [\<lparr>left = None, right = js_index images 0, isCover = True, isBack = False\<rparr>]
                else []);
          s1 = createSpreads_loop images 1 s0
      in if length images > 1
         then s1 @ [\<lparr>left = js_index images (int (length images) - 1), right = None,
                      isCover = False, isBack = True\<rparr>]
         else s1)"


section \<open>Values shared by the engines (types.ts)\<close>

text \<open>
  JavaScript numbers that hold positions and counts are integers here; a position can
  become negative or pass the end, so it is an \<open>int\<close>. The quotient
  \<open>progress\<close> is a real number.
\<close>

record pageInfo =
  page_index :: int
  page_total :: int
  page_spread :: int
  page_totalSpreads :: int

record loadingProgress =
  loaded :: int
  load_total :: int
  progress :: real
  currentItem :: "string option"

text \<open>
  A thrown or rejected value: \<open>new Error(message)\<close>, the \<open>TypeError\<close> of a
  property access on \<open>undefined\<close>, or the \<open>SyntaxError\<close> that
  \<open>querySelector\<close> throws for a string that is not a selector.
\<close>

datatype js_error = Error string | TypeError | SyntaxError

datatype 'a promise = Pending | Fulfilled 'a | Rejected js_error

text \<open>
  The callbacks of \<open>FlipbookEvents\<close>. Every callback is optional in the
  configuration; an engine's log \<open>emitted\<close> records each call the engine makes, in
  order, with its argument.
\<close>

datatype event =
    OnPageChange pageInfo
  | OnAnimationStart
  | OnAnimationEnd
  | OnLoadProgress loadingProgress
  | OnLoadComplete
  | OnError js_error
  | OnReady

datatype direction = Forward | Back

fun is_fulfilled :: "'a promise \<Rightarrow> bool" where
  "is_fulfilled (Fulfilled v) = True"
| "is_fulfilled p = False"

section \<open>The layered engine (class CSSEngine)\<close>

text \<open>
  The fields of the class that navigation and loading read or write, and the parts of
  the environment they act on:
  \<^item> \<open>media_src\<close> is \<open>config.media.src\<close> as the array \<open>images\<close> of
    \<open>loadImages\<close> (a single locator is the one-element array);
  \<^item> \<open>leftPage\<close>, \<open>rightPage\<close> are the image shown in \<open>.page-left\<close> and
    \<open>.page-right\<close> (\<open>None\<close>: the element is empty);
  \<^item> \<open>flippingPages\<close> are the \<open>.flipping-page-container\<close> elements in document
    order, each with the image of its flipping page;
  \<^item> \<open>timers\<close> are the pending \<open>setTimeout\<close> callbacks of
    \<open>performFlipAnimation\<close>, oldest first, each with the direction its closure
    captured (all have the same delay, so they would fire in this order);
  \<^item> \<open>imagePromises\<close> are the promises of \<open>loadImage\<close>, one per image, and
    \<open>loadPromise\<close> is \<open>Promise.all(loadPromises)\<close>;
  \<^item> \<open>emitted\<close> is the log of callback calls.

  The text of the page indicator, the class names and the \<open>alt\<close> texts are not
  part of the model; the fields \<open>displaySpread\<close>, \<open>flippingPageImage\<close> and
  \<open>isBackFace\<close> are never read or written after their initialisation.
\<close>

record css_engine =
  media_src :: "string list"
  spreads :: "spread list"
  currentSpread :: int
  isFlipping :: bool
  flipDirection :: "direction option"
  loadedImages :: "nat set"
  leftPage :: "string option"
  rightPage :: "string option"
  flippingPages :: "string option list"
  timers :: "direction list"
  imagePromises :: "unit promise list"
  loadPromise :: "unit promise"
  emitted :: "event list"

definition renderCurrentSpread :: "css_engine \<Rightarrow> css_engine" where
  "renderCurrentSpread s =
     (case js_index (spreads s) (currentSpread s) of
        None \<Rightarrow> s
      | Some sp \<Rightarrow>
          if isCover sp then s\<lparr>leftPage := None, rightPage := or_null (right sp)\<rparr>
          else if isBack sp then s\<lparr>leftPage := or_null (left sp), rightPage := None\<rparr>
          else s\<lparr>leftPage := or_null (left sp), rightPage := or_null (right sp)\<rparr>)"

text \<open>
  \<open>element.querySelector(selectors)\<close> throws a \<open>SyntaxError\<close> when
  \<open>selectors\<close> is not a valid selector, and otherwise returns the first matching
  descendant or \<open>null\<close>. Every selector of this class is a class selector, a dot
  followed by an identifier, and an identifier does not start with a digit; that is
  all of the selector grammar that decides the selectors used here. The result
  \<open>Inr True\<close> stands for an element, \<open>Inr False\<close> for \<open>null\<close>.
  \<open>structure_classes\<close> are the classes of the elements that \<open>createStructure\<close>
  puts under \<open>flipbookElement\<close> whatever the configuration; none of them is ever
  removed.
\<close>

definition is_digit :: "char \<Rightarrow> bool" where
  "is_digit c = (c \<in> set ''0123456789'')"

definition class_selector_valid :: "string \<Rightarrow> bool" where
  "class_selector_valid selectors =
     (case selectors of
        [] \<Rightarrow> False
      | dot # ident \<Rightarrow>
          dot = CHR ''.'' \<and> (case ident of [] \<Rightarrow> False | c # cs \<Rightarrow> \<not> is_digit c))"

definition querySelector :: "string \<Rightarrow> string list \<Rightarrow> js_error + bool" where
  "querySelector selectors classes =
     (if \<not> class_selector_valid selectors then Inl SyntaxError
      else Inr (tl selectors \<in> set classes))"

definition structure_classes :: "string list" where
  "structure_classes =
     [''3d-flipbook-container'', ''3d-flipbook'', ''spread'', ''book-spine'',
      ''page'', ''page-left'', ''page-right'']"

text \<open>
  \<open>createFlippingPage\<close> starts with \<open>querySelector('.3d-flipbook')\<close>. The
  selectors of \<open>renderCurrentSpread\<close> and \<open>removeFlippingPage\<close>
  (\<open>.page-left\<close>, \<open>.page-right\<close>, \<open>.flipping-page-container\<close>) are valid, and
  the two pages exist.
\<close>

definition createFlippingPage :: "direction \<Rightarrow> css_engine \<Rightarrow> js_error + css_engine" where
  "createFlippingPage d s =
     (case querySelector ''.3d-flipbook'' structure_classes of
        Inl e \<Rightarrow> Inl e
      | Inr flipbook \<Rightarrow>
          if \<not> flipbook then Inr s
          else
            let imageSrc = (case js_index (spreads s) (currentSpread s) of
                              None \<Rightarrow> None
                            | Some sp \<Rightarrow> (case d of Forward \<Rightarrow> right sp | Back \<Rightarrow> left sp))
            in Inr (s\<lparr>flippingPages := flippingPages s @ [or_null imageSrc]\<rparr>))"

definition removeFlippingPage :: "css_engine \<Rightarrow> css_engine" where
  "removeFlippingPage s = s\<lparr>flippingPages := drop 1 (flippingPages s)\<rparr>"

definition CSSEngine_getCurrentPage :: "css_engine \<Rightarrow> pageInfo" where
  "CSSEngine_getCurrentPage s =
     \<lparr>page_index = currentSpread s * 2,
      page_total = int (length (spreads s)) * 2,
      page_spread = currentSpread s,
      page_totalSpreads = int (length (spreads s))\<rparr>"

definition CSSEngine_getIsAnimating :: "css_engine \<Rightarrow> bool" where
  "CSSEngine_getIsAnimating s = isFlipping s"

text \<open>The callback that \<open>performFlipAnimation\<close> hands to \<open>setTimeout\<close>.\<close>

definition flipTimeout :: "direction \<Rightarrow> css_engine \<Rightarrow> css_engine" where
  "flipTimeout d s =
     (let s1 = s\<lparr>currentSpread :=
                   (case d of Forward \<Rightarrow> currentSpread s + 1 | Back \<Rightarrow> currentSpread s - 1)\<rparr>;
          s2 = renderCurrentSpread s1;
          s3 = removeFlippingPage s2;
          s4 = s3\<lparr>isFlipping := False, flipDirection := None\<rparr>;
          info = \<lparr>page_index = currentSpread s4 * 2,
                  page_total = int (length (spreads s4)) * 2,
                  page_spread = currentSpread s4,
                  page_totalSpreads = int (length (spreads s4))\<rparr>
      in s4\<lparr>emitted := emitted s4 @ [OnPageChange info, OnAnimationEnd]\<rparr>)"

text \<open>
  A function that can throw returns the state it leaves behind and the exception, if
  any: the writes made before a throw stay. In \<open>performFlipAnimation\<close> an exception
  of \<open>createFlippingPage\<close> leaves before \<open>setTimeout\<close> is called.
\<close>

definition performFlipAnimation ::
  "direction \<Rightarrow> css_engine \<Rightarrow> css_engine \<times> js_error option" where
  "performFlipAnimation d s =
     (let s1 = s\<lparr>isFlipping := True, flipDirection := Some d,
                  emitted := emitted s @ [OnAnimationStart]\<rparr>
      in case createFlippingPage d s1 of
           Inl e \<Rightarrow> (s1, Some e)
         | Inr s2 \<Rightarrow> (s2\<lparr>timers := timers s2 @ [d]\<rparr>, None))"

definition goToNextSpread :: "css_engine \<Rightarrow> css_engine \<times> js_error option" where
  "goToNextSpread s =
     (if isFlipping s \<or> currentSpread s \<ge> int (length (spreads s)) - 1 then (s, None)
      else performFlipAnimation Forward s)"

definition goToPrevSpread :: "css_engine \<Rightarrow> css_engine \<times> js_error option" where
  "goToPrevSpread s =
     (if isFlipping s \<or> currentSpread s \<le> 0 then (s, None)
      else performFlipAnimation Back s)"

text \<open>
  The public methods are \<open>async\<close> functions without an \<open>await\<close>: the body runs
  to its end during the call, and the promise returned is settled when the call
  returns, fulfilled if the body returned and rejected with the exception if it
  threw. A method is modelled by the state after the call and that promise.
\<close>

definition async_result :: "js_error option \<Rightarrow> unit promise" where
  "async_result thrown = (case thrown of None \<Rightarrow> Fulfilled () | Some e \<Rightarrow> Rejected e)"

definition CSSEngine_nextPage :: "css_engine \<Rightarrow> css_engine \<times> unit promise" where
  "CSSEngine_nextPage s = (fst (goToNextSpread s), async_result (snd (goToNextSpread s)))"

definition CSSEngine_prevPage :: "css_engine \<Rightarrow> css_engine \<times> unit promise" where
  "CSSEngine_prevPage s = (fst (goToPrevSpread s), async_result (snd (goToPrevSpread s)))"

definition CSSEngine_goToPage :: "int \<Rightarrow> css_engine \<Rightarrow> css_engine \<times> unit promise" where
  "CSSEngine_goToPage index s =
     (let spreadIndex = index div 2 in
      if spreadIndex < 0 \<or> spreadIndex \<ge> int (length (spreads s))
         \<or> spreadIndex = currentSpread s
      then (s, Fulfilled ())
      else
        let s1 = renderCurrentSpread (s\<lparr>currentSpread := spreadIndex\<rparr>);
            info = \<lparr>page_index = currentSpread s1 * 2,
                    page_total = int (length (spreads s1)) * 2,
                    page_spread = currentSpread s1,
                    page_totalSpreads = int (length (spreads s1))\<rparr>
        in (s1\<lparr>emitted := emitted s1 @ [OnPageChange info]\<rparr>, Fulfilled ()))"

text \<open>
  \<open>dispose\<close> removes the listeners and the elements and clears the collections. It
  ends the life of the engine: the runs below stop before it.
\<close>

definition CSSEngine_dispose :: "css_engine \<Rightarrow> css_engine" where
  "CSSEngine_dispose s = s\<lparr>spreads := [], loadedImages := {}\<rparr>"

subsection \<open>Event handlers of the layered engine\<close>

datatype key = ArrowRight | ArrowLeft | OtherKey

text \<open>
  A listener, too, returns the state it leaves behind and the exception that escapes
  from it, if any.
\<close>

definition handleKeyDown :: "key \<Rightarrow> css_engine \<Rightarrow> css_engine \<times> js_error option" where
  "handleKeyDown k s =
     (if isFlipping s then (s, None)
      else case k of ArrowRight \<Rightarrow> goToNextSpread s
                   | ArrowLeft \<Rightarrow> goToPrevSpread s
                   | OtherKey \<Rightarrow> (s, None))"

text \<open>
  The click listener of a page; \<open>clickX\<close> is the click's offset in the page and
  \<open>pageWidth\<close> the page's width.
\<close>

definition pageClick ::
  "real \<Rightarrow> real \<Rightarrow> css_engine \<Rightarrow> css_engine \<times> js_error option" where
  "pageClick clickX pageWidth s =
     (if isFlipping s then (s, None)
      else if clickX < pageWidth / 2 then goToPrevSpread s
      else goToNextSpread s)"

text \<open>The click listeners of the two navigation buttons.\<close>

definition navButton :: "direction \<Rightarrow> css_engine \<Rightarrow> css_engine \<times> js_error option" where
  "navButton d s = (case d of Back \<Rightarrow> goToPrevSpread s | Forward \<Rightarrow> goToNextSpread s)"

text \<open>
  The \<open>touchend\<close> listener, with the number of changed touches and the distance
  from the position that the \<open>touchstart\<close> listener stored.
\<close>

definition touchEnd ::
  "nat \<Rightarrow> real \<Rightarrow> real \<Rightarrow> css_engine \<Rightarrow> css_engine \<times> js_error option" where
  "touchEnd changedTouches deltaX deltaY s =
     (if isFlipping s \<or> changedTouches \<noteq> 1 then (s, None)
      else if \<bar>deltaX\<bar> > \<bar>deltaY\<bar> \<and> \<bar>deltaX\<bar> > 50
           then (if deltaX > 0 then goToPrevSpread s else goToNextSpread s)
           else (s, None))"

subsection \<open>Loading in the layered engine\<close>

text \<open>
  \<open>loadImages\<close> awaits \<open>Promise.all(loadPromises)\<close>. The two definitions below
  are what it runs after the \<open>await\<close>: the rest of the \<open>try\<close> block when the
  aggregate promise is fulfilled, the \<open>catch\<close> block when it is rejected.
\<close>

definition loadImages_fulfilled :: "css_engine \<Rightarrow> css_engine" where
  "loadImages_fulfilled s =
     (let s1 = renderCurrentSpread s
      in s1\<lparr>emitted := emitted s1 @ [OnLoadComplete, OnReady]\<rparr>)"

definition loadImages_rejected :: "js_error \<Rightarrow> css_engine \<Rightarrow> css_engine" where
  "loadImages_rejected e s = s\<lparr>emitted := emitted s @ [OnError e]\<rparr>"

text \<open>
  \<open>resolve()\<close> and \<open>reject(e)\<close> of the promise of image \<open>k\<close>. A settled
  promise ignores both. \<open>Promise.all\<close> is fulfilled when its last element is
  fulfilled and rejected with the reason of the first element that is rejected; once
  settled it ignores the elements. \<open>loadImages\<close> resumes before the next event of
  the event loop is handled.
\<close>

definition image_resolve :: "nat \<Rightarrow> css_engine \<Rightarrow> css_engine" where
  "image_resolve k s =
     (if imagePromises s ! k \<noteq> Pending then s
      else
        let s1 = s\<lparr>imagePromises := (imagePromises s)[k := Fulfilled ()]\<rparr>
        in if loadPromise s1 = Pending \<and> list_all is_fulfilled (imagePromises s1)
           then loadImages_fulfilled (s1\<lparr>loadPromise := Fulfilled ()\<rparr>)
           else s1)"

definition image_reject :: "nat \<Rightarrow> js_error \<Rightarrow> css_engine \<Rightarrow> css_engine" where
  "image_reject k e s =
     (if imagePromises s ! k \<noteq> Pending then s
      else
        let s1 = s\<lparr>imagePromises := (imagePromises s)[k := Rejected e]\<rparr>
        in if loadPromise s1 = Pending
           then loadImages_rejected e (s1\<lparr>loadPromise := Rejected e\<rparr>)
           else s1)"

text \<open>
  The handlers \<open>img.onload\<close> and \<open>img.onerror\<close> that \<open>loadImage(src, index)\<close>
  installs. There is an image, and a promise, for every index below
  \<open>images.length\<close> and for no other.
\<close>

definition loadImage_onload :: "nat \<Rightarrow> css_engine \<Rightarrow> css_engine" where
  "loadImage_onload index s =
     (if index \<ge> length (media_src s) then s
      else
        let s1 = s\<lparr>loadedImages := insert index (loadedImages s)\<rparr>;
            p = \<lparr>loaded = int (card (loadedImages s1)),
                 load_total = int (length (media_src s1)),
                 progress = real (card (loadedImages s1)) / real (length (media_src s1)),
                 currentItem = Some (media_src s1 ! index)\<rparr>;
            s2 = s1\<lparr>emitted := emitted s1 @ [OnLoadProgress p]\<rparr>
        in image_resolve index s2)"

definition loadImage_onerror :: "nat \<Rightarrow> css_engine \<Rightarrow> css_engine" where
  "loadImage_onerror index s =
     (if index \<ge> length (media_src s) then s
      else image_reject index (Error (''Failed to load image: '' @ media_src s ! index)) s)"

text \<open>
  The constructor: the field initialisers, \<open>createStructure\<close> (both pages empty)
  and \<open>loadImages\<close> up to its \<open>await\<close>. \<open>Promise.all\<close> of no promise is
  fulfilled at once, and \<open>loadImages\<close> then resumes before any other event.
\<close>

definition loadImages :: "css_engine \<Rightarrow> css_engine" where
  "loadImages s =
     (let images = media_src s;
          s1 = s\<lparr>spreads := createSpreads images,
                  imagePromises := replicate (length images) Pending\<rparr>
      in if images = []
         then loadImages_fulfilled (s1\<lparr>loadPromise := Fulfilled ()\<rparr>)
         else s1\<lparr>loadPromise := Pending\<rparr>)"

definition CSSEngine_new :: "string list \<Rightarrow> css_engine" where
  "CSSEngine_new images =
     loadImages
       \<lparr>media_src = images, spreads = [], currentSpread = 0, isFlipping = False,
        flipDirection = None, loadedImages = {}, leftPage = None, rightPage = None,
        flippingPages = [], timers = [], imagePromises = [], loadPromise = Pending,
        emitted = []\<rparr>"

subsection \<open>Runs of the layered engine\<close>

text \<open>
  What the event loop can deliver to an engine between construction and disposal: a
  call of a public method, an event for one of its listeners, the oldest pending
  timer, or the end of an image load.
\<close>

datatype css_input =
    NextPage
  | PrevPage
  | GoToPage int
  | KeyDown key
  | PageClick real real
  | NavButton direction
  | TouchEnd nat real real
  | Timeout
  | ImageLoad nat
  | ImageError nat

fun css_step :: "css_engine \<Rightarrow> css_input \<Rightarrow> css_engine" where
  "css_step s NextPage = fst (CSSEngine_nextPage s)"
| "css_step s PrevPage = fst (CSSEngine_prevPage s)"
| "css_step s (GoToPage i) = fst (CSSEngine_goToPage i s)"
| "css_step s (KeyDown k) = fst (handleKeyDown k s)"
| "css_step s (PageClick x w) = fst (pageClick x w s)"
| "css_step s (NavButton d) = fst (navButton d s)"
| "css_step s (TouchEnd n dx dy) = fst (touchEnd n dx dy s)"
| "css_step s Timeout =
     (case timers s of [] \<Rightarrow> s | d # ds \<Rightarrow> flipTimeout d (s\<lparr>timers := ds\<rparr>))"
| "css_step s (ImageLoad k) = loadImage_onload k s"
| "css_step s (ImageError k) = loadImage_onerror k s"

definition css_run :: "css_engine \<Rightarrow> css_input list \<Rightarrow> css_engine" where
  "css_run s ins = foldl css_step s ins"

section \<open>The scene-graph engine (class WebGLEngine)\<close>

text \<open>
  A page mesh, as far as navigation reads or writes it, and a decoded texture.
  \<open>rotationY\<close> is \<open>rotation.y\<close> in multiples of \<open>Math.PI\<close>: the code
  writes \<open>0\<close> and \<open>-Math.PI\<close> only, and a timeline is seen at its end only. The
  meshes are never reordered, so a closure that captured a mesh holds its index in
  \<open>pages\<close>.
\<close>

record mesh =
  visible :: bool
  rotationY :: int
  positionZ :: real

record pageTexture =
  aspectRatio :: real
  tex_width :: nat
  tex_height :: nat

text \<open>
  A running \<open>gsap\<close> timeline of \<open>nextPage\<close> or \<open>prevPage\<close>: the mesh whose
  rotation it drives, and what its \<open>onComplete\<close> closure captured
  (\<open>currentPageMesh\<close> is \<open>undefined\<close> when \<open>currentPage\<close> was out of range).
\<close>

record tween =
  tw_direction :: direction
  tw_currentPageMesh :: "nat option"
  tw_target :: nat

record gl_engine =
  gl_media_src :: "string list"
  pages :: "mesh list"
  textures :: "pageTexture list"
  currentPage :: int
  isAnimating :: bool
  renderLoop :: bool
  tweens :: "tween list"
  texturePromises :: "pageTexture promise list"
  gl_loadPromise :: "unit promise"
  gl_emitted :: "event list"

definition WebGLEngine_getCurrentPage :: "gl_engine \<Rightarrow> pageInfo" where
  "WebGLEngine_getCurrentPage s =
     \<lparr>page_index = currentPage s,
      page_total = int (length (pages s)),
      page_spread = currentPage s div 2,
      page_totalSpreads = (int (length (pages s)) + 1) div 2\<rparr>"

definition WebGLEngine_getIsAnimating :: "gl_engine \<Rightarrow> bool" where
  "WebGLEngine_getIsAnimating s = isAnimating s"

text \<open>
  An \<open>async\<close> method that throws returns a rejected promise and keeps the writes
  made before the throw. In \<open>nextPage\<close> the guard gives
  \<open>currentPage + 1 < pages.length\<close>, so a mesh is \<open>undefined\<close> only for a
  negative index.
\<close>

definition WebGLEngine_nextPage :: "gl_engine \<Rightarrow> gl_engine \<times> unit promise" where
  "WebGLEngine_nextPage s =
     (if isAnimating s \<or> currentPage s \<ge> int (length (pages s)) - 1 then (s, Fulfilled ())
      else
        let s1 = s\<lparr>isAnimating := True, gl_emitted := gl_emitted s @ [OnAnimationStart]\<rparr>
        in case js_index (pages s1) (currentPage s1 + 1) of
             None \<Rightarrow> (s1, Rejected TypeError)
           | Some nextPageMesh \<Rightarrow>
               let n = nat (currentPage s1 + 1);
                   s2 = s1\<lparr>pages := (pages s1)[n := nextPageMesh\<lparr>visible := True\<rparr>]\<rparr>
               in case js_index (pages s2) (currentPage s2) of
                    None \<Rightarrow> (s2, Rejected TypeError)
                  | Some currentPageMesh \<Rightarrow>
                      let s3 = s2\<lparr>pages := (pages s2)
                                  [n := (pages s2 ! n)
                                     \<lparr>positionZ := positionZ currentPageMesh - 0.001\<rparr>]\<rparr>
                      in (s3\<lparr>tweens := tweens s3 @
                                [\<lparr>tw_direction = Forward,
                                  tw_currentPageMesh = Some (nat (currentPage s3)),
                                  tw_target = nat (currentPage s3)\<rparr>]\<rparr>,
                          Fulfilled ()))"

definition WebGLEngine_prevPage :: "gl_engine \<Rightarrow> gl_engine \<times> unit promise" where
  "WebGLEngine_prevPage s =
     (if isAnimating s \<or> currentPage s \<le> 0 then (s, Fulfilled ())
      else
        let s1 = s\<lparr>isAnimating := True, gl_emitted := gl_emitted s @ [OnAnimationStart]\<rparr>
        in case js_index (pages s1) (currentPage s1 - 1) of
             None \<Rightarrow> (s1, Rejected TypeError)
           | Some prevPageMesh \<Rightarrow>
               let p = nat (currentPage s1 - 1);
                   s2 = s1\<lparr>pages := (pages s1)
                               [p := prevPageMesh\<lparr>visible := True, rotationY := - 1\<rparr>]\<rparr>
               in (s2\<lparr>tweens := tweens s2 @
                         [\<lparr>tw_direction = Back,
                           tw_currentPageMesh =
                             (case js_index (pages s2) (currentPage s2) of
                                None \<Rightarrow> None
                              | Some currentPageMesh \<Rightarrow> Some (nat (currentPage s2))),
                           tw_target = p\<rparr>]\<rparr>,
                   Fulfilled ()))"

text \<open>
  The end of a timeline: the driven rotation has reached its final value and
  \<open>onComplete\<close> runs. Its last write, \<open>currentPageMesh.visible = false\<close>, throws
  when the captured mesh is \<open>undefined\<close>; everything before it has happened then.
\<close>

definition tweenComplete :: "tween \<Rightarrow> gl_engine \<Rightarrow> gl_engine" where
  "tweenComplete tw s =
     (let t = tw_target tw;
          s1 = s\<lparr>pages := (pages s)
                      [t := (pages s ! t)
                         \<lparr>rotationY := (case tw_direction tw of Forward \<Rightarrow> - 1 | Back \<Rightarrow> 0)\<rparr>],
                 currentPage := (case tw_direction tw of
                                   Forward \<Rightarrow> currentPage s + 1
                                 | Back \<Rightarrow> currentPage s - 1),
                 isAnimating := False\<rparr>;
          info = \<lparr>page_index = currentPage s1,
                  page_total = int (length (pages s1)),
                  page_spread = currentPage s1 div 2,
                  page_totalSpreads = (int (length (pages s1)) + 1) div 2\<rparr>;
          s2 = s1\<lparr>gl_emitted := gl_emitted s1 @ [OnPageChange info, OnAnimationEnd]\<rparr>
      in case tw_currentPageMesh tw of
           None \<Rightarrow> s2
         | Some c \<Rightarrow> s2\<lparr>pages := (pages s2)[c := (pages s2 ! c)\<lparr>visible := False\<rparr>]\<rparr>)"

definition WebGLEngine_goToPage :: "int \<Rightarrow> gl_engine \<Rightarrow> gl_engine \<times> unit promise" where
  "WebGLEngine_goToPage pageIndex s =
     (if pageIndex < 0 \<or> pageIndex \<ge> int (length (pages s)) \<or> pageIndex = currentPage s
      then (s, Fulfilled ())
      else
        case js_index (pages s) (currentPage s) of
          None \<Rightarrow> (s, Rejected TypeError)
        | Some currentPageMesh \<Rightarrow>
            let c = nat (currentPage s);
                s1 = s\<lparr>pages := (pages s)[c := currentPageMesh\<lparr>visible := False\<rparr>],
                       currentPage := pageIndex\<rparr>;
                n = nat pageIndex;
                s2 = s1\<lparr>pages := (pages s1)
                            [n := (pages s1 ! n)\<lparr>visible := True, rotationY := 0\<rparr>]\<rparr>;
                info = \<lparr>page_index = currentPage s2,
                        page_total = int (length (pages s2)),
                        page_spread = currentPage s2 div 2,
                        page_totalSpreads = (int (length (pages s2)) + 1) div 2\<rparr>
            in (s2\<lparr>gl_emitted := gl_emitted s2 @ [OnPageChange info]\<rparr>, Fulfilled ()))"

subsection \<open>Pointer handlers of the scene-graph engine\<close>

text \<open>
  \<open>hit\<close> is what the ray cast found: \<open>None\<close> when no page is hit, else the
  horizontal texture coordinate of the first intersection, if it has one.
\<close>

definition handleInteraction :: "real option option \<Rightarrow> gl_engine \<Rightarrow> gl_engine" where
  "handleInteraction hit s =
     (case hit of
        None \<Rightarrow> s
      | Some uv \<Rightarrow>
          (case uv of
             Some x \<Rightarrow> if x < 0.5 then fst (WebGLEngine_prevPage s)
                       else fst (WebGLEngine_nextPage s)
           | None \<Rightarrow> fst (WebGLEngine_nextPage s)))"

definition onMouseDown :: "real option option \<Rightarrow> gl_engine \<Rightarrow> gl_engine" where
  "onMouseDown hit s = (if isAnimating s then s else handleInteraction hit s)"

definition onTouchStart :: "nat \<Rightarrow> real option option \<Rightarrow> gl_engine \<Rightarrow> gl_engine" where
  "onTouchStart touches hit s =
     (if isAnimating s \<or> touches \<noteq> 1 then s else handleInteraction hit s)"

subsection \<open>Loading in the scene-graph engine\<close>

definition createPages :: "gl_engine \<Rightarrow> gl_engine" where
  "createPages s =
     s\<lparr>pages := pages s @
         map (\<lambda>index. \<lparr>visible = (index = 0), rotationY = 0,
                        positionZ = - real index * 0.001\<rparr>)
             [0..<length (textures s)]\<rparr>"

fun promise_values :: "'a promise list \<Rightarrow> 'a list" where
  "promise_values [] = []"
| "promise_values (Fulfilled v # ps) = v # promise_values ps"
| "promise_values (p # ps) = promise_values ps"

text \<open>
  \<open>loadTextures\<close> after \<open>await Promise.all(loadPromises)\<close>, then the
  \<open>then\<close> and \<open>catch\<close> callbacks that the constructor chains to it
  (\<open>loadTextures\<close> rethrows a rejection unchanged). \<open>animate\<close> starts the render
  loop.
\<close>

definition loadTextures_fulfilled :: "gl_engine \<Rightarrow> gl_engine" where
  "loadTextures_fulfilled s =
     s\<lparr>textures := promise_values (texturePromises s),
       gl_emitted := gl_emitted s @ [OnLoadComplete]\<rparr>"

definition constructor_then :: "gl_engine \<Rightarrow> gl_engine" where
  "constructor_then s =
     (let s1 = createPages s;
          s2 = s1\<lparr>renderLoop := True\<rparr>
      in s2\<lparr>gl_emitted := gl_emitted s2 @ [OnReady]\<rparr>)"

definition constructor_catch :: "js_error \<Rightarrow> gl_engine \<Rightarrow> gl_engine" where
  "constructor_catch e s = s\<lparr>gl_emitted := gl_emitted s @ [OnError e]\<rparr>"

text \<open>
  \<open>resolve\<close> or \<open>reject\<close> of the promise of texture \<open>k\<close> (ignored by a settled
  promise), and the reaction of \<open>Promise.all\<close> to the settlement of that promise,
  which runs when the loader's callback has returned.
\<close>

definition texture_settle :: "nat \<Rightarrow> pageTexture promise \<Rightarrow> gl_engine \<Rightarrow> gl_engine" where
  "texture_settle k v s =
     (if texturePromises s ! k \<noteq> Pending then s
      else s\<lparr>texturePromises := (texturePromises s)[k := v]\<rparr>)"

definition loadTextures_react :: "nat \<Rightarrow> gl_engine \<Rightarrow> gl_engine" where
  "loadTextures_react k s =
     (if gl_loadPromise s \<noteq> Pending then s
      else case texturePromises s ! k of
             Pending \<Rightarrow> s
           | Rejected e \<Rightarrow> constructor_catch e (s\<lparr>gl_loadPromise := Rejected e\<rparr>)
           | Fulfilled v \<Rightarrow>
               if list_all is_fulfilled (texturePromises s)
               then constructor_then
                      (loadTextures_fulfilled (s\<lparr>gl_loadPromise := Fulfilled ()\<rparr>))
               else s)"

text \<open>
  The success and error callbacks given to \<open>loader.load\<close> for texture \<open>index\<close>.
  \<open>img\<close> is the size of \<open>texture.image\<close>, or \<open>None\<close> when the texture has no
  image; \<open>message\<close> is the message of the loader's error when it is an
  \<open>Error\<close>.
\<close>

definition loader_onLoad :: "nat \<Rightarrow> (nat \<times> nat) option \<Rightarrow> gl_engine \<Rightarrow> gl_engine" where
  "loader_onLoad index img s =
     (if index \<ge> length (gl_media_src s) then s
      else
        let imagePath = gl_media_src s ! index;
            fresh = (texturePromises s ! index = Pending);
            invalid = (case img of None \<Rightarrow> True | Some (w, h) \<Rightarrow> w = 0 \<or> h = 0)
        in if invalid
           then
             let s1 = texture_settle index
                        (Rejected (Error (''Invalid image dimensions: '' @ imagePath))) s
             in if fresh then loadTextures_react index s1 else s1
           else
             let (w, h) = (case img of None \<Rightarrow> (0, 0) | Some d \<Rightarrow> d);
                 t = \<lparr>aspectRatio = real w / real h, tex_width = w, tex_height = h\<rparr>;
                 s1 = texture_settle index (Fulfilled t) s;
                 p = \<lparr>loaded = int index + 1,
                      load_total = int (length (gl_media_src s1)),
                      progress = (real index + 1) / real (length (gl_media_src s1)),
                      currentItem = Some imagePath\<rparr>;
                 s2 = s1\<lparr>gl_emitted := gl_emitted s1 @ [OnLoadProgress p]\<rparr>
             in if fresh then loadTextures_react index s2 else s2)"

definition loader_onError :: "nat \<Rightarrow> string option \<Rightarrow> gl_engine \<Rightarrow> gl_engine" where
  "loader_onError index message s =
     (if index \<ge> length (gl_media_src s) then s
      else
        let imagePath = gl_media_src s ! index;
            fresh = (texturePromises s ! index = Pending);
            e = Error (''Failed to load '' @ imagePath @ '': '' @
                       (case message of None \<Rightarrow> ''Unknown error'' | Some m \<Rightarrow> m));
            s1 = texture_settle index (Rejected e) s
        in if fresh then loadTextures_react index s1 else s1)"

definition loadTextures :: "gl_engine \<Rightarrow> gl_engine" where
  "loadTextures s =
     (let images = gl_media_src s;
          s1 = s\<lparr>texturePromises := replicate (length images) Pending\<rparr>
      in if images = []
         then constructor_then (loadTextures_fulfilled (s1\<lparr>gl_loadPromise := Fulfilled ()\<rparr>))
         else s1\<lparr>gl_loadPromise := Pending\<rparr>)"

definition WebGLEngine_new :: "string list \<Rightarrow> gl_engine" where
  "WebGLEngine_new images =
     loadTextures
       \<lparr>gl_media_src = images, pages = [], textures = [], currentPage = 0,
        isAnimating = False, renderLoop = False, tweens = [], texturePromises = [],
        gl_loadPromise = Pending, gl_emitted = []\<rparr>"

subsection \<open>Runs of the scene-graph engine\<close>

text \<open>
  What the event loop can deliver to the engine between construction and disposal: a
  call of a public method, a pointer event, the end of the running timeline, or the
  end of a texture load.
\<close>

datatype gl_input =
    GL_NextPage
  | GL_PrevPage
  | GL_GoToPage int
  | MouseDown "real option option"
  | TouchStart nat "real option option"
  | TweenComplete
  | TextureLoad nat "(nat \<times> nat) option"
  | TextureError nat "string option"

fun gl_step :: "gl_engine \<Rightarrow> gl_input \<Rightarrow> gl_engine" where
  "gl_step s GL_NextPage = fst (WebGLEngine_nextPage s)"
| "gl_step s GL_PrevPage = fst (WebGLEngine_prevPage s)"
| "gl_step s (GL_GoToPage i) = fst (WebGLEngine_goToPage i s)"
| "gl_step s (MouseDown hit) = onMouseDown hit s"
| "gl_step s (TouchStart n hit) = onTouchStart n hit s"
| "gl_step s TweenComplete =
     (case tweens s of [] \<Rightarrow> s | tw # tws \<Rightarrow> tweenComplete tw (s\<lparr>tweens := tws\<rparr>))"
| "gl_step s (TextureLoad k img) = loader_onLoad k img s"
| "gl_step s (TextureError k message) = loader_onError k message s"

definition gl_run :: "gl_engine \<Rightarrow> gl_input list \<Rightarrow> gl_engine" where
  "gl_run s ins = foldl gl_step s ins"

section \<open>The facade (class Flipbook, core.ts)\<close>

datatype renderMode = RenderCSS | RenderWebGL

datatype engine = CSS css_engine | WebGL gl_engine

text \<open>
  \<open>config.media.src\<close> is one locator or an array of locators. \<open>validateConfig\<close>
  refuses a falsy \<open>src\<close>, which of these values is the empty string only: an empty
  array is truthy.
\<close>

datatype media = Single string | Many "string list"

definition images_of :: "media \<Rightarrow> string list" where
  "images_of src = (case src of Single x \<Rightarrow> [x] | Many xs \<Rightarrow> xs)"

record flipbook =
  engine :: engine

definition Flipbook_new :: "renderMode \<Rightarrow> bool \<Rightarrow> media \<Rightarrow> js_error + flipbook" where
  "Flipbook_new mode webglSupported src =
     (if src = Single [] then Inl (Error ''Media source is required'')
      else
        let mode' = (if mode = RenderWebGL \<and> \<not> webglSupported then RenderCSS else mode)
        in if mode' = RenderWebGL
           then Inr \<lparr>engine = WebGL (WebGLEngine_new (images_of src))\<rparr>
           else Inr \<lparr>engine = CSS (CSSEngine_new (images_of src))\<rparr>)"

definition Flipbook_getCurrentPage :: "flipbook \<Rightarrow> pageInfo" where
  "Flipbook_getCurrentPage f =
     (case engine f of
        CSS e \<Rightarrow> CSSEngine_getCurrentPage e
      | WebGL e \<Rightarrow> WebGLEngine_getCurrentPage e)"

definition Flipbook_isAnimating :: "flipbook \<Rightarrow> bool" where
  "Flipbook_isAnimating f =
     (case engine f of
        CSS e \<Rightarrow> CSSEngine_getIsAnimating e
      | WebGL e \<Rightarrow> WebGLEngine_getIsAnimating e)"

definition Flipbook_getLoadingProgress :: "flipbook \<Rightarrow> loadingProgress" where
  "Flipbook_getLoadingProgress f =
     (let currentPage = Flipbook_getCurrentPage f
      in \<lparr>loaded = page_total currentPage,
          load_total = page_total currentPage,
          progress = 1,
          currentItem = None\<rparr>)"

section \<open>Invariants of runs\<close>

text \<open>
  In the scene-graph engine at most one timeline runs, and only while the engine is
  flagged as animating. The flag can stay set without a timeline (after a throw in
  \<open>nextPage\<close> or \<open>prevPage\<close>), never the other way round.
\<close>

definition gl_flip_inv :: "gl_engine \<Rightarrow> bool" where
  "gl_flip_inv s = (length (tweens s) \<le> 1 \<and> (tweens s = [] \<or> isAnimating s))"

text \<open>
  Runs in which every \<open>goToPage\<close> call arrives while the engine is not flipping.
\<close>

fun is_jump :: "css_input \<Rightarrow> bool" where
  "is_jump (GoToPage i) = True"
| "is_jump i = False"

fun ready_jumps :: "css_engine \<Rightarrow> css_input list \<Rightarrow> bool" where
  "ready_jumps s [] = True"
| "ready_jumps s (i # ins) =
     ((\<not> is_jump i \<or> \<not> isFlipping s) \<and> ready_jumps (css_step s i) ins)"

fun gl_is_jump :: "gl_input \<Rightarrow> bool" where
  "gl_is_jump (GL_GoToPage i) = True"
| "gl_is_jump i = False"

fun gl_ready_jumps :: "gl_engine \<Rightarrow> gl_input list \<Rightarrow> bool" where
  "gl_ready_jumps s [] = True"
| "gl_ready_jumps s (i # ins) =
     ((\<not> gl_is_jump i \<or> \<not> isAnimating s) \<and> gl_ready_jumps (gl_step s i) ins)"

text \<open>
  The position is a valid index. In the layered engine no timer is pending; in the
  scene-graph engine a running timeline has its target in range, and there is no page
  until the textures are loaded.
\<close>

definition nav_inv :: "css_engine \<Rightarrow> bool" where
  "nav_inv s =
     (0 \<le> currentSpread s \<and> currentSpread s < int (length (spreads s)) \<and> timers s = [])"

definition gl_nav_inv :: "gl_engine \<Rightarrow> bool" where
  "gl_nav_inv s =
     (pages s = [] \<and> currentPage s = 0 \<and> tweens s = [] \<and> \<not> isAnimating s \<or>
      0 \<le> currentPage s \<and> currentPage s < int (length (pages s)) \<and>
      (tweens s = [] \<and> \<not> isAnimating s \<or>
       length (tweens s) = 1 \<and> isAnimating s \<and>
       (if tw_direction (hd (tweens s)) = Forward
        then currentPage s < int (length (pages s)) - 1
        else 0 < currentPage s)))"

text \<open>
  The events that end an image load, and the callbacks of loading.
\<close>

fun is_load_input :: "css_input \<Rightarrow> bool" where
  "is_load_input (ImageLoad k) = True"
| "is_load_input (ImageError k) = True"
| "is_load_input i = False"

fun is_load_event :: "event \<Rightarrow> bool" where
  "is_load_event (OnLoadProgress p) = True"
| "is_load_event OnLoadComplete = True"
| "is_load_event (OnError e) = True"
| "is_load_event OnReady = True"
| "is_load_event ev = False"

text \<open>
  The state of loading in the layered engine. After a rejection: the aggregate promise
  is rejected, \<open>onError\<close> has been called with the reason, and neither
  \<open>onLoadComplete\<close> nor \<open>onReady\<close> has. After the inputs \<open>ins\<close> without an
  \<open>ImageError\<close>: a promise is fulfilled when its image has loaded and pending
  otherwise, the aggregate promise is fulfilled when all images have loaded and pending
  otherwise, and \<open>onLoadComplete\<close> and \<open>onReady\<close> have been called exactly when it
  is fulfilled.
\<close>

definition css_rejected :: "js_error \<Rightarrow> css_engine \<Rightarrow> bool" where
  "css_rejected e s =
     (loadPromise s = Rejected e \<and> OnError e \<in> set (emitted s) \<and>
      OnReady \<notin> set (emitted s) \<and> OnLoadComplete \<notin> set (emitted s))"

definition css_clean :: "string list \<Rightarrow> css_input list \<Rightarrow> css_engine \<Rightarrow> bool" where
  "css_clean images ins r =
     (length (imagePromises r) = length images \<and>
      (\<forall>k<length images.
         imagePromises r ! k = (if ImageLoad k \<in> set ins then Fulfilled () else Pending)) \<and>
      loadPromise r =
        (if \<forall>k<length images. ImageLoad k \<in> set ins then Fulfilled () else Pending) \<and>
      (OnReady \<in> set (emitted r)) = (loadPromise r = Fulfilled ()) \<and>
      (OnLoadComplete \<in> set (emitted r)) = (loadPromise r = Fulfilled ()) \<and>
      (\<forall>e. OnError e \<notin> set (emitted r)))"

text \<open>
  The same for the scene-graph engine. A texture load succeeds when the loader calls
  back with an image of non-zero width and height; it fails when the loader reports an
  error or the image is missing or empty.
\<close>

fun texture_ok :: "(nat \<times> nat) option \<Rightarrow> bool" where
  "texture_ok None = False"
| "texture_ok (Some (w, h)) = (w \<noteq> 0 \<and> h \<noteq> 0)"

fun gl_is_load_input :: "gl_input \<Rightarrow> bool" where
  "gl_is_load_input (TextureLoad k img) = True"
| "gl_is_load_input (TextureError k m) = True"
| "gl_is_load_input i = False"

fun gl_is_failure :: "gl_input \<Rightarrow> bool" where
  "gl_is_failure (TextureLoad k img) = (\<not> texture_ok img)"
| "gl_is_failure (TextureError k m) = True"
| "gl_is_failure i = False"

definition texture_loaded :: "gl_input list \<Rightarrow> nat \<Rightarrow> bool" where
  "texture_loaded ins k = (\<exists>img. texture_ok img \<and> TextureLoad k img \<in> set ins)"

definition gl_rejected :: "js_error \<Rightarrow> gl_engine \<Rightarrow> bool" where
  "gl_rejected e s =
     (gl_loadPromise s = Rejected e \<and> OnError e \<in> set (gl_emitted s) \<and>
      OnReady \<notin> set (gl_emitted s) \<and> OnLoadComplete \<notin> set (gl_emitted s))"

definition gl_clean :: "string list \<Rightarrow> gl_input list \<Rightarrow> gl_engine \<Rightarrow> bool" where
  "gl_clean images ins r =
     (length (texturePromises r) = length images \<and>
      (\<forall>k<length images.
         if texture_loaded ins k then is_fulfilled (texturePromises r ! k)
         else texturePromises r ! k = Pending) \<and>
      gl_loadPromise r =
        (if \<forall>k<length images. texture_loaded ins k then Fulfilled () else Pending) \<and>
      (OnReady \<in> set (gl_emitted r)) = (gl_loadPromise r = Fulfilled ()) \<and>
      (OnLoadComplete \<in> set (gl_emitted r)) = (gl_loadPromise r = Fulfilled ()) \<and>
      (\<forall>e. OnError e \<notin> set (gl_emitted r)))"

text \<open>
  The \<open>loaded\<close> fields of the \<open>onLoadProgress\<close> calls of a log, in order, and what
  holds of them in the layered engine: they never decrease, none exceeds the number of
  loaded images, and once the aggregate promise is fulfilled all images are loaded and
  the last one is the number of images.
\<close>

fun progress_loaded :: "event list \<Rightarrow> int list" where
  "progress_loaded [] = []"
| "progress_loaded (OnLoadProgress p # es) = loaded p # progress_loaded es"
| "progress_loaded (e # es) = progress_loaded es"

definition css_progress_inv :: "css_engine \<Rightarrow> bool" where
  "css_progress_inv s =
     (finite (loadedImages s) \<and>
      loadedImages s \<subseteq> {..<length (media_src s)} \<and>
      length (imagePromises s) = length (media_src s) \<and>
      (\<forall>k<length (media_src s). imagePromises s ! k = Fulfilled () \<longrightarrow> k \<in> loadedImages s) \<and>
      sorted (progress_loaded (emitted s)) \<and>
      (\<forall>x\<in>set (progress_loaded (emitted s)). x \<le> int (card (loadedImages s))) \<and>
      (OnLoadComplete \<in> set (emitted s) \<longrightarrow> loadPromise s = Fulfilled ()) \<and>
      (loadPromise s = Fulfilled () \<and> media_src s \<noteq> [] \<longrightarrow>
         loadedImages s = {..<length (media_src s)} \<and>
         progress_loaded (emitted s) \<noteq> [] \<and>
         last (progress_loaded (emitted s)) = int (length (media_src s))))"

section \<open>Properties of the pagination model\<close>

lemma createSpreads_loop_length:
  "length (createSpreads_loop images i acc) =
     length acc + nat ((int (length images) - i) div 2)"
proof (induction images i acc rule: createSpreads_loop.induct)
  case (1 images i acc)
  show ?case
  proof (cases "i < int (length images) - 1")
    case True
    have arith: "Suc (nat ((int (length images) - (i + 2)) div 2)) =
        nat ((int (length images) - i) div 2)"
      using True by linarith
    have "length (createSpreads_loop images i acc) =
        Suc (length acc) + nat ((int (length images) - (i + 2)) div 2)"
      using "1.IH" [OF True] True by (subst createSpreads_loop.simps) simp
    then show ?thesis using arith by linarith
  next
    case False
    then show ?thesis
      by (subst createSpreads_loop.simps) simp
  qed
qed

lemma createSpreads_loop_prefix:
  "\<exists>rest. createSpreads_loop images i acc = acc @ rest"
proof (induction images i acc rule: createSpreads_loop.induct)
  case (1 images i acc)
  show ?case
  proof (cases "i < int (length images) - 1")
    case True
    then show ?thesis
      using "1.IH" by (subst createSpreads_loop.simps) auto
  next
    case False
    then show ?thesis
      by (subst createSpreads_loop.simps) simp
  qed
qed

lemma ceiling_half:
  assumes "2 \<le> (n::nat)"
  shows "nat \<lceil>(real n - 2) / 2\<rceil> = nat ((int n - 1) div 2)"
proof -
  have "(real n - 2) / 2 = real_of_int (int n - 2) / real_of_int 2"
    by simp
  then have "\<lceil>(real n - 2) / 2\<rceil> = - (- (int n - 2) div 2)"
    by (simp only: ceiling_divide_eq_div)
  also have "\<dots> = (int n - 1) div 2"
    by linarith
  finally show ?thesis by simp
qed

lemma createSpreads_length:
  assumes "2 \<le> length images"
  shows "length (createSpreads images) = nat \<lceil>(real (length images) - 2) / 2\<rceil> + 2"
proof -
  from assms have "images \<noteq> []" by auto
  with assms show ?thesis
    by (simp add: createSpreads_def createSpreads_loop_length Let_def ceiling_half)
qed

lemma createSpreads_first:
  assumes "images \<noteq> []"
  shows "createSpreads images ! 0 =
     \<lparr>left = None, right = Some (images ! 0), isCover = True, isBack = False\<rparr>"
proof -
  obtain rest where
    "createSpreads_loop images 1
       [\<lparr>left = None, right = js_index images 0, isCover = True, isBack = False\<rparr>] =
     [\<lparr>left = None, right = js_index images 0, isCover = True, isBack = False\<rparr>] @ rest"
    using createSpreads_loop_prefix by blast
  then show ?thesis
    using assms by (simp add: createSpreads_def Let_def js_index_def)
qed

lemma createSpreads_final:
  assumes "2 \<le> length images"
  shows "createSpreads images ! (length (createSpreads images) - 1) =
     \<lparr>left = Some (images ! (length images - 1)), right = None,
      isCover = False, isBack = True\<rparr>"
proof -
  from assms have "images \<noteq> []" by auto
  with assms have "last (createSpreads images) =
     \<lparr>left = Some (images ! (length images - 1)), right = None,
      isCover = False, isBack = True\<rparr>"
    by (simp add: createSpreads_def Let_def js_index_def nat_diff_distrib)
  moreover have "createSpreads images \<noteq> []"
    using assms createSpreads_length [OF assms] by auto
  ultimately show ?thesis
    by (simp add: last_conv_nth)
qed

lemma createSpreads_two:
  "createSpreads [''A'', ''B''] =
     [\<lparr>left = None, right = Some ''A'', isCover = True, isBack = False\<rparr>,
      \<lparr>left = Some ''B'', right = None, isCover = False, isBack = True\<rparr>]"
  by (simp add: createSpreads_def createSpreads_loop.simps js_index_def or_null_def)

lemma createSpreads_three:
  "createSpreads [''A'', ''B'', ''C''] =
     [\<lparr>left = None, right = Some ''A'', isCover = True, isBack = False\<rparr>,
      \<lparr>left = Some ''B'', right = Some ''C'', isCover = False, isBack = False\<rparr>,
      \<lparr>left = Some ''C'', right = None, isCover = False, isBack = True\<rparr>]"
  by (simp add: createSpreads_def createSpreads_loop.simps js_index_def or_null_def)

text \<open>
  Claim C1. No image gives no spread. One image gives exactly one spread, the front
  cover with the image in the right slot. \<open>L \<ge> 2\<close> images give exactly
  \<open>\<lceil>(L - 2) / 2\<rceil> + 2\<close> spreads; spread 0 is the front cover (right slot image 0,
  left slot empty) and the last spread is the back cover (left slot image \<open>L - 1\<close>,
  right slot empty).
\<close>

theorem createSpreads_covers_and_count:
  "createSpreads [] = [] \<and>
   createSpreads [x] = [\<lparr>left = None, right = Some x, isCover = True, isBack = False\<rparr>] \<and>
   (2 \<le> length images \<longrightarrow>
      length (createSpreads images) = nat \<lceil>(real (length images) - 2) / 2\<rceil> + 2 \<and>
      createSpreads images ! 0 =
        \<lparr>left = None, right = Some (images ! 0), isCover = True, isBack = False\<rparr> \<and>
      createSpreads images ! (length (createSpreads images) - 1) =
        \<lparr>left = Some (images ! (length images - 1)), right = None,
         isCover = False, isBack = True\<rparr>)"
proof -
  have "createSpreads [] = []"
    by (simp add: createSpreads_def createSpreads_loop.simps)
  moreover have "createSpreads [x] =
      [\<lparr>left = None, right = Some x, isCover = True, isBack = False\<rparr>]"
    by (simp add: createSpreads_def createSpreads_loop.simps js_index_def)
  moreover have "images \<noteq> []" if "2 \<le> length images"
    using that by auto
  ultimately show ?thesis
    using createSpreads_length createSpreads_first createSpreads_final by blast
qed

theorem createSpreads_covers_and_count_witness:
  "2 \<le> length [''A'', ''B'', ''C'', ''D'', ''E''] \<and>
   length (createSpreads [''A'', ''B'', ''C'', ''D'', ''E'']) = 4 \<and>
   createSpreads [''A'', ''B'', ''C'', ''D'', ''E''] ! 0 =
     \<lparr>left = None, right = Some ''A'', isCover = True, isBack = False\<rparr> \<and>
   createSpreads [''A'', ''B'', ''C'', ''D'', ''E''] ! 3 =
     \<lparr>left = Some ''E'', right = None, isCover = False, isBack = True\<rparr>"
proof -
  let ?images = "[''A'', ''B'', ''C'', ''D'', ''E'']"
  note t = createSpreads_covers_and_count [of "''A''" ?images]
  have l: "2 \<le> length ?images"
    by simp
  have c: "nat \<lceil>(real (length ?images) - 2) / 2\<rceil> = 2"
    by (simp add: ceiling_half)
  from t l have "length (createSpreads ?images) =
      nat \<lceil>(real (length ?images) - 2) / 2\<rceil> + 2"
    by blast
  with c have len: "length (createSpreads ?images) = 4"
    by simp
  from t l have first: "createSpreads ?images ! 0 =
      \<lparr>left = None, right = Some (?images ! 0), isCover = True, isBack = False\<rparr>"
    by blast
  from t l have "createSpreads ?images ! (length (createSpreads ?images) - 1) =
      \<lparr>left = Some (?images ! (length ?images - 1)), right = None,
       isCover = False, isBack = True\<rparr>"
    by blast
  then have final: "createSpreads ?images ! 3 =
      \<lparr>left = Some ''E'', right = None, isCover = False, isBack = True\<rparr>"
    by (simp add: len)
  from l len first final show ?thesis
    by simp
qed

text \<open>
  Claim C2. With \<open>L \<ge> 2\<close> images, the last image is in the back cover only and in no
  interior pair. The code breaks this whenever \<open>L\<close> is odd and at least 3: the loop
  runs while \<open>i < L - 1\<close> and reads \<open>images[i + 1]\<close>, which for the last \<open>i = L - 2\<close>
  is the last image. For three images the interior spread shows \<open>B\<close> and \<open>C\<close>, and
  the back cover shows \<open>C\<close> again.
\<close>

theorem createSpreads_three_repeats_last:
  "createSpreads [''A'', ''B'', ''C''] =
     [\<lparr>left = None, right = Some ''A'', isCover = True, isBack = False\<rparr>,
      \<lparr>left = Some ''B'', right = Some ''C'', isCover = False, isBack = False\<rparr>,
      \<lparr>left = Some ''C'', right = None, isCover = False, isBack = True\<rparr>]"
  by (simp add: createSpreads_def createSpreads_loop.simps js_index_def or_null_def)

section \<open>Frame lemmas of the layered engine\<close>

lemma renderCurrentSpread_fields [simp]:
  "media_src (renderCurrentSpread s) = media_src s"
  "spreads (renderCurrentSpread s) = spreads s"
  "currentSpread (renderCurrentSpread s) = currentSpread s"
  "isFlipping (renderCurrentSpread s) = isFlipping s"
  "flipDirection (renderCurrentSpread s) = flipDirection s"
  "loadedImages (renderCurrentSpread s) = loadedImages s"
  "flippingPages (renderCurrentSpread s) = flippingPages s"
  "timers (renderCurrentSpread s) = timers s"
  "imagePromises (renderCurrentSpread s) = imagePromises s"
  "loadPromise (renderCurrentSpread s) = loadPromise s"
  "emitted (renderCurrentSpread s) = emitted s"
  by (simp_all add: renderCurrentSpread_def split: option.split)

text \<open>
  \<open>.3d-flipbook\<close> is not a selector, so \<open>createFlippingPage\<close> throws and
  \<open>performFlipAnimation\<close> ends after \<open>onAnimationStart\<close>, with the flag set and
  no timer.
\<close>

lemma createFlippingPage_throws: "createFlippingPage d s = Inl SyntaxError"
  by (simp add: createFlippingPage_def querySelector_def class_selector_valid_def is_digit_def)

lemma performFlipAnimation_throws:
  "performFlipAnimation d s =
     (s\<lparr>isFlipping := True, flipDirection := Some d, emitted := emitted s @ [OnAnimationStart]\<rparr>,
      Some SyntaxError)"
  by (simp add: performFlipAnimation_def createFlippingPage_throws Let_def)

lemma performFlipAnimation_fields [simp]:
  "snd (performFlipAnimation d s) = Some SyntaxError"
  "media_src (fst (performFlipAnimation d s)) = media_src s"
  "spreads (fst (performFlipAnimation d s)) = spreads s"
  "currentSpread (fst (performFlipAnimation d s)) = currentSpread s"
  "isFlipping (fst (performFlipAnimation d s)) = True"
  "flipDirection (fst (performFlipAnimation d s)) = Some d"
  "loadedImages (fst (performFlipAnimation d s)) = loadedImages s"
  "flippingPages (fst (performFlipAnimation d s)) = flippingPages s"
  "timers (fst (performFlipAnimation d s)) = timers s"
  "imagePromises (fst (performFlipAnimation d s)) = imagePromises s"
  "loadPromise (fst (performFlipAnimation d s)) = loadPromise s"
  "emitted (fst (performFlipAnimation d s)) = emitted s @ [OnAnimationStart]"
  by (simp_all add: performFlipAnimation_throws)

lemma flipTimeout_fields [simp]:
  "media_src (flipTimeout d s) = media_src s"
  "spreads (flipTimeout d s) = spreads s"
  "currentSpread (flipTimeout d s) =
     (case d of Forward \<Rightarrow> currentSpread s + 1 | Back \<Rightarrow> currentSpread s - 1)"
  "isFlipping (flipTimeout d s) = False"
  "flipDirection (flipTimeout d s) = None"
  "loadedImages (flipTimeout d s) = loadedImages s"
  "timers (flipTimeout d s) = timers s"
  "imagePromises (flipTimeout d s) = imagePromises s"
  "loadPromise (flipTimeout d s) = loadPromise s"
  "emitted (flipTimeout d s) = emitted s @
     [OnPageChange
        \<lparr>page_index = (case d of Forward \<Rightarrow> currentSpread s + 1 | Back \<Rightarrow> currentSpread s - 1) * 2,
         page_total = int (length (spreads s)) * 2,
         page_spread = (case d of Forward \<Rightarrow> currentSpread s + 1 | Back \<Rightarrow> currentSpread s - 1),
         page_totalSpreads = int (length (spreads s))\<rparr>,
      OnAnimationEnd]"
  by (simp_all add: flipTimeout_def removeFlippingPage_def Let_def)

lemma goToPage_fields [simp]:
  "media_src (fst (CSSEngine_goToPage i s)) = media_src s"
  "spreads (fst (CSSEngine_goToPage i s)) = spreads s"
  "isFlipping (fst (CSSEngine_goToPage i s)) = isFlipping s"
  "flipDirection (fst (CSSEngine_goToPage i s)) = flipDirection s"
  "loadedImages (fst (CSSEngine_goToPage i s)) = loadedImages s"
  "flippingPages (fst (CSSEngine_goToPage i s)) = flippingPages s"
  "timers (fst (CSSEngine_goToPage i s)) = timers s"
  "imagePromises (fst (CSSEngine_goToPage i s)) = imagePromises s"
  "loadPromise (fst (CSSEngine_goToPage i s)) = loadPromise s"
  by (simp_all add: CSSEngine_goToPage_def Let_def)

lemma loadImages_fulfilled_fields [simp]:
  "media_src (loadImages_fulfilled s) = media_src s"
  "spreads (loadImages_fulfilled s) = spreads s"
  "currentSpread (loadImages_fulfilled s) = currentSpread s"
  "isFlipping (loadImages_fulfilled s) = isFlipping s"
  "loadedImages (loadImages_fulfilled s) = loadedImages s"
  "timers (loadImages_fulfilled s) = timers s"
  "imagePromises (loadImages_fulfilled s) = imagePromises s"
  "loadPromise (loadImages_fulfilled s) = loadPromise s"
  "emitted (loadImages_fulfilled s) = emitted s @ [OnLoadComplete, OnReady]"
  by (simp_all add: loadImages_fulfilled_def Let_def)

lemma loadImages_rejected_fields [simp]:
  "media_src (loadImages_rejected e s) = media_src s"
  "spreads (loadImages_rejected e s) = spreads s"
  "currentSpread (loadImages_rejected e s) = currentSpread s"
  "isFlipping (loadImages_rejected e s) = isFlipping s"
  "loadedImages (loadImages_rejected e s) = loadedImages s"
  "timers (loadImages_rejected e s) = timers s"
  "imagePromises (loadImages_rejected e s) = imagePromises s"
  "loadPromise (loadImages_rejected e s) = loadPromise s"
  "emitted (loadImages_rejected e s) = emitted s @ [OnError e]"
  by (simp_all add: loadImages_rejected_def)

lemma image_resolve_fields [simp]:
  "media_src (image_resolve k s) = media_src s"
  "spreads (image_resolve k s) = spreads s"
  "currentSpread (image_resolve k s) = currentSpread s"
  "isFlipping (image_resolve k s) = isFlipping s"
  "loadedImages (image_resolve k s) = loadedImages s"
  "timers (image_resolve k s) = timers s"
  by (simp_all add: image_resolve_def Let_def)

lemma image_reject_fields [simp]:
  "media_src (image_reject k e s) = media_src s"
  "spreads (image_reject k e s) = spreads s"
  "currentSpread (image_reject k e s) = currentSpread s"
  "isFlipping (image_reject k e s) = isFlipping s"
  "loadedImages (image_reject k e s) = loadedImages s"
  "timers (image_reject k e s) = timers s"
  by (simp_all add: image_reject_def Let_def)

lemma loadImage_onload_fields [simp]:
  "media_src (loadImage_onload k s) = media_src s"
  "spreads (loadImage_onload k s) = spreads s"
  "currentSpread (loadImage_onload k s) = currentSpread s"
  "isFlipping (loadImage_onload k s) = isFlipping s"
  "timers (loadImage_onload k s) = timers s"
  by (simp_all add: loadImage_onload_def Let_def)

lemma loadImage_onerror_fields [simp]:
  "media_src (loadImage_onerror k s) = media_src s"
  "spreads (loadImage_onerror k s) = spreads s"
  "currentSpread (loadImage_onerror k s) = currentSpread s"
  "isFlipping (loadImage_onerror k s) = isFlipping s"
  "loadedImages (loadImage_onerror k s) = loadedImages s"
  "timers (loadImage_onerror k s) = timers s"
  by (simp_all add: loadImage_onerror_def Let_def)

lemmas css_nav_defs =
  CSSEngine_nextPage_def CSSEngine_prevPage_def goToNextSpread_def goToPrevSpread_def
  handleKeyDown_def pageClick_def navButton_def touchEnd_def

lemma css_step_static [simp]:
  "media_src (css_step s i) = media_src s"
  "spreads (css_step s i) = spreads s"
  by (cases i; simp add: css_nav_defs split: key.split direction.split list.split)+

lemma css_run_static [simp]:
  "media_src (css_run s ins) = media_src s"
  "spreads (css_run s ins) = spreads s"
  unfolding css_run_def by (induction ins arbitrary: s) simp_all

lemma CSSEngine_new_fields [simp]:
  "media_src (CSSEngine_new images) = images"
  "spreads (CSSEngine_new images) = createSpreads images"
  "currentSpread (CSSEngine_new images) = 0"
  "isFlipping (CSSEngine_new images) = False"
  "timers (CSSEngine_new images) = []"
  "loadedImages (CSSEngine_new images) = {}"
  "imagePromises (CSSEngine_new images) = replicate (length images) Pending"
  "loadPromise (CSSEngine_new images) = (if images = [] then Fulfilled () else Pending)"
  "emitted (CSSEngine_new images) = (if images = [] then [OnLoadComplete, OnReady] else [])"
  by (simp_all add: CSSEngine_new_def loadImages_def Let_def)

text \<open>No timer is ever pending in the layered engine.\<close>

lemma css_step_no_timer:
  assumes "timers s = []"
  shows "timers (css_step s i) = []"
  using assms
  by (cases i; simp add: css_nav_defs split: key.split direction.split)

lemma css_run_no_timer:
  assumes "timers s = []"
  shows "timers (css_run s ins) = []"
  using assms unfolding css_run_def
  by (induction ins arbitrary: s) (simp_all add: css_step_no_timer)

section \<open>Frame lemmas of the scene-graph engine\<close>

lemma tweenComplete_fields [simp]:
  "gl_media_src (tweenComplete tw s) = gl_media_src s"
  "length (pages (tweenComplete tw s)) = length (pages s)"
  "textures (tweenComplete tw s) = textures s"
  "currentPage (tweenComplete tw s) =
     (case tw_direction tw of Forward \<Rightarrow> currentPage s + 1 | Back \<Rightarrow> currentPage s - 1)"
  "isAnimating (tweenComplete tw s) = False"
  "tweens (tweenComplete tw s) = tweens s"
  "texturePromises (tweenComplete tw s) = texturePromises s"
  "gl_loadPromise (tweenComplete tw s) = gl_loadPromise s"
  by (simp_all add: tweenComplete_def Let_def split: option.split)

lemma WebGLEngine_nextPage_fields [simp]:
  "gl_media_src (fst (WebGLEngine_nextPage s)) = gl_media_src s"
  "length (pages (fst (WebGLEngine_nextPage s))) = length (pages s)"
  "textures (fst (WebGLEngine_nextPage s)) = textures s"
  "currentPage (fst (WebGLEngine_nextPage s)) = currentPage s"
  "texturePromises (fst (WebGLEngine_nextPage s)) = texturePromises s"
  "gl_loadPromise (fst (WebGLEngine_nextPage s)) = gl_loadPromise s"
  by (simp_all add: WebGLEngine_nextPage_def Let_def split: option.split)

lemma WebGLEngine_prevPage_fields [simp]:
  "gl_media_src (fst (WebGLEngine_prevPage s)) = gl_media_src s"
  "length (pages (fst (WebGLEngine_prevPage s))) = length (pages s)"
  "textures (fst (WebGLEngine_prevPage s)) = textures s"
  "currentPage (fst (WebGLEngine_prevPage s)) = currentPage s"
  "texturePromises (fst (WebGLEngine_prevPage s)) = texturePromises s"
  "gl_loadPromise (fst (WebGLEngine_prevPage s)) = gl_loadPromise s"
  by (simp_all add: WebGLEngine_prevPage_def Let_def split: option.split)

lemma WebGLEngine_goToPage_fields [simp]:
  "gl_media_src (fst (WebGLEngine_goToPage i s)) = gl_media_src s"
  "length (pages (fst (WebGLEngine_goToPage i s))) = length (pages s)"
  "textures (fst (WebGLEngine_goToPage i s)) = textures s"
  "isAnimating (fst (WebGLEngine_goToPage i s)) = isAnimating s"
  "tweens (fst (WebGLEngine_goToPage i s)) = tweens s"
  "texturePromises (fst (WebGLEngine_goToPage i s)) = texturePromises s"
  "gl_loadPromise (fst (WebGLEngine_goToPage i s)) = gl_loadPromise s"
  by (simp_all add: WebGLEngine_goToPage_def Let_def split: option.split)

lemma constructor_then_fields [simp]:
  "gl_media_src (constructor_then s) = gl_media_src s"
  "currentPage (constructor_then s) = currentPage s"
  "isAnimating (constructor_then s) = isAnimating s"
  "tweens (constructor_then s) = tweens s"
  "texturePromises (constructor_then s) = texturePromises s"
  "gl_loadPromise (constructor_then s) = gl_loadPromise s"
  "gl_emitted (constructor_then s) = gl_emitted s @ [OnReady]"
  "pages (constructor_then s) = pages s @
     map (\<lambda>index. \<lparr>visible = (index = 0), rotationY = 0, positionZ = - real index * 0.001\<rparr>)
       [0..<length (textures s)]"
  by (simp_all add: constructor_then_def createPages_def Let_def)

lemma loadTextures_fulfilled_fields [simp]:
  "gl_media_src (loadTextures_fulfilled s) = gl_media_src s"
  "currentPage (loadTextures_fulfilled s) = currentPage s"
  "isAnimating (loadTextures_fulfilled s) = isAnimating s"
  "tweens (loadTextures_fulfilled s) = tweens s"
  "pages (loadTextures_fulfilled s) = pages s"
  "texturePromises (loadTextures_fulfilled s) = texturePromises s"
  "gl_loadPromise (loadTextures_fulfilled s) = gl_loadPromise s"
  "textures (loadTextures_fulfilled s) = promise_values (texturePromises s)"
  "gl_emitted (loadTextures_fulfilled s) = gl_emitted s @ [OnLoadComplete]"
  by (simp_all add: loadTextures_fulfilled_def)

lemma constructor_catch_fields [simp]:
  "gl_media_src (constructor_catch e s) = gl_media_src s"
  "currentPage (constructor_catch e s) = currentPage s"
  "isAnimating (constructor_catch e s) = isAnimating s"
  "tweens (constructor_catch e s) = tweens s"
  "pages (constructor_catch e s) = pages s"
  "texturePromises (constructor_catch e s) = texturePromises s"
  "gl_loadPromise (constructor_catch e s) = gl_loadPromise s"
  "gl_emitted (constructor_catch e s) = gl_emitted s @ [OnError e]"
  by (simp_all add: constructor_catch_def)

lemma texture_settle_fields [simp]:
  "gl_media_src (texture_settle k v s) = gl_media_src s"
  "currentPage (texture_settle k v s) = currentPage s"
  "isAnimating (texture_settle k v s) = isAnimating s"
  "tweens (texture_settle k v s) = tweens s"
  "pages (texture_settle k v s) = pages s"
  "gl_loadPromise (texture_settle k v s) = gl_loadPromise s"
  "gl_emitted (texture_settle k v s) = gl_emitted s"
  by (simp_all add: texture_settle_def)

lemma loadTextures_react_fields [simp]:
  "gl_media_src (loadTextures_react k s) = gl_media_src s"
  "currentPage (loadTextures_react k s) = currentPage s"
  "isAnimating (loadTextures_react k s) = isAnimating s"
  "tweens (loadTextures_react k s) = tweens s"
  "texturePromises (loadTextures_react k s) = texturePromises s"
  by (simp_all add: loadTextures_react_def split: promise.split)

lemma loader_onLoad_fields [simp]:
  "gl_media_src (loader_onLoad k img s) = gl_media_src s"
  "currentPage (loader_onLoad k img s) = currentPage s"
  "isAnimating (loader_onLoad k img s) = isAnimating s"
  "tweens (loader_onLoad k img s) = tweens s"
  by (simp_all add: loader_onLoad_def Let_def split: option.split prod.split)

lemma loader_onError_fields [simp]:
  "gl_media_src (loader_onError k m s) = gl_media_src s"
  "currentPage (loader_onError k m s) = currentPage s"
  "isAnimating (loader_onError k m s) = isAnimating s"
  "tweens (loader_onError k m s) = tweens s"
  by (simp_all add: loader_onError_def Let_def)

lemmas gl_nav_defs =
  WebGLEngine_nextPage_def WebGLEngine_prevPage_def handleInteraction_def onMouseDown_def
  onTouchStart_def

lemma gl_flip_inv_step: "gl_flip_inv s \<Longrightarrow> gl_flip_inv (gl_step s i)"
  by (cases i; auto simp: gl_flip_inv_def gl_nav_defs Let_def split: option.split list.split)

lemma gl_flip_inv_run: "gl_flip_inv s \<Longrightarrow> gl_flip_inv (gl_run s ins)"
  unfolding gl_run_def by (induction ins arbitrary: s) (simp_all add: gl_flip_inv_step)

lemma WebGLEngine_new_fields [simp]:
  "gl_media_src (WebGLEngine_new images) = images"
  "currentPage (WebGLEngine_new images) = 0"
  "isAnimating (WebGLEngine_new images) = False"
  "tweens (WebGLEngine_new images) = []"
  "pages (WebGLEngine_new images) = []"
  "texturePromises (WebGLEngine_new images) = replicate (length images) Pending"
  "gl_loadPromise (WebGLEngine_new images) = (if images = [] then Fulfilled () else Pending)"
  "gl_emitted (WebGLEngine_new images) = (if images = [] then [OnLoadComplete, OnReady] else [])"
  by (simp_all add: WebGLEngine_new_def loadTextures_def Let_def)

lemma gl_flip_inv_new: "gl_flip_inv (WebGLEngine_new images)"
  by (simp add: gl_flip_inv_def)

section \<open>Concrete runs\<close>

lemmas css_eval =
  css_run_def css_nav_defs performFlipAnimation_throws async_result_def js_index_def
  or_null_def CSSEngine_goToPage_def renderCurrentSpread_def Let_def flipTimeout_def
  removeFlippingPage_def CSSEngine_getCurrentPage_def loadImage_onload_def
  loadImage_onerror_def image_resolve_def image_reject_def loadImages_fulfilled_def
  loadImages_rejected_def

lemmas gl_eval =
  gl_run_def gl_nav_defs js_index_def Let_def WebGLEngine_goToPage_def tweenComplete_def
  WebGLEngine_getCurrentPage_def loader_onLoad_def loader_onError_def texture_settle_def
  loadTextures_react_def loadTextures_fulfilled_def constructor_then_def
  constructor_catch_def createPages_def

lemma CSSEngine_new_three:
  "CSSEngine_new [''A'', ''B'', ''C''] =
    \<lparr>media_src = [''A'', ''B'', ''C''],
     spreads = createSpreads [''A'', ''B'', ''C''],
     currentSpread = 0, isFlipping = False, flipDirection = None,
     loadedImages = {}, leftPage = None, rightPage = None,
     flippingPages = [], timers = [],
     imagePromises = [Pending, Pending, Pending], loadPromise = Pending,
     emitted = []\<rparr>"
  by (simp add: CSSEngine_new_def loadImages_def Let_def numeral_3_eq_3)

lemma WebGLEngine_new_two:
  "WebGLEngine_new [''A'', ''B''] =
    \<lparr>gl_media_src = [''A'', ''B''], pages = [], textures = [], currentPage = 0,
     isAnimating = False, renderLoop = False, tweens = [],
     texturePromises = [Pending, Pending], gl_loadPromise = Pending, gl_emitted = []\<rparr>"
  by (simp add: WebGLEngine_new_def loadTextures_def Let_def numeral_2_eq_2)

lemma upt2: "[0..<2] = [0, 1]"
  by (simp add: numeral_2_eq_2)

lemma gl_two_loaded:
  "gl_run (WebGLEngine_new [''A'', ''B''])
     [TextureLoad 0 (Some (2, 3)), TextureLoad 1 (Some (2, 3))] =
    \<lparr>gl_media_src = [''A'', ''B''],
     pages = [\<lparr>visible = True, rotationY = 0, positionZ = 0\<rparr>,
              \<lparr>visible = False, rotationY = 0, positionZ = - (1 / 1000)\<rparr>],
     textures = [\<lparr>aspectRatio = 2 / 3, tex_width = 2, tex_height = 3\<rparr>,
                 \<lparr>aspectRatio = 2 / 3, tex_width = 2, tex_height = 3\<rparr>],
     currentPage = 0, isAnimating = False, renderLoop = True, tweens = [],
     texturePromises = [Fulfilled \<lparr>aspectRatio = 2 / 3, tex_width = 2, tex_height = 3\<rparr>,
                        Fulfilled \<lparr>aspectRatio = 2 / 3, tex_width = 2, tex_height = 3\<rparr>],
     gl_loadPromise = Fulfilled (),
     gl_emitted =
       [OnLoadProgress \<lparr>loaded = 1, load_total = 2, progress = 1 / 2, currentItem = Some ''A''\<rparr>,
        OnLoadProgress \<lparr>loaded = 2, load_total = 2, progress = 1, currentItem = Some ''B''\<rparr>,
        OnLoadComplete, OnReady]\<rparr>"
  by (simp add: WebGLEngine_new_two gl_eval upt2)

lemma css_second_call_dropped:
  "css_run s [NextPage, NextPage] = css_run s [NextPage]"
  "css_run s [PrevPage, PrevPage] = css_run s [PrevPage]"
  by (simp_all add: css_run_def css_nav_defs)

lemma gl_second_call_dropped:
  "gl_run s [GL_NextPage, GL_NextPage] = gl_run s [GL_NextPage]"
  "gl_run s [GL_PrevPage, GL_PrevPage] = gl_run s [GL_PrevPage]"
  by (simp_all add: gl_run_def gl_nav_defs Let_def split: option.split)

lemma gl_one_advance:
  assumes "\<not> isAnimating s" "tweens s = []" "0 \<le> currentPage s"
    "currentPage s < int (length (pages s)) - 1"
  shows "length (tweens (gl_run s [GL_NextPage, GL_NextPage])) = 1"
    and "currentPage (gl_run s [GL_NextPage, GL_NextPage]) = currentPage s"
    and "currentPage (gl_run s [GL_NextPage, GL_NextPage, TweenComplete]) = currentPage s + 1"
    and "tweens (gl_run s [GL_NextPage, GL_NextPage, TweenComplete]) = []"
    and "gl_run s [GL_NextPage, GL_NextPage, TweenComplete, TweenComplete] =
         gl_run s [GL_NextPage, GL_NextPage, TweenComplete]"
  using assms by (simp_all add: gl_run_def gl_nav_defs Let_def js_index_def)

lemma gl_run_split: "gl_run s (xs @ ys) = gl_run (gl_run s xs) ys"
  by (simp add: gl_run_def)

lemma gl_two_flipped:
  "gl_run (WebGLEngine_new [''A'', ''B''])
     ([TextureLoad 0 (Some (2, 3)), TextureLoad 1 (Some (2, 3))] @ [GL_NextPage, TweenComplete]) =
    \<lparr>gl_media_src = [''A'', ''B''],
     pages = [\<lparr>visible = False, rotationY = - 1, positionZ = 0\<rparr>,
              \<lparr>visible = True, rotationY = 0, positionZ = - (1 / 1000)\<rparr>],
     textures = [\<lparr>aspectRatio = 2 / 3, tex_width = 2, tex_height = 3\<rparr>,
                 \<lparr>aspectRatio = 2 / 3, tex_width = 2, tex_height = 3\<rparr>],
     currentPage = 1, isAnimating = False, renderLoop = True, tweens = [],
     texturePromises = [Fulfilled \<lparr>aspectRatio = 2 / 3, tex_width = 2, tex_height = 3\<rparr>,
                        Fulfilled \<lparr>aspectRatio = 2 / 3, tex_width = 2, tex_height = 3\<rparr>],
     gl_loadPromise = Fulfilled (),
     gl_emitted =
       [OnLoadProgress \<lparr>loaded = 1, load_total = 2, progress = 1 / 2, currentItem = Some ''A''\<rparr>,
        OnLoadProgress \<lparr>loaded = 2, load_total = 2, progress = 1, currentItem = Some ''B''\<rparr>,
        OnLoadComplete, OnReady, OnAnimationStart,
        OnPageChange \<lparr>page_index = 1, page_total = 2, page_spread = 0, page_totalSpreads = 1\<rparr>,
        OnAnimationEnd]\<rparr>"
  unfolding gl_run_split gl_two_loaded by (simp add: gl_eval)

section \<open>The position over runs\<close>

lemma createSpreads_nonempty:
  assumes "images \<noteq> []"
  shows "createSpreads images \<noteq> []"
proof -
  obtain rest where
    "createSpreads_loop images 1
       [\<lparr>left = None, right = js_index images 0, isCover = True, isBack = False\<rparr>] =
     [\<lparr>left = None, right = js_index images 0, isCover = True, isBack = False\<rparr>] @ rest"
    using createSpreads_loop_prefix by blast
  then show ?thesis
    using assms by (simp add: createSpreads_def Let_def)
qed

lemma nav_inv_step:
  assumes "nav_inv s"
  shows "nav_inv (css_step s i)"
  using assms
  by (cases i)
    (auto simp: nav_inv_def css_nav_defs CSSEngine_goToPage_def Let_def
      split: key.splits direction.splits if_splits)

lemma nav_inv_run:
  assumes "nav_inv s"
  shows "nav_inv (css_run s ins)"
  using assms unfolding css_run_def
  by (induction ins arbitrary: s) (simp_all add: nav_inv_step)

lemma nav_inv_new:
  assumes "images \<noteq> []"
  shows "nav_inv (CSSEngine_new images)"
  using createSpreads_nonempty [OF assms] by (simp add: nav_inv_def)

lemma css_position_during_flip:
  assumes "\<not> is_jump i"
  shows "CSSEngine_getCurrentPage (css_step s i) = CSSEngine_getCurrentPage s \<or>
     \<not> isFlipping (css_step s i)"
  using assms
  by (cases i)
    (auto simp: CSSEngine_getCurrentPage_def css_nav_defs
      split: key.splits direction.splits list.splits if_splits)

lemma gl_nav_mono:
  assumes "gl_nav_inv s" "currentPage s' = currentPage s" "tweens s' = tweens s"
    "isAnimating s' = isAnimating s" "length (pages s) \<le> length (pages s')"
  shows "gl_nav_inv s'"
proof (cases "pages s' = []")
  case True
  with assms show ?thesis
    by (auto simp: gl_nav_inv_def)
next
  case False
  then have "0 < length (pages s')" by simp
  with assms show ?thesis
    unfolding gl_nav_inv_def by (auto split: if_splits)
qed

lemma loadTextures_react_pages:
  assumes "n \<le> length (pages s)"
  shows "n \<le> length (pages (loadTextures_react k s))"
  using assms by (simp add: loadTextures_react_def split: promise.split)

lemma loader_onLoad_pages: "length (pages s) \<le> length (pages (loader_onLoad k img s))"
  by (simp add: loader_onLoad_def Let_def loadTextures_react_pages split: option.split prod.split)

lemma loader_onError_pages: "length (pages s) \<le> length (pages (loader_onError k m s))"
  by (simp add: loader_onError_def Let_def loadTextures_react_pages)

lemma WebGLEngine_nextPage_noop:
  assumes "isAnimating s \<or> currentPage s \<ge> int (length (pages s)) - 1"
  shows "WebGLEngine_nextPage s = (s, Fulfilled ())"
  using assms by (auto simp: WebGLEngine_nextPage_def)

lemma WebGLEngine_prevPage_noop:
  assumes "isAnimating s \<or> currentPage s \<le> 0"
  shows "WebGLEngine_prevPage s = (s, Fulfilled ())"
  using assms by (auto simp: WebGLEngine_prevPage_def)

lemma WebGLEngine_nextPage_starts:
  assumes "\<not> isAnimating s" "0 \<le> currentPage s" "currentPage s < int (length (pages s)) - 1"
  shows "tweens (fst (WebGLEngine_nextPage s)) = tweens s @
      [\<lparr>tw_direction = Forward, tw_currentPageMesh = Some (nat (currentPage s)),
        tw_target = nat (currentPage s)\<rparr>]"
    and "isAnimating (fst (WebGLEngine_nextPage s))"
    and "snd (WebGLEngine_nextPage s) = Fulfilled ()"
    and "gl_emitted (fst (WebGLEngine_nextPage s)) = gl_emitted s @ [OnAnimationStart]"
  using assms by (simp_all add: WebGLEngine_nextPage_def Let_def js_index_def)

lemma WebGLEngine_prevPage_starts:
  assumes "\<not> isAnimating s" "0 < currentPage s" "currentPage s \<le> int (length (pages s))"
  shows "length (tweens (fst (WebGLEngine_prevPage s))) = Suc (length (tweens s))"
    and "tw_direction (last (tweens (fst (WebGLEngine_prevPage s)))) = Back"
    and "tweens s = [] \<Longrightarrow> tw_direction (hd (tweens (fst (WebGLEngine_prevPage s)))) = Back"
    and "isAnimating (fst (WebGLEngine_prevPage s))"
    and "snd (WebGLEngine_prevPage s) = Fulfilled ()"
    and "gl_emitted (fst (WebGLEngine_prevPage s)) = gl_emitted s @ [OnAnimationStart]"
  using assms by (simp_all add: WebGLEngine_prevPage_def Let_def js_index_def)

lemma gl_nav_inv_nextPage:
  assumes "gl_nav_inv s"
  shows "gl_nav_inv (fst (WebGLEngine_nextPage s))"
proof (cases "isAnimating s \<or> currentPage s \<ge> int (length (pages s)) - 1")
  case True
  with assms show ?thesis
    by (simp add: WebGLEngine_nextPage_noop)
next
  case False
  with assms have r: "\<not> isAnimating s" "0 \<le> currentPage s"
    "currentPage s < int (length (pages s)) - 1" "tweens s = []"
    by (auto simp: gl_nav_inv_def)
  from WebGLEngine_nextPage_starts(1,2) [OF r(1-3)] r show ?thesis
    by (simp add: gl_nav_inv_def)
qed

lemma gl_nav_inv_prevPage:
  assumes "gl_nav_inv s"
  shows "gl_nav_inv (fst (WebGLEngine_prevPage s))"
proof (cases "isAnimating s \<or> currentPage s \<le> 0")
  case True
  with assms show ?thesis
    by (simp add: WebGLEngine_prevPage_noop)
next
  case False
  with assms have r: "\<not> isAnimating s" "0 < currentPage s"
    "currentPage s \<le> int (length (pages s))" "tweens s = []"
    "currentPage s < int (length (pages s))"
    by (auto simp: gl_nav_inv_def)
  from WebGLEngine_prevPage_starts(1,3,4) [OF r(1-3)] r show ?thesis
    by (simp add: gl_nav_inv_def)
qed

lemma gl_nav_inv_goToPage:
  assumes "gl_nav_inv s" "\<not> isAnimating s"
  shows "gl_nav_inv (fst (WebGLEngine_goToPage i s))"
proof -
  have "currentPage (fst (WebGLEngine_goToPage i s)) = currentPage s \<or>
      currentPage (fst (WebGLEngine_goToPage i s)) = i \<and> 0 \<le> i \<and> i < int (length (pages s))"
    by (simp add: WebGLEngine_goToPage_def Let_def split: option.split)
  moreover have "(pages (fst (WebGLEngine_goToPage i s)) = []) = (pages s = [])"
    using WebGLEngine_goToPage_fields(2) [of i s] by (metis length_0_conv)
  ultimately show ?thesis
    using assms by (auto simp: gl_nav_inv_def)
qed

lemma gl_nav_inv_tween:
  assumes "gl_nav_inv s"
  shows "gl_nav_inv (gl_step s TweenComplete)"
proof (cases "tweens s")
  case Nil
  with assms show ?thesis by simp
next
  case (Cons tw tws)
  with assms have "tws = []" "0 \<le> currentPage s" "currentPage s < int (length (pages s))"
    "if tw_direction tw = Forward then currentPage s < int (length (pages s)) - 1
     else 0 < currentPage s"
    by (auto simp: gl_nav_inv_def split: if_splits)
  with Cons show ?thesis
    by (cases "tw_direction tw") (auto simp: gl_nav_inv_def)
qed

lemma gl_nav_inv_interaction:
  assumes "gl_nav_inv s"
  shows "gl_nav_inv (handleInteraction hit s)"
  using assms
  by (simp add: handleInteraction_def gl_nav_inv_nextPage gl_nav_inv_prevPage
      split: option.split)

lemma gl_nav_inv_step:
  assumes "gl_nav_inv s" "\<not> gl_is_jump i \<or> \<not> isAnimating s"
  shows "gl_nav_inv (gl_step s i)"
proof (cases i)
  case GL_NextPage
  with assms show ?thesis by (simp add: gl_nav_inv_nextPage)
next
  case GL_PrevPage
  with assms show ?thesis by (simp add: gl_nav_inv_prevPage)
next
  case (GL_GoToPage j)
  with assms show ?thesis by (simp add: gl_nav_inv_goToPage)
next
  case (MouseDown hit)
  with assms show ?thesis by (simp add: onMouseDown_def gl_nav_inv_interaction)
next
  case (TouchStart n hit)
  with assms show ?thesis by (simp add: onTouchStart_def gl_nav_inv_interaction)
next
  case TweenComplete
  with assms show ?thesis by (simp only: gl_nav_inv_tween)
next
  case (TextureLoad k img)
  with assms show ?thesis
    using gl_nav_mono [of s "loader_onLoad k img s"] by (simp add: loader_onLoad_pages)
next
  case (TextureError k m)
  with assms show ?thesis
    using gl_nav_mono [of s "loader_onError k m s"] by (simp add: loader_onError_pages)
qed

lemma gl_nav_inv_run:
  assumes "gl_nav_inv s" "gl_ready_jumps s ins"
  shows "gl_nav_inv (gl_run s ins)"
  using assms
proof (induction ins arbitrary: s)
  case Nil
  then show ?case by (simp add: gl_run_def)
next
  case (Cons i ins)
  from Cons.prems have "gl_nav_inv (gl_step s i)" "gl_ready_jumps (gl_step s i) ins"
    by (simp_all add: gl_nav_inv_step)
  from Cons.IH [OF this] show ?case
    by (simp add: gl_run_def)
qed

lemma gl_nav_inv_new: "gl_nav_inv (WebGLEngine_new images)"
  by (simp add: gl_nav_inv_def)

lemma gl_position_during_flip:
  assumes "\<not> gl_is_jump i" "isAnimating (gl_step s i)"
  shows "currentPage (gl_step s i) = currentPage s"
  using assms
  by (cases i)
    (auto simp: onMouseDown_def onTouchStart_def handleInteraction_def
      split: list.splits option.splits if_splits)

section \<open>Flips\<close>

text \<open>
  A navigation call that arrives while the engine is flipping, or whose target is out
  of range, changes nothing in either engine. In the layered engine a call that
  starts a flip sets the flag, calls \<open>onAnimationStart\<close> and throws: no timer is
  set, so over every run the engine stays flipping, \<open>onAnimationEnd\<close> is never
  called, and only \<open>goToPage\<close> can change the position.
\<close>

lemma navigation_guards:
  "isFlipping s \<or> currentSpread s \<ge> int (length (spreads s)) - 1 \<Longrightarrow>
     CSSEngine_nextPage s = (s, Fulfilled ())"
  "isFlipping s \<or> currentSpread s \<le> 0 \<Longrightarrow> CSSEngine_prevPage s = (s, Fulfilled ())"
  "isAnimating g \<or> currentPage g \<ge> int (length (pages g)) - 1 \<Longrightarrow>
     WebGLEngine_nextPage g = (g, Fulfilled ())"
  "isAnimating g \<or> currentPage g \<le> 0 \<Longrightarrow> WebGLEngine_prevPage g = (g, Fulfilled ())"
  by (auto simp: css_nav_defs async_result_def gl_nav_defs)

lemma CSSEngine_nextPage_starts:
  assumes "\<not> isFlipping s" "currentSpread s < int (length (spreads s)) - 1"
  shows "CSSEngine_nextPage s =
     (s\<lparr>isFlipping := True, flipDirection := Some Forward,
        emitted := emitted s @ [OnAnimationStart]\<rparr>,
      Rejected SyntaxError)"
  using assms by (simp add: css_nav_defs performFlipAnimation_throws async_result_def)

lemma CSSEngine_prevPage_starts:
  assumes "\<not> isFlipping s" "0 < currentSpread s"
  shows "CSSEngine_prevPage s =
     (s\<lparr>isFlipping := True, flipDirection := Some Back,
        emitted := emitted s @ [OnAnimationStart]\<rparr>,
      Rejected SyntaxError)"
  using assms by (simp add: css_nav_defs performFlipAnimation_throws async_result_def)

lemma css_step_never_commits:
  assumes "timers s = []"
  shows "\<not> is_jump i \<Longrightarrow> currentSpread (css_step s i) = currentSpread s"
    and "OnAnimationEnd \<in> set (emitted (css_step s i)) \<longleftrightarrow> OnAnimationEnd \<in> set (emitted s)"
    and "isFlipping s \<Longrightarrow> isFlipping (css_step s i)"
  using assms
  by (cases i; auto simp: css_nav_defs CSSEngine_goToPage_def Let_def loadImage_onload_def
      loadImage_onerror_def image_resolve_def image_reject_def
      split: key.splits direction.splits if_splits)+

lemma css_run_never_commits_from:
  assumes "timers s = []"
  shows "\<forall>i\<in>set ins. \<not> is_jump i \<Longrightarrow> currentSpread (css_run s ins) = currentSpread s"
    and "OnAnimationEnd \<in> set (emitted (css_run s ins)) \<longleftrightarrow> OnAnimationEnd \<in> set (emitted s)"
    and "isFlipping s \<Longrightarrow> isFlipping (css_run s ins)"
  using assms unfolding css_run_def
  by (induction ins arbitrary: s; simp add: css_step_never_commits css_step_no_timer)+

lemma css_never_commits:
  "\<forall>i\<in>set ins. \<not> is_jump i \<Longrightarrow> currentSpread (css_run (CSSEngine_new images) ins) = 0"
  "OnAnimationEnd \<notin> set (emitted (css_run (CSSEngine_new images) ins))"
  "timers (css_run (CSSEngine_new images) ins) = []"
  using css_run_never_commits_from [of "CSSEngine_new images" ins]
  by (simp_all add: css_run_no_timer)

text \<open>
  Claim C3. At most one flip is in flight; a \<open>nextPage\<close> or \<open>prevPage\<close> call made
  while the engine is flipping, or whose target is out of range, changes nothing; and
  two \<open>nextPage\<close> calls in immediate succession commit exactly one advance. The
  layered engine commits none: with three images the first call sets
  \<open>isFlipping\<close>, calls \<open>onAnimationStart\<close> and is rejected with the
  \<open>SyntaxError\<close> of \<open>querySelector('.3d-flipbook')\<close> before \<open>setTimeout\<close> is
  reached; the second call is dropped; no timer is pending, and the engine stays on
  spread 0, flipping. The scene-graph engine, called on a page that is not the last
  while no timeline runs, commits the one advance (lemma \<open>gl_one_advance\<close>).
\<close>

theorem nextPage_twice_commits_no_advance:
  "\<not> isFlipping (CSSEngine_new [''A'', ''B'', ''C'']) \<and>
   currentSpread (CSSEngine_new [''A'', ''B'', ''C'']) = 0 \<and>
   length (spreads (CSSEngine_new [''A'', ''B'', ''C''])) = 3 \<and>
   snd (CSSEngine_nextPage (CSSEngine_new [''A'', ''B'', ''C''])) = Rejected SyntaxError \<and>
   isFlipping (css_run (CSSEngine_new [''A'', ''B'', ''C'']) [NextPage, NextPage]) \<and>
   timers (css_run (CSSEngine_new [''A'', ''B'', ''C'']) [NextPage, NextPage]) = [] \<and>
   emitted (css_run (CSSEngine_new [''A'', ''B'', ''C'']) [NextPage, NextPage]) =
     [OnAnimationStart] \<and>
   css_run (CSSEngine_new [''A'', ''B'', ''C'']) [NextPage, NextPage, Timeout] =
     css_run (CSSEngine_new [''A'', ''B'', ''C'']) [NextPage, NextPage] \<and>
   CSSEngine_getCurrentPage
     (css_run (CSSEngine_new [''A'', ''B'', ''C'']) [NextPage, NextPage, Timeout]) =
     \<lparr>page_index = 0, page_total = 6, page_spread = 0, page_totalSpreads = 3\<rparr>"
  by (simp add: CSSEngine_new_three createSpreads_three css_eval)

section \<open>When the promise of a navigation call settles\<close>

text \<open>
  \<open>nextPage\<close> and \<open>prevPage\<close> are async functions that await nothing, so the
  promise they return is settled when the call returns: fulfilled if the body returned,
  rejected if it threw. Neither \<open>setTimeout\<close> nor the \<open>onComplete\<close> of the
  timeline is tied to it.
\<close>

lemma promise_settled_at_return:
  "snd (CSSEngine_nextPage s) \<noteq> Pending"
  "snd (CSSEngine_prevPage s) \<noteq> Pending"
  "snd (WebGLEngine_nextPage g) \<noteq> Pending"
  "snd (WebGLEngine_prevPage g) \<noteq> Pending"
  by (auto simp: css_nav_defs async_result_def gl_nav_defs Let_def split: option.splits)

lemma gl_ready_position:
  assumes "gl_ready_jumps (WebGLEngine_new images) gins"
    and "\<not> isAnimating (gl_run (WebGLEngine_new images) gins)"
  shows "tweens (gl_run (WebGLEngine_new images) gins) = []"
    and "0 \<le> currentPage (gl_run (WebGLEngine_new images) gins)"
    and "currentPage (gl_run (WebGLEngine_new images) gins) \<le>
      int (length (pages (gl_run (WebGLEngine_new images) gins)))"
  using gl_nav_inv_run [OF gl_nav_inv_new assms(1)] assms(2)
  by (auto simp: gl_nav_inv_def)

lemma WebGLEngine_nextPage_flip:
  assumes "\<not> isAnimating g" "tweens g = []" "0 \<le> currentPage g"
    "currentPage g < int (length (pages g)) - 1"
  shows "snd (WebGLEngine_nextPage g) = Fulfilled ()"
    and "isAnimating (fst (WebGLEngine_nextPage g))"
    and "currentPage (fst (WebGLEngine_nextPage g)) = currentPage g"
    and "length (tweens (fst (WebGLEngine_nextPage g))) = 1"
    and "gl_emitted (fst (WebGLEngine_nextPage g)) = gl_emitted g @ [OnAnimationStart]"
    and "currentPage (gl_step (fst (WebGLEngine_nextPage g)) TweenComplete) = currentPage g + 1"
    and "gl_emitted (gl_step (fst (WebGLEngine_nextPage g)) TweenComplete) =
        gl_emitted g @
        [OnAnimationStart,
         OnPageChange
           (WebGLEngine_getCurrentPage (gl_step (fst (WebGLEngine_nextPage g)) TweenComplete)),
         OnAnimationEnd]"
  using assms
  by (simp_all add: gl_nav_defs Let_def js_index_def tweenComplete_def
      WebGLEngine_getCurrentPage_def)

lemma WebGLEngine_prevPage_flip:
  assumes "\<not> isAnimating g" "tweens g = []" "0 < currentPage g"
    "currentPage g \<le> int (length (pages g))"
  shows "snd (WebGLEngine_prevPage g) = Fulfilled ()"
    and "isAnimating (fst (WebGLEngine_prevPage g))"
    and "currentPage (fst (WebGLEngine_prevPage g)) = currentPage g"
    and "length (tweens (fst (WebGLEngine_prevPage g))) = 1"
    and "gl_emitted (fst (WebGLEngine_prevPage g)) = gl_emitted g @ [OnAnimationStart]"
    and "currentPage (gl_step (fst (WebGLEngine_prevPage g)) TweenComplete) = currentPage g - 1"
    and "gl_emitted (gl_step (fst (WebGLEngine_prevPage g)) TweenComplete) =
        gl_emitted g @
        [OnAnimationStart,
         OnPageChange
           (WebGLEngine_getCurrentPage (gl_step (fst (WebGLEngine_prevPage g)) TweenComplete)),
         OnAnimationEnd]"
  using assms
  by (simp_all add: gl_nav_defs Let_def js_index_def tweenComplete_def
      WebGLEngine_getCurrentPage_def split: option.split)

text \<open>
  Claim C5, as the code has it. The promise that \<open>nextPage\<close> or \<open>prevPage\<close>
  returns is never pending when the call returns. In the scene-graph engine, in every
  state reached from the constructor by a run whose \<open>goToPage\<close> calls arrive while
  the engine is not animating, a call that starts a flip returns a fulfilled promise;
  at that moment the engine is animating, the position is still the old one, only
  \<open>onAnimationStart\<close> has been called and one timeline is running; the new position
  is committed, and \<open>onPageChange\<close> and \<open>onAnimationEnd\<close> are called, later,
  when the timeline ends. A call that starts no flip returns a fulfilled promise and
  changes nothing, in both engines. In the layered engine a call that starts a flip
  returns a promise rejected with the \<open>SyntaxError\<close> of
  \<open>querySelector('.3d-flipbook')\<close>, with no timer set and the position unchanged.
  The claim says that the promise settles only when the transition completes.
\<close>

theorem nextPage_settled_at_return:
  "snd (CSSEngine_nextPage s) \<noteq> Pending \<and>
   snd (CSSEngine_prevPage s) \<noteq> Pending \<and>
   snd (WebGLEngine_nextPage g) \<noteq> Pending \<and>
   snd (WebGLEngine_prevPage g) \<noteq> Pending \<and>
   (gl_ready_jumps (WebGLEngine_new images) gins \<and>
    \<not> isAnimating (gl_run (WebGLEngine_new images) gins) \<and>
    currentPage (gl_run (WebGLEngine_new images) gins) <
      int (length (pages (gl_run (WebGLEngine_new images) gins))) - 1 \<longrightarrow>
      snd (WebGLEngine_nextPage (gl_run (WebGLEngine_new images) gins)) = Fulfilled () \<and>
      isAnimating (fst (WebGLEngine_nextPage (gl_run (WebGLEngine_new images) gins))) \<and>
      currentPage (fst (WebGLEngine_nextPage (gl_run (WebGLEngine_new images) gins))) =
        currentPage (gl_run (WebGLEngine_new images) gins) \<and>
      length (tweens (fst (WebGLEngine_nextPage (gl_run (WebGLEngine_new images) gins)))) = 1 \<and>
      gl_emitted (fst (WebGLEngine_nextPage (gl_run (WebGLEngine_new images) gins))) =
        gl_emitted (gl_run (WebGLEngine_new images) gins) @ [OnAnimationStart] \<and>
      currentPage (gl_step (fst (WebGLEngine_nextPage (gl_run (WebGLEngine_new images) gins)))
          TweenComplete) =
        currentPage (gl_run (WebGLEngine_new images) gins) + 1 \<and>
      gl_emitted (gl_step (fst (WebGLEngine_nextPage (gl_run (WebGLEngine_new images) gins)))
          TweenComplete) =
        gl_emitted (gl_run (WebGLEngine_new images) gins) @
        [OnAnimationStart,
         OnPageChange
           (WebGLEngine_getCurrentPage
              (gl_step (fst (WebGLEngine_nextPage (gl_run (WebGLEngine_new images) gins)))
                 TweenComplete)),
         OnAnimationEnd]) \<and>
   (gl_ready_jumps (WebGLEngine_new images) gins \<and>
    \<not> isAnimating (gl_run (WebGLEngine_new images) gins) \<and>
    0 < currentPage (gl_run (WebGLEngine_new images) gins) \<longrightarrow>
      snd (WebGLEngine_prevPage (gl_run (WebGLEngine_new images) gins)) = Fulfilled () \<and>
      isAnimating (fst (WebGLEngine_prevPage (gl_run (WebGLEngine_new images) gins))) \<and>
      currentPage (fst (WebGLEngine_prevPage (gl_run (WebGLEngine_new images) gins))) =
        currentPage (gl_run (WebGLEngine_new images) gins) \<and>
      length (tweens (fst (WebGLEngine_prevPage (gl_run (WebGLEngine_new images) gins)))) = 1 \<and>
      gl_emitted (fst (WebGLEngine_prevPage (gl_run (WebGLEngine_new images) gins))) =
        gl_emitted (gl_run (WebGLEngine_new images) gins) @ [OnAnimationStart] \<and>
      currentPage (gl_step (fst (WebGLEngine_prevPage (gl_run (WebGLEngine_new images) gins)))
          TweenComplete) =
        currentPage (gl_run (WebGLEngine_new images) gins) - 1 \<and>
      gl_emitted (gl_step (fst (WebGLEngine_prevPage (gl_run (WebGLEngine_new images) gins)))
          TweenComplete) =
        gl_emitted (gl_run (WebGLEngine_new images) gins) @
        [OnAnimationStart,
         OnPageChange
           (WebGLEngine_getCurrentPage
              (gl_step (fst (WebGLEngine_prevPage (gl_run (WebGLEngine_new images) gins)))
                 TweenComplete)),
         OnAnimationEnd]) \<and>
   (isFlipping s \<or> currentSpread s \<ge> int (length (spreads s)) - 1 \<longrightarrow>
      CSSEngine_nextPage s = (s, Fulfilled ())) \<and>
   (isFlipping s \<or> currentSpread s \<le> 0 \<longrightarrow> CSSEngine_prevPage s = (s, Fulfilled ())) \<and>
   (isAnimating g \<or> currentPage g \<ge> int (length (pages g)) - 1 \<longrightarrow>
      WebGLEngine_nextPage g = (g, Fulfilled ())) \<and>
   (isAnimating g \<or> currentPage g \<le> 0 \<longrightarrow> WebGLEngine_prevPage g = (g, Fulfilled ())) \<and>
   (\<not> isFlipping s \<and> currentSpread s < int (length (spreads s)) - 1 \<longrightarrow>
      snd (CSSEngine_nextPage s) = Rejected SyntaxError \<and>
      isFlipping (fst (CSSEngine_nextPage s)) \<and>
      timers (fst (CSSEngine_nextPage s)) = timers s \<and>
      currentSpread (fst (CSSEngine_nextPage s)) = currentSpread s) \<and>
   (\<not> isFlipping s \<and> 0 < currentSpread s \<longrightarrow>
      snd (CSSEngine_prevPage s) = Rejected SyntaxError \<and>
      isFlipping (fst (CSSEngine_prevPage s)) \<and>
      timers (fst (CSSEngine_prevPage s)) = timers s \<and>
      currentSpread (fst (CSSEngine_prevPage s)) = currentSpread s)"
proof -
  let ?r = "gl_run (WebGLEngine_new images) gins"
  have n: "gl_ready_jumps (WebGLEngine_new images) gins \<and> \<not> isAnimating ?r \<and>
      currentPage ?r < int (length (pages ?r)) - 1 \<longrightarrow>
      snd (WebGLEngine_nextPage ?r) = Fulfilled () \<and>
      isAnimating (fst (WebGLEngine_nextPage ?r)) \<and>
      currentPage (fst (WebGLEngine_nextPage ?r)) = currentPage ?r \<and>
      length (tweens (fst (WebGLEngine_nextPage ?r))) = 1 \<and>
      gl_emitted (fst (WebGLEngine_nextPage ?r)) = gl_emitted ?r @ [OnAnimationStart] \<and>
      currentPage (gl_step (fst (WebGLEngine_nextPage ?r)) TweenComplete) = currentPage ?r + 1 \<and>
      gl_emitted (gl_step (fst (WebGLEngine_nextPage ?r)) TweenComplete) =
        gl_emitted ?r @
        [OnAnimationStart,
         OnPageChange
           (WebGLEngine_getCurrentPage (gl_step (fst (WebGLEngine_nextPage ?r)) TweenComplete)),
         OnAnimationEnd]"
  proof (intro impI)
    assume a: "gl_ready_jumps (WebGLEngine_new images) gins \<and> \<not> isAnimating ?r \<and>
      currentPage ?r < int (length (pages ?r)) - 1"
    then have h: "\<not> isAnimating ?r" "tweens ?r = []" "0 \<le> currentPage ?r"
      "currentPage ?r < int (length (pages ?r)) - 1"
      using gl_ready_position [of images gins] by simp_all
    show "snd (WebGLEngine_nextPage ?r) = Fulfilled () \<and>
      isAnimating (fst (WebGLEngine_nextPage ?r)) \<and>
      currentPage (fst (WebGLEngine_nextPage ?r)) = currentPage ?r \<and>
      length (tweens (fst (WebGLEngine_nextPage ?r))) = 1 \<and>
      gl_emitted (fst (WebGLEngine_nextPage ?r)) = gl_emitted ?r @ [OnAnimationStart] \<and>
      currentPage (gl_step (fst (WebGLEngine_nextPage ?r)) TweenComplete) = currentPage ?r + 1 \<and>
      gl_emitted (gl_step (fst (WebGLEngine_nextPage ?r)) TweenComplete) =
        gl_emitted ?r @
        [OnAnimationStart,
         OnPageChange
           (WebGLEngine_getCurrentPage (gl_step (fst (WebGLEngine_nextPage ?r)) TweenComplete)),
         OnAnimationEnd]"
      by (intro conjI WebGLEngine_nextPage_flip [OF h])
  qed
  have p: "gl_ready_jumps (WebGLEngine_new images) gins \<and> \<not> isAnimating ?r \<and>
      0 < currentPage ?r \<longrightarrow>
      snd (WebGLEngine_prevPage ?r) = Fulfilled () \<and>
      isAnimating (fst (WebGLEngine_prevPage ?r)) \<and>
      currentPage (fst (WebGLEngine_prevPage ?r)) = currentPage ?r \<and>
      length (tweens (fst (WebGLEngine_prevPage ?r))) = 1 \<and>
      gl_emitted (fst (WebGLEngine_prevPage ?r)) = gl_emitted ?r @ [OnAnimationStart] \<and>
      currentPage (gl_step (fst (WebGLEngine_prevPage ?r)) TweenComplete) = currentPage ?r - 1 \<and>
      gl_emitted (gl_step (fst (WebGLEngine_prevPage ?r)) TweenComplete) =
        gl_emitted ?r @
        [OnAnimationStart,
         OnPageChange
           (WebGLEngine_getCurrentPage (gl_step (fst (WebGLEngine_prevPage ?r)) TweenComplete)),
         OnAnimationEnd]"
  proof (intro impI)
    assume a: "gl_ready_jumps (WebGLEngine_new images) gins \<and> \<not> isAnimating ?r \<and>
      0 < currentPage ?r"
    then have h: "\<not> isAnimating ?r" "tweens ?r = []" "0 < currentPage ?r"
      "currentPage ?r \<le> int (length (pages ?r))"
      using gl_ready_position [of images gins] by simp_all
    show "snd (WebGLEngine_prevPage ?r) = Fulfilled () \<and>
      isAnimating (fst (WebGLEngine_prevPage ?r)) \<and>
      currentPage (fst (WebGLEngine_prevPage ?r)) = currentPage ?r \<and>
      length (tweens (fst (WebGLEngine_prevPage ?r))) = 1 \<and>
      gl_emitted (fst (WebGLEngine_prevPage ?r)) = gl_emitted ?r @ [OnAnimationStart] \<and>
      currentPage (gl_step (fst (WebGLEngine_prevPage ?r)) TweenComplete) = currentPage ?r - 1 \<and>
      gl_emitted (gl_step (fst (WebGLEngine_prevPage ?r)) TweenComplete) =
        gl_emitted ?r @
        [OnAnimationStart,
         OnPageChange
           (WebGLEngine_getCurrentPage (gl_step (fst (WebGLEngine_prevPage ?r)) TweenComplete)),
         OnAnimationEnd]"
      by (intro conjI WebGLEngine_prevPage_flip [OF h])
  qed
  have g: "isFlipping s \<or> currentSpread s \<ge> int (length (spreads s)) - 1 \<longrightarrow>
      CSSEngine_nextPage s = (s, Fulfilled ())"
    "isFlipping s \<or> currentSpread s \<le> 0 \<longrightarrow> CSSEngine_prevPage s = (s, Fulfilled ())"
    "isAnimating g \<or> currentPage g \<ge> int (length (pages g)) - 1 \<longrightarrow>
      WebGLEngine_nextPage g = (g, Fulfilled ())"
    "isAnimating g \<or> currentPage g \<le> 0 \<longrightarrow> WebGLEngine_prevPage g = (g, Fulfilled ())"
    using navigation_guards by blast+
  have st: "snd (CSSEngine_nextPage s) \<noteq> Pending" "snd (CSSEngine_prevPage s) \<noteq> Pending"
    "snd (WebGLEngine_nextPage g) \<noteq> Pending" "snd (WebGLEngine_prevPage g) \<noteq> Pending"
    by (rule promise_settled_at_return)+
  have c: "\<not> isFlipping s \<and> currentSpread s < int (length (spreads s)) - 1 \<longrightarrow>
      snd (CSSEngine_nextPage s) = Rejected SyntaxError \<and>
      isFlipping (fst (CSSEngine_nextPage s)) \<and>
      timers (fst (CSSEngine_nextPage s)) = timers s \<and>
      currentSpread (fst (CSSEngine_nextPage s)) = currentSpread s"
    "\<not> isFlipping s \<and> 0 < currentSpread s \<longrightarrow>
      snd (CSSEngine_prevPage s) = Rejected SyntaxError \<and>
      isFlipping (fst (CSSEngine_prevPage s)) \<and>
      timers (fst (CSSEngine_prevPage s)) = timers s \<and>
      currentSpread (fst (CSSEngine_prevPage s)) = currentSpread s"
    by (simp_all add: CSSEngine_nextPage_starts CSSEngine_prevPage_starts)
  from st n p g c show ?thesis
    by (intro conjI)
qed

text \<open>
  With two loaded pages: \<open>nextPage\<close> on page 0 and, after that flip has ended,
  \<open>prevPage\<close> on page 1 are fulfilled at return and commit at the end of the
  timeline; in the layered engine with two images the first \<open>nextPage\<close> is rejected
  and a second one, made while flipping, is fulfilled and changes nothing.
\<close>

theorem nextPage_settled_at_return_witness:
  "gl_ready_jumps (WebGLEngine_new [''A'', ''B''])
     [TextureLoad 0 (Some (2, 3)), TextureLoad 1 (Some (2, 3))] \<and>
   \<not> isAnimating (gl_run (WebGLEngine_new [''A'', ''B''])
     [TextureLoad 0 (Some (2, 3)), TextureLoad 1 (Some (2, 3))]) \<and>
   currentPage (gl_run (WebGLEngine_new [''A'', ''B''])
     [TextureLoad 0 (Some (2, 3)), TextureLoad 1 (Some (2, 3))]) = 0 \<and>
   length (pages (gl_run (WebGLEngine_new [''A'', ''B''])
     [TextureLoad 0 (Some (2, 3)), TextureLoad 1 (Some (2, 3))])) = 2 \<and>
   snd (WebGLEngine_nextPage (gl_run (WebGLEngine_new [''A'', ''B''])
     [TextureLoad 0 (Some (2, 3)), TextureLoad 1 (Some (2, 3))])) = Fulfilled () \<and>
   currentPage (gl_step (fst (WebGLEngine_nextPage (gl_run (WebGLEngine_new [''A'', ''B''])
     [TextureLoad 0 (Some (2, 3)), TextureLoad 1 (Some (2, 3))]))) TweenComplete) = 1 \<and>
   gl_ready_jumps (WebGLEngine_new [''A'', ''B''])
     [TextureLoad 0 (Some (2, 3)), TextureLoad 1 (Some (2, 3)), GL_NextPage, TweenComplete] \<and>
   currentPage (gl_run (WebGLEngine_new [''A'', ''B''])
     [TextureLoad 0 (Some (2, 3)), TextureLoad 1 (Some (2, 3)), GL_NextPage, TweenComplete]) = 1 \<and>
   snd (WebGLEngine_prevPage (gl_run (WebGLEngine_new [''A'', ''B''])
     [TextureLoad 0 (Some (2, 3)), TextureLoad 1 (Some (2, 3)), GL_NextPage, TweenComplete])) =
     Fulfilled () \<and>
   currentPage (gl_step (fst (WebGLEngine_prevPage (gl_run (WebGLEngine_new [''A'', ''B''])
     [TextureLoad 0 (Some (2, 3)), TextureLoad 1 (Some (2, 3)), GL_NextPage, TweenComplete])))
     TweenComplete) = 0 \<and>
   isFlipping (css_run (CSSEngine_new [''A'', ''B'']) [NextPage]) \<and>
   CSSEngine_nextPage (css_run (CSSEngine_new [''A'', ''B'']) [NextPage]) =
     (css_run (CSSEngine_new [''A'', ''B'']) [NextPage], Fulfilled ()) \<and>
   \<not> isFlipping (CSSEngine_new [''A'', ''B'']) \<and>
   currentSpread (CSSEngine_new [''A'', ''B'']) = 0 \<and>
   length (spreads (CSSEngine_new [''A'', ''B''])) = 2 \<and>
   snd (CSSEngine_nextPage (CSSEngine_new [''A'', ''B''])) = Rejected SyntaxError"
proof -
  let ?loads = "[TextureLoad 0 (Some (2, 3)), TextureLoad 1 (Some (2, 3))]"
  let ?g = "gl_run (WebGLEngine_new [''A'', ''B'']) ?loads"
  let ?flipped = "?loads @ [GL_NextPage, TweenComplete]"
  let ?gb = "gl_run (WebGLEngine_new [''A'', ''B'']) ?flipped"
  let ?s = "css_run (CSSEngine_new [''A'', ''B'']) [NextPage]"
  have r: "gl_ready_jumps (WebGLEngine_new [''A'', ''B'']) ?loads"
    by simp
  have h: "\<not> isAnimating ?g" "currentPage ?g = 0" "length (pages ?g) = 2"
    unfolding gl_two_loaded by simp_all
  have r2: "gl_ready_jumps (WebGLEngine_new [''A'', ''B'']) ?flipped"
    by simp
  have h2: "\<not> isAnimating ?gb" "currentPage ?gb = 1"
    unfolding gl_two_flipped by simp_all
  have f: "isFlipping ?s"
    by (simp add: createSpreads_two css_eval)
  note t = nextPage_settled_at_return [of ?s ?g "[''A'', ''B'']" ?loads]
  note t2 = nextPage_settled_at_return [of ?s ?g "[''A'', ''B'']" ?flipped]
  from h have lt: "currentPage ?g < int (length (pages ?g)) - 1"
    by simp
  from t r h(1) lt have c: "snd (WebGLEngine_nextPage ?g) = Fulfilled ()"
    "currentPage (gl_step (fst (WebGLEngine_nextPage ?g)) TweenComplete) = currentPage ?g + 1"
    by blast+
  from h2 have pos: "0 < currentPage ?gb"
    by simp
  from t2 r2 h2(1) pos have c2: "snd (WebGLEngine_prevPage ?gb) = Fulfilled ()"
    "currentPage (gl_step (fst (WebGLEngine_prevPage ?gb)) TweenComplete) = currentPage ?gb - 1"
    by blast+
  from t f have c3: "CSSEngine_nextPage ?s = (?s, Fulfilled ())"
    by blast
  have h0: "\<not> isFlipping (CSSEngine_new [''A'', ''B''])"
    "currentSpread (CSSEngine_new [''A'', ''B'']) = 0"
    "length (spreads (CSSEngine_new [''A'', ''B''])) = 2"
    by (simp_all add: createSpreads_two)
  note t0 = nextPage_settled_at_return [of "CSSEngine_new [''A'', ''B'']" ?g "[''A'', ''B'']" ?loads]
  from h0 have lt0: "currentSpread (CSSEngine_new [''A'', ''B'']) <
      int (length (spreads (CSSEngine_new [''A'', ''B'']))) - 1"
    by simp
  from t0 h0(1) lt0 have c0: "snd (CSSEngine_nextPage (CSSEngine_new [''A'', ''B''])) =
      Rejected SyntaxError"
    by blast
  from r h c r2 h2 c2 f c3 h0 c0 show ?thesis
    by simp
qed

text \<open>
  With two loaded pages, the promise of \<open>nextPage\<close> is fulfilled while the
  scene-graph engine still reports page 0, the timeline is running and
  \<open>onAnimationEnd\<close> has not been called.
\<close>

theorem nextPage_fulfilled_before_commit:
  "snd (WebGLEngine_nextPage (gl_run (WebGLEngine_new [''A'', ''B''])
      [TextureLoad 0 (Some (2, 3)), TextureLoad 1 (Some (2, 3))])) = Fulfilled () \<and>
   isAnimating (fst (WebGLEngine_nextPage (gl_run (WebGLEngine_new [''A'', ''B''])
      [TextureLoad 0 (Some (2, 3)), TextureLoad 1 (Some (2, 3))]))) \<and>
   currentPage (fst (WebGLEngine_nextPage (gl_run (WebGLEngine_new [''A'', ''B''])
      [TextureLoad 0 (Some (2, 3)), TextureLoad 1 (Some (2, 3))]))) = 0 \<and>
   length (tweens (fst (WebGLEngine_nextPage (gl_run (WebGLEngine_new [''A'', ''B''])
      [TextureLoad 0 (Some (2, 3)), TextureLoad 1 (Some (2, 3))])))) = 1 \<and>
   OnAnimationEnd \<notin> set (gl_emitted (fst (WebGLEngine_nextPage
      (gl_run (WebGLEngine_new [''A'', ''B''])
        [TextureLoad 0 (Some (2, 3)), TextureLoad 1 (Some (2, 3))])))) \<and>
   WebGLEngine_getCurrentPage (fst (WebGLEngine_nextPage
      (gl_run (WebGLEngine_new [''A'', ''B''])
        [TextureLoad 0 (Some (2, 3)), TextureLoad 1 (Some (2, 3))]))) =
     \<lparr>page_index = 0, page_total = 2, page_spread = 0, page_totalSpreads = 1\<rparr>"
  unfolding gl_two_loaded
  by (simp add: gl_nav_defs Let_def js_index_def WebGLEngine_getCurrentPage_def)

section \<open>Direct jumps\<close>

text \<open>
  What \<open>goToPage\<close> of the layered engine does: a target in range that differs from
  the current spread becomes the current spread at once, both pages are rendered, one
  \<open>onPageChange\<close> is called, and no flip is started; any other target changes
  nothing. Whether the engine is flipping plays no part.
\<close>

lemma CSSEngine_goToPage_jump:
  assumes "0 \<le> i div 2" "i div 2 < int (length (spreads s))" "i div 2 \<noteq> currentSpread s"
  shows "snd (CSSEngine_goToPage i s) = Fulfilled ()"
    and "currentSpread (fst (CSSEngine_goToPage i s)) = i div 2"
    and "emitted (fst (CSSEngine_goToPage i s)) = emitted s @
      [OnPageChange \<lparr>page_index = (i div 2) * 2, page_total = int (length (spreads s)) * 2,
         page_spread = i div 2, page_totalSpreads = int (length (spreads s))\<rparr>]"
    and "timers (fst (CSSEngine_goToPage i s)) = timers s"
    and "flippingPages (fst (CSSEngine_goToPage i s)) = flippingPages s"
    and "isFlipping (fst (CSSEngine_goToPage i s)) = isFlipping s"
  using assms by (simp_all add: CSSEngine_goToPage_def Let_def)

lemma CSSEngine_goToPage_noop:
  assumes "i div 2 < 0 \<or> int (length (spreads s)) \<le> i div 2 \<or> i div 2 = currentSpread s"
  shows "CSSEngine_goToPage i s = (s, Fulfilled ())"
  using assms by (auto simp: CSSEngine_goToPage_def Let_def)

lemma WebGLEngine_new_three:
  "WebGLEngine_new [''A'', ''B'', ''C''] =
    \<lparr>gl_media_src = [''A'', ''B'', ''C''], pages = [], textures = [], currentPage = 0,
     isAnimating = False, renderLoop = False, tweens = [],
     texturePromises = [Pending, Pending, Pending], gl_loadPromise = Pending,
     gl_emitted = []\<rparr>"
  by (simp add: WebGLEngine_new_def loadTextures_def Let_def numeral_3_eq_3)

lemma upt3: "[0..<3] = [0, 1, 2]"
  by (simp add: numeral_3_eq_3)

lemma gl_three_loaded:
  "gl_run (WebGLEngine_new [''A'', ''B'', ''C''])
     [TextureLoad 0 (Some (2, 3)), TextureLoad 1 (Some (2, 3)), TextureLoad 2 (Some (2, 3))] =
    \<lparr>gl_media_src = [''A'', ''B'', ''C''],
     pages = [\<lparr>visible = True, rotationY = 0, positionZ = 0\<rparr>,
              \<lparr>visible = False, rotationY = 0, positionZ = - (1 / 1000)\<rparr>,
              \<lparr>visible = False, rotationY = 0, positionZ = - (1 / 500)\<rparr>],
     textures = [\<lparr>aspectRatio = 2 / 3, tex_width = 2, tex_height = 3\<rparr>,
                 \<lparr>aspectRatio = 2 / 3, tex_width = 2, tex_height = 3\<rparr>,
                 \<lparr>aspectRatio = 2 / 3, tex_width = 2, tex_height = 3\<rparr>],
     currentPage = 0, isAnimating = False, renderLoop = True, tweens = [],
     texturePromises = [Fulfilled \<lparr>aspectRatio = 2 / 3, tex_width = 2, tex_height = 3\<rparr>,
                        Fulfilled \<lparr>aspectRatio = 2 / 3, tex_width = 2, tex_height = 3\<rparr>,
                        Fulfilled \<lparr>aspectRatio = 2 / 3, tex_width = 2, tex_height = 3\<rparr>],
     gl_loadPromise = Fulfilled (),
     gl_emitted =
       [OnLoadProgress \<lparr>loaded = 1, load_total = 3, progress = 1 / 3, currentItem = Some ''A''\<rparr>,
        OnLoadProgress \<lparr>loaded = 2, load_total = 3, progress = 2 / 3, currentItem = Some ''B''\<rparr>,
        OnLoadProgress \<lparr>loaded = 3, load_total = 3, progress = 1, currentItem = Some ''C''\<rparr>,
        OnLoadComplete, OnReady]\<rparr>"
  by (simp add: WebGLEngine_new_three gl_eval upt3)

lemma gl_three_jump_during_flip:
  "isAnimating (gl_run (WebGLEngine_new [''A'', ''B'', ''C''])
     ([TextureLoad 0 (Some (2, 3)), TextureLoad 1 (Some (2, 3)), TextureLoad 2 (Some (2, 3))] @
      [GL_NextPage]))"
  "currentPage (gl_run (WebGLEngine_new [''A'', ''B'', ''C''])
     ([TextureLoad 0 (Some (2, 3)), TextureLoad 1 (Some (2, 3)), TextureLoad 2 (Some (2, 3))] @
      [GL_NextPage, GL_GoToPage 2])) = 2"
  "WebGLEngine_getCurrentPage (gl_run (WebGLEngine_new [''A'', ''B'', ''C''])
     ([TextureLoad 0 (Some (2, 3)), TextureLoad 1 (Some (2, 3)), TextureLoad 2 (Some (2, 3))] @
      [GL_NextPage, GL_GoToPage 2, TweenComplete])) =
     \<lparr>page_index = 3, page_total = 3, page_spread = 1, page_totalSpreads = 2\<rparr>"
  unfolding gl_run_split gl_three_loaded
  by (simp_all add: gl_eval)

text \<open>
  Claim C4. \<open>goToPage(i)\<close> halves \<open>i\<close> to a spread index and is effective only
  when the engine is not flipping, the target differs from the current position and
  is in range. The code has the range and the difference checks but no check of
  \<open>isFlipping\<close> (\<open>isAnimating\<close>), which every other way to navigate has. With
  three images in the layered engine, \<open>goToPage(4)\<close> made while the engine is
  flipping after \<open>nextPage\<close> moves the engine to spread 2 and calls
  \<open>onPageChange\<close>: \<open>getCurrentPage\<close> reports index 4 of 6 pages while
  \<open>isFlipping\<close> is still set. In the scene-graph engine, which takes \<open>i\<close> as
  the page index, \<open>goToPage(2)\<close> during the flip moves the engine to page 2, and
  the end of the timeline then adds 1: \<open>getCurrentPage\<close> reports index 3 of 3
  pages.
\<close>

theorem goToPage_during_flip_is_effective:
  "isFlipping (css_run (CSSEngine_new [''A'', ''B'', ''C'']) [NextPage]) \<and>
   currentSpread (css_run (CSSEngine_new [''A'', ''B'', ''C'']) [NextPage]) = 0 \<and>
   currentSpread (css_run (CSSEngine_new [''A'', ''B'', ''C'']) [NextPage, GoToPage 4]) = 2 \<and>
   emitted (css_run (CSSEngine_new [''A'', ''B'', ''C'']) [NextPage, GoToPage 4]) =
     [OnAnimationStart,
      OnPageChange
        \<lparr>page_index = 4, page_total = 6, page_spread = 2, page_totalSpreads = 3\<rparr>] \<and>
   isFlipping (css_run (CSSEngine_new [''A'', ''B'', ''C'']) [NextPage, GoToPage 4]) \<and>
   CSSEngine_getCurrentPage
     (css_run (CSSEngine_new [''A'', ''B'', ''C'']) [NextPage, GoToPage 4]) =
     \<lparr>page_index = 4, page_total = 6, page_spread = 2, page_totalSpreads = 3\<rparr> \<and>
   isAnimating (gl_run (WebGLEngine_new [''A'', ''B'', ''C''])
     [TextureLoad 0 (Some (2, 3)), TextureLoad 1 (Some (2, 3)), TextureLoad 2 (Some (2, 3)),
      GL_NextPage]) \<and>
   currentPage (gl_run (WebGLEngine_new [''A'', ''B'', ''C''])
     [TextureLoad 0 (Some (2, 3)), TextureLoad 1 (Some (2, 3)), TextureLoad 2 (Some (2, 3)),
      GL_NextPage, GL_GoToPage 2]) = 2 \<and>
   WebGLEngine_getCurrentPage (gl_run (WebGLEngine_new [''A'', ''B'', ''C''])
     [TextureLoad 0 (Some (2, 3)), TextureLoad 1 (Some (2, 3)), TextureLoad 2 (Some (2, 3)),
      GL_NextPage, GL_GoToPage 2, TweenComplete]) =
     \<lparr>page_index = 3, page_total = 3, page_spread = 1, page_totalSpreads = 2\<rparr>"
proof -
  have css:
    "isFlipping (css_run (CSSEngine_new [''A'', ''B'', ''C'']) [NextPage])"
    "currentSpread (css_run (CSSEngine_new [''A'', ''B'', ''C'']) [NextPage]) = 0"
    "currentSpread (css_run (CSSEngine_new [''A'', ''B'', ''C'']) [NextPage, GoToPage 4]) = 2"
    "emitted (css_run (CSSEngine_new [''A'', ''B'', ''C'']) [NextPage, GoToPage 4]) =
       [OnAnimationStart,
        OnPageChange
          \<lparr>page_index = 4, page_total = 6, page_spread = 2, page_totalSpreads = 3\<rparr>]"
    "isFlipping (css_run (CSSEngine_new [''A'', ''B'', ''C'']) [NextPage, GoToPage 4])"
    "CSSEngine_getCurrentPage
       (css_run (CSSEngine_new [''A'', ''B'', ''C'']) [NextPage, GoToPage 4]) =
       \<lparr>page_index = 4, page_total = 6, page_spread = 2, page_totalSpreads = 3\<rparr>"
    by (simp_all add: CSSEngine_new_three createSpreads_three css_eval)
  have gl:
    "isAnimating (gl_run (WebGLEngine_new [''A'', ''B'', ''C''])
       [TextureLoad 0 (Some (2, 3)), TextureLoad 1 (Some (2, 3)), TextureLoad 2 (Some (2, 3)),
        GL_NextPage])"
    "currentPage (gl_run (WebGLEngine_new [''A'', ''B'', ''C''])
       [TextureLoad 0 (Some (2, 3)), TextureLoad 1 (Some (2, 3)), TextureLoad 2 (Some (2, 3)),
        GL_NextPage, GL_GoToPage 2]) = 2"
    "WebGLEngine_getCurrentPage (gl_run (WebGLEngine_new [''A'', ''B'', ''C''])
       [TextureLoad 0 (Some (2, 3)), TextureLoad 1 (Some (2, 3)), TextureLoad 2 (Some (2, 3)),
        GL_NextPage, GL_GoToPage 2, TweenComplete]) =
       \<lparr>page_index = 3, page_total = 3, page_spread = 1, page_totalSpreads = 2\<rparr>"
    using gl_three_jump_during_flip by simp_all
  from css gl show ?thesis
    by (intro conjI)
qed

section \<open>The facade's loading progress\<close>

text \<open>
  Claim C9. \<open>Flipbook.getLoadingProgress\<close> never reports partial progress: in every
  state of the engine it returns \<open>loaded\<close> equal to \<open>total\<close>, both the
  \<open>total\<close> of \<open>getCurrentPage\<close>, and \<open>progress\<close> 1. What the engine knows about
  loading (the loaded images, the promises) does not enter the result.
\<close>

theorem Flipbook_getLoadingProgress_always_complete:
  "loaded (Flipbook_getLoadingProgress f) = load_total (Flipbook_getLoadingProgress f) \<and>
   progress (Flipbook_getLoadingProgress f) = 1 \<and>
   load_total (Flipbook_getLoadingProgress f) = page_total (Flipbook_getCurrentPage f) \<and>
   Flipbook_getLoadingProgress
     \<lparr>engine = CSS (e\<lparr>loadedImages := li, imagePromises := ps, loadPromise := lp\<rparr>)\<rparr> =
     Flipbook_getLoadingProgress \<lparr>engine = CSS e\<rparr> \<and>
   Flipbook_getLoadingProgress
     \<lparr>engine = WebGL (g\<lparr>texturePromises := tp, gl_loadPromise := glp\<rparr>)\<rparr> =
     Flipbook_getLoadingProgress \<lparr>engine = WebGL g\<rparr>"
  by (simp add: Flipbook_getLoadingProgress_def Flipbook_getCurrentPage_def Let_def
      CSSEngine_getCurrentPage_def WebGLEngine_getCurrentPage_def)

text \<open>
  A layered engine with three images of which none has loaded: the facade reports
  6 of 6 loaded.
\<close>

theorem Flipbook_getLoadingProgress_always_complete_witness:
  "Flipbook_new RenderCSS True (Many [''A'', ''B'', ''C'']) =
     Inr \<lparr>engine = CSS (CSSEngine_new [''A'', ''B'', ''C''])\<rparr> \<and>
   loadedImages (CSSEngine_new [''A'', ''B'', ''C'']) = {} \<and>
   loadPromise (CSSEngine_new [''A'', ''B'', ''C'']) = Pending \<and>
   Flipbook_getLoadingProgress \<lparr>engine = CSS (CSSEngine_new [''A'', ''B'', ''C''])\<rparr> =
     \<lparr>loaded = 6, load_total = 6, progress = 1, currentItem = None\<rparr>"
  using Flipbook_getLoadingProgress_always_complete
    [of "\<lparr>engine = CSS (CSSEngine_new [''A'', ''B'', ''C''])\<rparr>"]
  by (simp add: createSpreads_three Flipbook_getLoadingProgress_def Flipbook_new_def
      images_of_def Flipbook_getCurrentPage_def CSSEngine_getCurrentPage_def Let_def)

section \<open>Page information of the layered engine\<close>

lemma css_step_page_events:
  assumes "OnPageChange info \<in> set (emitted (css_step s i))"
  shows "OnPageChange info \<in> set (emitted s) \<or>
     (page_total info = int (length (spreads s)) * 2 \<and>
      page_index info = page_spread info * 2 \<and>
      page_totalSpreads info = int (length (spreads s)))"
  using assms
  by (cases i)
    (auto simp: css_nav_defs CSSEngine_goToPage_def Let_def loadImage_onload_def
      loadImage_onerror_def image_resolve_def image_reject_def
      split: key.splits direction.splits list.splits if_splits)

lemma css_run_page_events:
  assumes "OnPageChange info \<in> set (emitted (css_run s ins))"
  shows "OnPageChange info \<in> set (emitted s) \<or>
     (page_total info = int (length (spreads s)) * 2 \<and>
      page_index info = page_spread info * 2 \<and>
      page_totalSpreads info = int (length (spreads s)))"
  using assms
proof (induction ins arbitrary: s)
  case Nil
  then show ?case by (simp add: css_run_def)
next
  case (Cons i ins)
  from Cons.prems have "OnPageChange info \<in> set (emitted (css_run (css_step s i) ins))"
    by (simp add: css_run_def)
  from Cons.IH [OF this] show ?case
    using css_step_page_events [of info s i] by auto
qed

text \<open>
  Claim C10. In the layered engine the \<open>total\<close> of every \<open>PageInfo\<close>, whether
  returned by \<open>getCurrentPage\<close> or passed to \<open>onPageChange\<close>, is twice the number
  of spreads, not the number of images: for \<open>L \<ge> 2\<close> images it is
  \<open>2 * (\<lceil>(L - 2) / 2\<rceil> + 2)\<close>. The \<open>index\<close> is the even number twice the spread
  index.
\<close>

theorem CSSEngine_total_is_twice_spreads:
  "page_total (CSSEngine_getCurrentPage s) = 2 * int (length (spreads s)) \<and>
   page_index (CSSEngine_getCurrentPage s) = 2 * currentSpread s \<and>
   even (page_index (CSSEngine_getCurrentPage s)) \<and>
   spreads (css_run (CSSEngine_new images) ins) = createSpreads images \<and>
   (OnPageChange info \<in> set (emitted (css_run (CSSEngine_new images) ins)) \<longrightarrow>
      page_total info = 2 * int (length (createSpreads images)) \<and>
      page_index info = 2 * page_spread info \<and>
      even (page_index info)) \<and>
   (2 \<le> length images \<longrightarrow>
      page_total (CSSEngine_getCurrentPage (css_run (CSSEngine_new images) ins)) =
        2 * (int (nat \<lceil>(real (length images) - 2) / 2\<rceil>) + 2) \<and>
      (OnPageChange info \<in> set (emitted (css_run (CSSEngine_new images) ins)) \<longrightarrow>
         page_total info = 2 * (int (nat \<lceil>(real (length images) - 2) / 2\<rceil>) + 2)))"
proof -
  have ev: "page_total info = 2 * int (length (createSpreads images)) \<and>
      page_index info = 2 * page_spread info \<and> even (page_index info)"
    if "OnPageChange info \<in> set (emitted (css_run (CSSEngine_new images) ins))"
    using css_run_page_events [OF that] by (auto split: if_splits)
  have len: "int (length (createSpreads images)) =
      int (nat \<lceil>(real (length images) - 2) / 2\<rceil>) + 2" if "2 \<le> length images"
    using createSpreads_length [OF that] by simp
  show ?thesis
  proof (intro conjI impI)
    show "page_total (CSSEngine_getCurrentPage (css_run (CSSEngine_new images) ins)) =
        2 * (int (nat \<lceil>(real (length images) - 2) / 2\<rceil>) + 2)" if "2 \<le> length images"
      using len [OF that] by (simp add: CSSEngine_getCurrentPage_def)
    show "page_total info = 2 * (int (nat \<lceil>(real (length images) - 2) / 2\<rceil>) + 2)"
      if "2 \<le> length images"
        "OnPageChange info \<in> set (emitted (css_run (CSSEngine_new images) ins))"
      using len [OF that(1)] ev [OF that(2)] by simp
  qed (use ev in \<open>simp_all add: CSSEngine_getCurrentPage_def\<close>)
qed

text \<open>
  With three images, \<open>goToPage(4)\<close> calls \<open>onPageChange\<close> with index 4 of 6 pages
  (spread 2 of 3), and \<open>getCurrentPage\<close> reports the same.
\<close>

theorem CSSEngine_total_is_twice_spreads_witness:
  "2 \<le> length [''A'', ''B'', ''C''] \<and>
   emitted (css_run (CSSEngine_new [''A'', ''B'', ''C'']) [GoToPage 4]) =
     [OnPageChange \<lparr>page_index = 4, page_total = 6, page_spread = 2, page_totalSpreads = 3\<rparr>] \<and>
   page_total \<lparr>page_index = 4, page_total = 6, page_spread = 2, page_totalSpreads = 3\<rparr> =
     2 * (int (nat \<lceil>(real (length [''A'', ''B'', ''C'']) - 2) / 2\<rceil>) + 2) \<and>
   length (createSpreads [''A'', ''B'', ''C'']) = 3 \<and>
   page_total (CSSEngine_getCurrentPage
     (css_run (CSSEngine_new [''A'', ''B'', ''C'']) [GoToPage 4])) = 6 \<and>
   page_index (CSSEngine_getCurrentPage
     (css_run (CSSEngine_new [''A'', ''B'', ''C'']) [GoToPage 4])) = 4 \<and>
   nat \<lceil>(real (length [''A'', ''B'', ''C'']) - 2) / 2\<rceil> = 1"
proof -
  let ?images = "[''A'', ''B'', ''C'']"
  let ?ins = "[GoToPage 4]"
  let ?info = "\<lparr>page_index = 4, page_total = 6, page_spread = 2, page_totalSpreads = 3\<rparr>"
  have l: "2 \<le> length ?images"
    by simp
  have "nat \<lceil>(real (length ?images) - 2) / 2\<rceil> = nat ((int (length ?images) - 1) div 2)"
    by (rule ceiling_half) simp
  then have c: "nat \<lceil>(real (length ?images) - 2) / 2\<rceil> = 1"
    by simp
  have e: "emitted (css_run (CSSEngine_new ?images) ?ins) = [OnPageChange ?info]"
    by (simp add: CSSEngine_new_three createSpreads_three css_eval)
  then have m: "OnPageChange ?info \<in> set (emitted (css_run (CSSEngine_new ?images) ?ins))"
    by simp
  have cur: "currentSpread (css_run (CSSEngine_new ?images) ?ins) = 2"
    by (simp add: CSSEngine_new_three createSpreads_three css_eval)
  have n: "length (createSpreads ?images) = 3"
    by (simp add: createSpreads_three)
  note t = CSSEngine_total_is_twice_spreads
    [of "css_run (CSSEngine_new ?images) ?ins" ?images ?ins ?info]
  from t l m have ev: "page_total ?info =
      2 * (int (nat \<lceil>(real (length ?images) - 2) / 2\<rceil>) + 2)"
    by blast
  from t l have "page_total (CSSEngine_getCurrentPage (css_run (CSSEngine_new ?images) ?ins)) =
      2 * (int (nat \<lceil>(real (length ?images) - 2) / 2\<rceil>) + 2)"
    by blast
  with c have tot: "page_total (CSSEngine_getCurrentPage (css_run (CSSEngine_new ?images) ?ins)) = 6"
    by simp
  from t have "page_index (CSSEngine_getCurrentPage (css_run (CSSEngine_new ?images) ?ins)) =
      2 * currentSpread (css_run (CSSEngine_new ?images) ?ins)"
    by blast
  with cur have idx: "page_index (CSSEngine_getCurrentPage (css_run (CSSEngine_new ?images) ?ins)) = 4"
    by simp
  from l e ev n tot idx c show ?thesis
    by (intro conjI)
qed

section \<open>What getCurrentPage reports\<close>

text \<open>
  Claim C8, as the code has it. For an engine that has a page to show (the layered
  engine with a non-empty media list, the scene-graph engine once its pages are
  built), and over every run before disposal whose \<open>goToPage\<close> calls all arrive while
  the engine is not flipping, the \<open>index\<close> of \<open>getCurrentPage\<close> lies in
  \<open>[0, total - 1]\<close>. Starting a flip does not change what \<open>getCurrentPage\<close>
  returns, and no event other than a \<open>goToPage\<close> call changes the position as long
  as the engine is flipping afterwards: the position changes in the callback that ends
  the flip. Nothing is said here about a \<open>goToPage\<close> call during a flip.
\<close>

theorem getCurrentPage_in_range_and_committed:
  "(images \<noteq> [] \<and> ready_jumps (CSSEngine_new images) ins \<longrightarrow>
      0 \<le> page_index (CSSEngine_getCurrentPage (css_run (CSSEngine_new images) ins)) \<and>
      page_index (CSSEngine_getCurrentPage (css_run (CSSEngine_new images) ins)) \<le>
        page_total (CSSEngine_getCurrentPage (css_run (CSSEngine_new images) ins)) - 1) \<and>
   (\<not> is_jump i \<and> isFlipping (css_step s i) \<longrightarrow>
      CSSEngine_getCurrentPage (css_step s i) = CSSEngine_getCurrentPage s) \<and>
   CSSEngine_getCurrentPage (fst (performFlipAnimation d s)) = CSSEngine_getCurrentPage s \<and>
   (gl_ready_jumps (WebGLEngine_new images) gins \<and>
    pages (gl_run (WebGLEngine_new images) gins) \<noteq> [] \<longrightarrow>
      0 \<le> page_index (WebGLEngine_getCurrentPage (gl_run (WebGLEngine_new images) gins)) \<and>
      page_index (WebGLEngine_getCurrentPage (gl_run (WebGLEngine_new images) gins)) \<le>
        page_total (WebGLEngine_getCurrentPage (gl_run (WebGLEngine_new images) gins)) - 1) \<and>
   (\<not> gl_is_jump gi \<and> isAnimating (gl_step g gi) \<longrightarrow>
      currentPage (gl_step g gi) = currentPage g)"
proof (intro conjI impI)
  assume a: "images \<noteq> [] \<and> ready_jumps (CSSEngine_new images) ins"
  then have "nav_inv (css_run (CSSEngine_new images) ins)"
    by (simp add: nav_inv_run nav_inv_new)
  then show "0 \<le> page_index (CSSEngine_getCurrentPage (css_run (CSSEngine_new images) ins))"
    and "page_index (CSSEngine_getCurrentPage (css_run (CSSEngine_new images) ins)) \<le>
        page_total (CSSEngine_getCurrentPage (css_run (CSSEngine_new images) ins)) - 1"
    by (simp_all add: nav_inv_def CSSEngine_getCurrentPage_def)
next
  assume "\<not> is_jump i \<and> isFlipping (css_step s i)"
  then show "CSSEngine_getCurrentPage (css_step s i) = CSSEngine_getCurrentPage s"
    using css_position_during_flip [of i s] by blast
next
  show "CSSEngine_getCurrentPage (fst (performFlipAnimation d s)) = CSSEngine_getCurrentPage s"
    by (simp add: CSSEngine_getCurrentPage_def)
next
  assume a: "gl_ready_jumps (WebGLEngine_new images) gins \<and>
    pages (gl_run (WebGLEngine_new images) gins) \<noteq> []"
  then have "gl_nav_inv (gl_run (WebGLEngine_new images) gins)"
    by (simp add: gl_nav_inv_run gl_nav_inv_new)
  with a show
    "0 \<le> page_index (WebGLEngine_getCurrentPage (gl_run (WebGLEngine_new images) gins))"
    and "page_index (WebGLEngine_getCurrentPage (gl_run (WebGLEngine_new images) gins)) \<le>
      page_total (WebGLEngine_getCurrentPage (gl_run (WebGLEngine_new images) gins)) - 1"
    by (auto simp: gl_nav_inv_def WebGLEngine_getCurrentPage_def)
next
  assume "\<not> gl_is_jump gi \<and> isAnimating (gl_step g gi)"
  then show "currentPage (gl_step g gi) = currentPage g"
    by (simp add: gl_position_during_flip)
qed

text \<open>
  With three images in the layered engine: after \<open>goToPage(4)\<close>, a \<open>nextPage\<close>
  that is out of range, and \<open>goToPage(3)\<close>, the index is 2 of 6; and \<open>nextPage\<close>
  on the new engine leaves it flipping with \<open>getCurrentPage\<close> unchanged. With two
  loaded pages in the scene-graph engine: after one completed flip the index is 1 of
  2; and \<open>nextPage\<close> on page 0 leaves the engine animating on page 0.
\<close>

theorem getCurrentPage_in_range_and_committed_witness:
  "[''A'', ''B'', ''C''] \<noteq> [] \<and>
   ready_jumps (CSSEngine_new [''A'', ''B'', ''C'']) [GoToPage 4, NextPage, GoToPage 3] \<and>
   page_index (CSSEngine_getCurrentPage
     (css_run (CSSEngine_new [''A'', ''B'', ''C'']) [GoToPage 4, NextPage, GoToPage 3])) = 2 \<and>
   page_total (CSSEngine_getCurrentPage
     (css_run (CSSEngine_new [''A'', ''B'', ''C'']) [GoToPage 4, NextPage, GoToPage 3])) = 6 \<and>
   \<not> is_jump NextPage \<and>
   isFlipping (css_step (CSSEngine_new [''A'', ''B'', ''C'']) NextPage) \<and>
   CSSEngine_getCurrentPage (css_step (CSSEngine_new [''A'', ''B'', ''C'']) NextPage) =
     \<lparr>page_index = 0, page_total = 6, page_spread = 0, page_totalSpreads = 3\<rparr> \<and>
   gl_ready_jumps (WebGLEngine_new [''A'', ''B''])
     [TextureLoad 0 (Some (2, 3)), TextureLoad 1 (Some (2, 3)), GL_NextPage, TweenComplete] \<and>
   pages (gl_run (WebGLEngine_new [''A'', ''B''])
     [TextureLoad 0 (Some (2, 3)), TextureLoad 1 (Some (2, 3)), GL_NextPage,
      TweenComplete]) \<noteq> [] \<and>
   WebGLEngine_getCurrentPage (gl_run (WebGLEngine_new [''A'', ''B''])
     [TextureLoad 0 (Some (2, 3)), TextureLoad 1 (Some (2, 3)), GL_NextPage, TweenComplete]) =
     \<lparr>page_index = 1, page_total = 2, page_spread = 0, page_totalSpreads = 1\<rparr> \<and>
   \<not> gl_is_jump GL_NextPage \<and>
   isAnimating (gl_step (gl_run (WebGLEngine_new [''A'', ''B''])
     [TextureLoad 0 (Some (2, 3)), TextureLoad 1 (Some (2, 3))]) GL_NextPage) \<and>
   currentPage (gl_run (WebGLEngine_new [''A'', ''B''])
     [TextureLoad 0 (Some (2, 3)), TextureLoad 1 (Some (2, 3))]) = 0 \<and>
   currentPage (gl_step (gl_run (WebGLEngine_new [''A'', ''B''])
     [TextureLoad 0 (Some (2, 3)), TextureLoad 1 (Some (2, 3))]) GL_NextPage) = 0"
proof -
  let ?images = "[''A'', ''B'', ''C'']"
  let ?ins = "[GoToPage 4, NextPage, GoToPage 3]"
  let ?s = "css_run (CSSEngine_new ?images) ?ins"
  let ?loads = "[TextureLoad 0 (Some (2, 3)), TextureLoad 1 (Some (2, 3))]"
  let ?gins = "?loads @ [GL_NextPage, TweenComplete]"
  let ?gl = "gl_run (WebGLEngine_new [''A'', ''B'']) ?loads"
  let ?g = "gl_run (WebGLEngine_new [''A'', ''B'']) ?gins"
  have r: "ready_jumps (CSSEngine_new ?images) ?ins"
    by (simp add: CSSEngine_new_three createSpreads_three css_eval)
  have p: "CSSEngine_getCurrentPage ?s =
      \<lparr>page_index = 2, page_total = 6, page_spread = 1, page_totalSpreads = 3\<rparr>"
    by (simp add: CSSEngine_new_three createSpreads_three css_eval)
  have f: "isFlipping (css_step (CSSEngine_new ?images) NextPage)"
    by (simp add: CSSEngine_new_three createSpreads_three css_eval)
  have q: "CSSEngine_getCurrentPage (CSSEngine_new ?images) =
      \<lparr>page_index = 0, page_total = 6, page_spread = 0, page_totalSpreads = 3\<rparr>"
    by (simp add: createSpreads_three CSSEngine_getCurrentPage_def)
  have gr: "gl_ready_jumps (WebGLEngine_new [''A'', ''B'']) ?gins"
    by simp
  have gp: "pages ?g \<noteq> []"
    unfolding gl_two_flipped by simp
  have gq: "WebGLEngine_getCurrentPage ?g =
      \<lparr>page_index = 1, page_total = 2, page_spread = 0, page_totalSpreads = 1\<rparr>"
    unfolding gl_two_flipped by (simp add: WebGLEngine_getCurrentPage_def)
  have ga: "isAnimating (gl_step ?gl GL_NextPage)" "currentPage ?gl = 0"
    unfolding gl_two_loaded by (simp_all add: gl_nav_defs Let_def js_index_def)
  note t = getCurrentPage_in_range_and_committed
    [of ?images ?ins NextPage "CSSEngine_new ?images" Forward ?gins GL_NextPage ?gl]
  note u = getCurrentPage_in_range_and_committed
    [of "[''A'', ''B'']" ?ins NextPage "CSSEngine_new ?images" Forward ?gins GL_NextPage ?gl]
  from t r have cr: "0 \<le> page_index (CSSEngine_getCurrentPage ?s) \<and>
      page_index (CSSEngine_getCurrentPage ?s) \<le> page_total (CSSEngine_getCurrentPage ?s) - 1"
    by blast
  from t f have cf: "CSSEngine_getCurrentPage (css_step (CSSEngine_new ?images) NextPage) =
      CSSEngine_getCurrentPage (CSSEngine_new ?images)"
    by simp
  from u gr gp have gc: "0 \<le> page_index (WebGLEngine_getCurrentPage ?g) \<and>
      page_index (WebGLEngine_getCurrentPage ?g) \<le> page_total (WebGLEngine_getCurrentPage ?g) - 1"
    by blast
  from u ga(1) have gf: "currentPage (gl_step ?gl GL_NextPage) = currentPage ?gl"
    by simp
  from r p f q cf gr gp gq ga gf show ?thesis
    by simp
qed

text \<open>
  The facade accepts an empty array of locators. The engine then has no spread, and
  \<open>getCurrentPage\<close> returns index 0 of 0 pages, which is not within \<open>[0, -1]\<close>.
\<close>

theorem getCurrentPage_of_empty_media:
  "Flipbook_new RenderCSS True (Many []) = Inr \<lparr>engine = CSS (CSSEngine_new [])\<rparr> \<and>
   CSSEngine_getCurrentPage (CSSEngine_new []) =
     \<lparr>page_index = 0, page_total = 0, page_spread = 0, page_totalSpreads = 0\<rparr> \<and>
   \<not> page_index (CSSEngine_getCurrentPage (CSSEngine_new [])) \<le>
       page_total (CSSEngine_getCurrentPage (CSSEngine_new [])) - 1"
  by (simp add: Flipbook_new_def images_of_def CSSEngine_getCurrentPage_def createSpreads_def
      createSpreads_loop.simps)

section \<open>Loading in the layered engine: one outcome\<close>

lemma css_nav_step_load_frame:
  assumes "\<not> is_load_input i"
  shows "imagePromises (css_step s i) = imagePromises s"
    and "loadPromise (css_step s i) = loadPromise s"
    and "loadedImages (css_step s i) = loadedImages s"
    and "is_load_event x \<Longrightarrow> x \<in> set (emitted (css_step s i)) \<longleftrightarrow> x \<in> set (emitted s)"
  using assms
  by (cases i; auto simp: css_nav_defs CSSEngine_goToPage_def Let_def
      split: key.splits direction.splits list.splits if_splits)+

lemma loadImage_onload_load:
  assumes "k < length (media_src s)"
  shows "imagePromises (loadImage_onload k s) =
      (if imagePromises s ! k = Pending then (imagePromises s)[k := Fulfilled ()]
       else imagePromises s)"
    and "loadPromise (loadImage_onload k s) =
      (if imagePromises s ! k = Pending \<and> loadPromise s = Pending \<and>
          list_all is_fulfilled ((imagePromises s)[k := Fulfilled ()])
       then Fulfilled () else loadPromise s)"
    and "emitted (loadImage_onload k s) =
      emitted s @
      [OnLoadProgress
         \<lparr>loaded = int (card (insert k (loadedImages s))),
          load_total = int (length (media_src s)),
          progress = real (card (insert k (loadedImages s))) / real (length (media_src s)),
          currentItem = Some (media_src s ! k)\<rparr>] @
      (if imagePromises s ! k = Pending \<and> loadPromise s = Pending \<and>
          list_all is_fulfilled ((imagePromises s)[k := Fulfilled ()])
       then [OnLoadComplete, OnReady] else [])"
    and "loadedImages (loadImage_onload k s) = insert k (loadedImages s)"
  using assms by (simp_all add: loadImage_onload_def image_resolve_def Let_def)

lemma loadImage_onerror_load:
  assumes "k < length (media_src s)"
  shows "imagePromises (loadImage_onerror k s) =
      (if imagePromises s ! k = Pending
       then (imagePromises s)[k := Rejected (Error (''Failed to load image: '' @ media_src s ! k))]
       else imagePromises s)"
    and "loadPromise (loadImage_onerror k s) =
      (if imagePromises s ! k = Pending \<and> loadPromise s = Pending
       then Rejected (Error (''Failed to load image: '' @ media_src s ! k))
       else loadPromise s)"
    and "emitted (loadImage_onerror k s) =
      emitted s @
      (if imagePromises s ! k = Pending \<and> loadPromise s = Pending
       then [OnError (Error (''Failed to load image: '' @ media_src s ! k))] else [])"
  using assms by (simp_all add: loadImage_onerror_def image_reject_def Let_def)

lemma load_input_out_of_range:
  assumes "length (media_src s) \<le> k"
  shows "loadImage_onload k s = s" "loadImage_onerror k s = s"
  using assms by (simp_all add: loadImage_onload_def loadImage_onerror_def)

lemma css_rejected_step:
  assumes "css_rejected e s"
  shows "css_rejected e (css_step s i)"
proof (cases "is_load_input i")
  case False
  with assms show ?thesis
    by (simp add: css_rejected_def css_nav_step_load_frame)
next
  case True
  then obtain k where i: "i = ImageLoad k \<or> i = ImageError k"
    by (cases i) auto
  show ?thesis
  proof (cases "k < length (media_src s)")
    case True
    with assms i show ?thesis
      by (auto simp: css_rejected_def loadImage_onload_load loadImage_onerror_load)
  next
    case False
    with assms i show ?thesis
      by (auto simp: load_input_out_of_range)
  qed
qed

lemma css_rejected_run:
  assumes "css_rejected e s"
  shows "css_rejected e (css_run s ins)"
  using assms unfolding css_run_def
  by (induction ins arbitrary: s) (simp_all add: css_rejected_step)

lemma css_run_snoc: "css_run s (ins @ [i]) = css_step (css_run s ins) i"
  by (simp add: css_run_def)

lemma css_run_append: "css_run s (xs @ ys) = css_run (css_run s xs) ys"
  by (simp add: css_run_def)

lemma all_fulfilled_update:
  assumes "length ps = n" "k < n"
    "\<forall>j<n. ps ! j = (if P j then Fulfilled () else Pending)"
  shows "list_all is_fulfilled (ps[k := Fulfilled ()]) = (\<forall>j<n. j = k \<or> P j)"
proof -
  have "is_fulfilled ((ps[k := Fulfilled ()]) ! j) = (j = k \<or> P j)" if "j < n" for j
    using that assms by (cases "j = k") auto
  then show ?thesis
    using assms(1) by (auto simp: list_all_length)
qed

lemma css_clean_step:
  assumes c: "css_clean images ins r" and m: "media_src r = images"
    and i: "\<forall>j. i \<noteq> ImageError j"
  shows "css_clean images (ins @ [i]) (css_step r i)"
proof (cases "is_load_input i")
  case False
  then have "(ImageLoad k \<in> set (ins @ [i])) = (ImageLoad k \<in> set ins)" for k
    by auto
  with c False show ?thesis
    by (simp add: css_clean_def css_nav_step_load_frame del: set_append)
next
  case True
  with i obtain k where k: "i = ImageLoad k"
    by (cases i) auto
  show ?thesis
  proof (cases "k < length images")
    case False
    with c m k show ?thesis
      by (auto simp: css_clean_def load_input_out_of_range)
  next
    case True
    from c have len: "length (imagePromises r) = length images"
      and ps: "\<forall>j<length images.
         imagePromises r ! j = (if ImageLoad j \<in> set ins then Fulfilled () else Pending)"
      and lp: "loadPromise r =
        (if \<forall>j<length images. ImageLoad j \<in> set ins then Fulfilled () else Pending)"
      and ev: "(OnReady \<in> set (emitted r)) = (loadPromise r = Fulfilled ())"
        "(OnLoadComplete \<in> set (emitted r)) = (loadPromise r = Fulfilled ())"
        "\<forall>e. OnError e \<notin> set (emitted r)"
      by (simp_all add: css_clean_def)
    have all: "list_all is_fulfilled ((imagePromises r)[k := Fulfilled ()]) =
        (\<forall>j<length images. j = k \<or> ImageLoad j \<in> set ins)"
      by (rule all_fulfilled_update [OF len True ps])
    have pk: "(imagePromises r ! k = Pending) = (ImageLoad k \<notin> set ins)"
      using ps True by auto
    have new_ps: "\<forall>j<length images. imagePromises (css_step r i) ! j =
        (if ImageLoad j \<in> set (ins @ [i]) then Fulfilled () else Pending)"
      using ps len True k m pk by (auto simp: loadImage_onload_load nth_list_update)
    have new_lp: "loadPromise (css_step r i) =
        (if \<forall>j<length images. ImageLoad j \<in> set (ins @ [i]) then Fulfilled () else Pending)"
      using lp all pk True k m by (auto simp: loadImage_onload_load)
    have new_ev: "(OnReady \<in> set (emitted (css_step r i))) = (loadPromise (css_step r i) = Fulfilled ())"
      "(OnLoadComplete \<in> set (emitted (css_step r i))) = (loadPromise (css_step r i) = Fulfilled ())"
      "\<forall>e. OnError e \<notin> set (emitted (css_step r i))"
      using ev True k m by (auto simp: loadImage_onload_load)
    have new_len: "length (imagePromises (css_step r i)) = length images"
      using len True k m by (simp add: loadImage_onload_load)
    from new_len new_ps new_lp new_ev show ?thesis
      unfolding css_clean_def by blast
  qed
qed

lemma css_clean_run:
  assumes "\<forall>j. ImageError j \<notin> set ins"
  shows "css_clean images ins (css_run (CSSEngine_new images) ins)"
  using assms
proof (induction ins rule: rev_induct)
  case Nil
  show ?case
    by (auto simp: css_clean_def css_run_def)
next
  case (snoc i ins)
  then have "css_clean images ins (css_run (CSSEngine_new images) ins)" "\<forall>j. i \<noteq> ImageError j"
    by auto
  then show ?case
    by (simp add: css_run_snoc css_clean_step)
qed

section \<open>Loading in the scene-graph engine: one outcome\<close>

lemma gl_nav_step_load_frame:
  assumes "\<not> gl_is_load_input i"
  shows "texturePromises (gl_step s i) = texturePromises s"
    and "gl_loadPromise (gl_step s i) = gl_loadPromise s"
    and "is_load_event x \<Longrightarrow> x \<in> set (gl_emitted (gl_step s i)) \<longleftrightarrow> x \<in> set (gl_emitted s)"
proof -
  have n: "texturePromises (fst (WebGLEngine_nextPage s)) = texturePromises s"
    "gl_loadPromise (fst (WebGLEngine_nextPage s)) = gl_loadPromise s"
    "is_load_event x \<Longrightarrow>
      x \<in> set (gl_emitted (fst (WebGLEngine_nextPage s))) \<longleftrightarrow> x \<in> set (gl_emitted s)"
    for s
    by (auto simp: WebGLEngine_nextPage_def Let_def split: option.splits)
  have p: "texturePromises (fst (WebGLEngine_prevPage s)) = texturePromises s"
    "gl_loadPromise (fst (WebGLEngine_prevPage s)) = gl_loadPromise s"
    "is_load_event x \<Longrightarrow>
      x \<in> set (gl_emitted (fst (WebGLEngine_prevPage s))) \<longleftrightarrow> x \<in> set (gl_emitted s)"
    for s
    by (auto simp: WebGLEngine_prevPage_def Let_def split: option.splits)
  have j: "is_load_event x \<Longrightarrow>
      x \<in> set (gl_emitted (fst (WebGLEngine_goToPage k s))) \<longleftrightarrow> x \<in> set (gl_emitted s)"
    for s k
    by (auto simp: WebGLEngine_goToPage_def Let_def split: option.splits)
  have t: "is_load_event x \<Longrightarrow>
      x \<in> set (gl_emitted (tweenComplete tw s)) \<longleftrightarrow> x \<in> set (gl_emitted s)"
    for s tw
    by (auto simp: tweenComplete_def Let_def split: option.splits)
  have h: "texturePromises (handleInteraction hit s) = texturePromises s"
    "gl_loadPromise (handleInteraction hit s) = gl_loadPromise s"
    "is_load_event x \<Longrightarrow>
      x \<in> set (gl_emitted (handleInteraction hit s)) \<longleftrightarrow> x \<in> set (gl_emitted s)"
    for s hit
    by (simp_all add: handleInteraction_def n p split: option.split)
  show "texturePromises (gl_step s i) = texturePromises s"
    and "gl_loadPromise (gl_step s i) = gl_loadPromise s"
    and "is_load_event x \<Longrightarrow> x \<in> set (gl_emitted (gl_step s i)) \<longleftrightarrow> x \<in> set (gl_emitted s)"
    using assms
    by (cases i; simp add: n p j t h onMouseDown_def onTouchStart_def split: list.split)+
qed

lemma loader_onLoad_ok:
  assumes "k < length (gl_media_src s)" "k < length (texturePromises s)" "texture_ok img"
  shows "\<exists>t. texturePromises (loader_onLoad k img s) =
        (if texturePromises s ! k = Pending then (texturePromises s)[k := Fulfilled t]
         else texturePromises s) \<and>
      gl_loadPromise (loader_onLoad k img s) =
        (if texturePromises s ! k = Pending \<and> gl_loadPromise s = Pending \<and>
            list_all is_fulfilled ((texturePromises s)[k := Fulfilled t])
         then Fulfilled () else gl_loadPromise s) \<and>
      gl_emitted (loader_onLoad k img s) =
        gl_emitted s @
        [OnLoadProgress
           \<lparr>loaded = int k + 1, load_total = int (length (gl_media_src s)),
            progress = (real k + 1) / real (length (gl_media_src s)),
            currentItem = Some (gl_media_src s ! k)\<rparr>] @
        (if texturePromises s ! k = Pending \<and> gl_loadPromise s = Pending \<and>
            list_all is_fulfilled ((texturePromises s)[k := Fulfilled t])
         then [OnLoadComplete, OnReady] else [])"
proof -
  from assms(3) obtain w h where img: "img = Some (w, h)" "w \<noteq> 0" "h \<noteq> 0"
    by (cases img) auto
  let ?t = "\<lparr>aspectRatio = real w / real h, tex_width = w, tex_height = h\<rparr>"
  show ?thesis
    using assms(1,2) img
    by (intro exI [of _ ?t])
      (simp add: loader_onLoad_def Let_def texture_settle_def loadTextures_react_def)
qed

lemma gl_failure_step:
  assumes "k < length (gl_media_src s)" "k < length (texturePromises s)"
    "texturePromises s ! k = Pending" "gl_loadPromise s = Pending"
  shows "gl_loadPromise (loader_onError k m s) =
      Rejected (Error (''Failed to load '' @ gl_media_src s ! k @ '': '' @
        (case m of None \<Rightarrow> ''Unknown error'' | Some x \<Rightarrow> x)))"
    and "gl_emitted (loader_onError k m s) = gl_emitted s @
      [OnError (Error (''Failed to load '' @ gl_media_src s ! k @ '': '' @
        (case m of None \<Rightarrow> ''Unknown error'' | Some x \<Rightarrow> x)))]"
    and "\<not> texture_ok img \<Longrightarrow> gl_loadPromise (loader_onLoad k img s) =
      Rejected (Error (''Invalid image dimensions: '' @ gl_media_src s ! k))"
    and "\<not> texture_ok img \<Longrightarrow> gl_emitted (loader_onLoad k img s) = gl_emitted s @
      [OnError (Error (''Invalid image dimensions: '' @ gl_media_src s ! k))]"
proof -
  show "gl_loadPromise (loader_onError k m s) =
      Rejected (Error (''Failed to load '' @ gl_media_src s ! k @ '': '' @
        (case m of None \<Rightarrow> ''Unknown error'' | Some x \<Rightarrow> x)))"
    and "gl_emitted (loader_onError k m s) = gl_emitted s @
      [OnError (Error (''Failed to load '' @ gl_media_src s ! k @ '': '' @
        (case m of None \<Rightarrow> ''Unknown error'' | Some x \<Rightarrow> x)))]"
    using assms
    by (simp_all add: loader_onError_def Let_def texture_settle_def loadTextures_react_def)
  assume "\<not> texture_ok img"
  then have "(case img of None \<Rightarrow> True | Some (w, h) \<Rightarrow> w = 0 \<or> h = 0)"
    by (cases img) auto
  then show "gl_loadPromise (loader_onLoad k img s) =
      Rejected (Error (''Invalid image dimensions: '' @ gl_media_src s ! k))"
    and "gl_emitted (loader_onLoad k img s) = gl_emitted s @
      [OnError (Error (''Invalid image dimensions: '' @ gl_media_src s ! k))]"
    using assms
    by (simp_all add: loader_onLoad_def Let_def texture_settle_def loadTextures_react_def)
qed

lemma gl_settled_load_step:
  assumes "gl_loadPromise s \<noteq> Pending"
  shows "gl_loadPromise (loader_onLoad k img s) = gl_loadPromise s"
    and "gl_loadPromise (loader_onError k m s) = gl_loadPromise s"
    and "OnReady \<in> set (gl_emitted (loader_onLoad k img s)) \<longleftrightarrow> OnReady \<in> set (gl_emitted s)"
    and "OnLoadComplete \<in> set (gl_emitted (loader_onLoad k img s)) \<longleftrightarrow>
      OnLoadComplete \<in> set (gl_emitted s)"
    and "OnError e \<in> set (gl_emitted (loader_onLoad k img s)) \<longleftrightarrow> OnError e \<in> set (gl_emitted s)"
    and "gl_emitted (loader_onError k m s) = gl_emitted s"
  using assms
  by (auto simp: loader_onLoad_def loader_onError_def Let_def texture_settle_def
      loadTextures_react_def split: option.splits prod.splits)

lemma gl_rejected_step:
  assumes "gl_rejected e s"
  shows "gl_rejected e (gl_step s i)"
proof (cases "gl_is_load_input i")
  case False
  with assms show ?thesis
    by (simp add: gl_rejected_def gl_nav_step_load_frame)
next
  case True
  from assms have "gl_loadPromise s \<noteq> Pending"
    by (simp add: gl_rejected_def)
  with True assms show ?thesis
    by (cases i) (simp_all add: gl_rejected_def gl_settled_load_step)
qed

lemma gl_rejected_run:
  assumes "gl_rejected e s"
  shows "gl_rejected e (gl_run s ins)"
  using assms unfolding gl_run_def
  by (induction ins arbitrary: s) (simp_all add: gl_rejected_step)

lemma gl_run_snoc: "gl_run s (ins @ [i]) = gl_step (gl_run s ins) i"
  by (simp add: gl_run_def)

lemma gl_run_append: "gl_run s (xs @ ys) = gl_run (gl_run s xs) ys"
  by (simp add: gl_run_def)

lemma gl_step_media [simp]: "gl_media_src (gl_step s i) = gl_media_src s"
  by (cases i) (simp_all add: onMouseDown_def onTouchStart_def handleInteraction_def
      split: list.split option.split)

lemma gl_run_media [simp]: "gl_media_src (gl_run s ins) = gl_media_src s"
  unfolding gl_run_def by (induction ins arbitrary: s) simp_all

lemma loader_out_of_range:
  assumes "length (gl_media_src s) \<le> k"
  shows "loader_onLoad k img s = s" "loader_onError k m s = s"
  using assms by (simp_all add: loader_onLoad_def loader_onError_def)

lemma all_fulfilled_update':
  assumes "length ps = n" "k < n"
    "\<forall>j<n. if P j then is_fulfilled (ps ! j) else ps ! j = Pending"
  shows "list_all is_fulfilled (ps[k := Fulfilled t]) = (\<forall>j<n. j = k \<or> P j)"
proof -
  have "is_fulfilled ((ps[k := Fulfilled t]) ! j) = (j = k \<or> P j)" if "j < n" for j
  proof (cases "j = k")
    case True
    with that assms show ?thesis by simp
  next
    case False
    from assms(3) that have "if P j then is_fulfilled (ps ! j) else ps ! j = Pending"
      by blast
    with False show ?thesis
      by (auto split: if_splits)
  qed
  then show ?thesis
    using assms(1) by (auto simp: list_all_length)
qed

lemma gl_clean_step:
  assumes c: "gl_clean images ins r" and m: "gl_media_src r = images"
    and i: "\<not> gl_is_failure i"
  shows "gl_clean images (ins @ [i]) (gl_step r i)"
proof (cases "gl_is_load_input i")
  case False
  then have "texture_loaded (ins @ [i]) k = texture_loaded ins k" for k
    by (cases i) (auto simp: texture_loaded_def)
  with c False show ?thesis
    by (simp add: gl_clean_def gl_nav_step_load_frame)
next
  case True
  with i obtain k img where k: "i = TextureLoad k img" "texture_ok img"
    by (cases i) auto
  show ?thesis
  proof (cases "k < length images")
    case False
    then have "texture_loaded (ins @ [i]) j = texture_loaded ins j" if "j < length images" for j
      using that k by (auto simp: texture_loaded_def)
    with c m k False show ?thesis
      by (simp add: gl_clean_def loader_out_of_range)
  next
    case True
    from c have len: "length (texturePromises r) = length images"
      and ps: "\<forall>j<length images.
         if texture_loaded ins j then is_fulfilled (texturePromises r ! j)
         else texturePromises r ! j = Pending"
      and lp: "gl_loadPromise r =
        (if \<forall>j<length images. texture_loaded ins j then Fulfilled () else Pending)"
      and ev: "(OnReady \<in> set (gl_emitted r)) = (gl_loadPromise r = Fulfilled ())"
        "(OnLoadComplete \<in> set (gl_emitted r)) = (gl_loadPromise r = Fulfilled ())"
        "\<forall>e. OnError e \<notin> set (gl_emitted r)"
      by (simp_all add: gl_clean_def)
    have tl: "texture_loaded (ins @ [i]) j = (j = k \<or> texture_loaded ins j)" for j
      using k by (auto simp: texture_loaded_def)
    from True m len have r: "k < length (gl_media_src r)" "k < length (texturePromises r)"
      by simp_all
    from loader_onLoad_ok [OF r k(2)] obtain t where
      t1: "texturePromises (loader_onLoad k img r) =
        (if texturePromises r ! k = Pending then (texturePromises r)[k := Fulfilled t]
         else texturePromises r)"
      and t2: "gl_loadPromise (loader_onLoad k img r) =
        (if texturePromises r ! k = Pending \<and> gl_loadPromise r = Pending \<and>
            list_all is_fulfilled ((texturePromises r)[k := Fulfilled t])
         then Fulfilled () else gl_loadPromise r)"
      and t3: "gl_emitted (loader_onLoad k img r) =
        gl_emitted r @
        [OnLoadProgress
           \<lparr>loaded = int k + 1, load_total = int (length (gl_media_src r)),
            progress = (real k + 1) / real (length (gl_media_src r)),
            currentItem = Some (gl_media_src r ! k)\<rparr>] @
        (if texturePromises r ! k = Pending \<and> gl_loadPromise r = Pending \<and>
            list_all is_fulfilled ((texturePromises r)[k := Fulfilled t])
         then [OnLoadComplete, OnReady] else [])"
      by blast
    have all: "list_all is_fulfilled ((texturePromises r)[k := Fulfilled t]) =
        (\<forall>j<length images. j = k \<or> texture_loaded ins j)"
      by (rule all_fulfilled_update' [OF len True ps])
    have pk: "(texturePromises r ! k = Pending) = (\<not> texture_loaded ins k)"
      using ps True by (auto split: if_splits)
    have new_len: "length (texturePromises (gl_step r i)) = length images"
      using len k t1 by simp
    have new_ps: "\<forall>j<length images.
        if texture_loaded (ins @ [i]) j then is_fulfilled (texturePromises (gl_step r i) ! j)
        else texturePromises (gl_step r i) ! j = Pending"
      using ps len True k t1 pk tl by (auto simp: nth_list_update split: if_splits)
    have new_lp: "gl_loadPromise (gl_step r i) =
        (if \<forall>j<length images. texture_loaded (ins @ [i]) j then Fulfilled () else Pending)"
      using lp all pk True k t2 tl by auto
    have new_ev: "(OnReady \<in> set (gl_emitted (gl_step r i))) =
        (gl_loadPromise (gl_step r i) = Fulfilled ())"
      "(OnLoadComplete \<in> set (gl_emitted (gl_step r i))) =
        (gl_loadPromise (gl_step r i) = Fulfilled ())"
      "\<forall>e. OnError e \<notin> set (gl_emitted (gl_step r i))"
      using ev k t2 t3 by auto
    from new_len new_ps new_lp new_ev show ?thesis
      unfolding gl_clean_def by blast
  qed
qed

lemma gl_clean_run:
  assumes "\<forall>i\<in>set ins. \<not> gl_is_failure i"
  shows "gl_clean images ins (gl_run (WebGLEngine_new images) ins)"
  using assms
proof (induction ins rule: rev_induct)
  case Nil
  show ?case
    by (auto simp: gl_clean_def gl_run_def texture_loaded_def)
next
  case (snoc i ins)
  then have "gl_clean images ins (gl_run (WebGLEngine_new images) ins)" "\<not> gl_is_failure i"
    by auto
  then show ?case
    by (simp add: gl_run_snoc gl_clean_step)
qed

section \<open>The outcome of loading\<close>

lemma css_failure_outcome:
  assumes k: "k < length images" and pre: "\<forall>j. ImageError j \<notin> set pre"
    and fresh: "ImageLoad k \<notin> set pre"
  shows "css_rejected (Error (''Failed to load image: '' @ images ! k))
     (css_run (CSSEngine_new images) (pre @ ImageError k # post))"
proof -
  let ?r1 = "css_run (CSSEngine_new images) pre"
  let ?e = "Error (''Failed to load image: '' @ images ! k)"
  have c: "css_clean images pre ?r1"
    by (rule css_clean_run [OF pre])
  have m: "media_src ?r1 = images"
    by simp
  from c k fresh have p: "imagePromises ?r1 ! k = Pending" "loadPromise ?r1 = Pending"
    "OnReady \<notin> set (emitted ?r1)" "OnLoadComplete \<notin> set (emitted ?r1)"
    by (auto simp: css_clean_def)
  have "css_rejected ?e (css_step ?r1 (ImageError k))"
    using p k m by (simp add: css_rejected_def loadImage_onerror_load)
  then have "css_rejected ?e (css_run (css_step ?r1 (ImageError k)) post)"
    by (rule css_rejected_run)
  then show ?thesis
    by (simp add: css_run_def)
qed

lemma css_success_outcome:
  assumes "\<forall>k<length images. ImageLoad k \<in> set ins" "\<forall>j. ImageError j \<notin> set ins"
  shows "loadPromise (css_run (CSSEngine_new images) ins) = Fulfilled ()"
    and "OnLoadComplete \<in> set (emitted (css_run (CSSEngine_new images) ins))"
    and "OnReady \<in> set (emitted (css_run (CSSEngine_new images) ins))"
    and "OnError e \<notin> set (emitted (css_run (CSSEngine_new images) ins))"
  using css_clean_run [OF assms(2), of images] assms(1)
  by (simp_all add: css_clean_def)

lemma gl_failure_outcome:
  assumes k: "k < length images" and pre: "\<forall>i\<in>set pre. \<not> gl_is_failure i"
    and fresh: "\<not> texture_loaded pre k"
  shows "gl_rejected
       (Error (''Failed to load '' @ images ! k @ '': '' @
          (case m of None \<Rightarrow> ''Unknown error'' | Some x \<Rightarrow> x)))
       (gl_run (WebGLEngine_new images) (pre @ TextureError k m # post))"
    and "\<not> texture_ok img \<Longrightarrow>
     gl_rejected (Error (''Invalid image dimensions: '' @ images ! k))
       (gl_run (WebGLEngine_new images) (pre @ TextureLoad k img # post))"
proof -
  let ?r1 = "gl_run (WebGLEngine_new images) pre"
  have c: "gl_clean images pre ?r1"
    by (rule gl_clean_run [OF pre])
  have m: "gl_media_src ?r1 = images"
    by simp
  from c k fresh have p: "texturePromises ?r1 ! k = Pending" "gl_loadPromise ?r1 = Pending"
    "OnReady \<notin> set (gl_emitted ?r1)" "OnLoadComplete \<notin> set (gl_emitted ?r1)"
    "k < length (texturePromises ?r1)"
    by (auto simp: gl_clean_def split: if_splits)
  from k m have km: "k < length (gl_media_src ?r1)"
    by simp
  note f = gl_failure_step [OF km p(5) p(1) p(2)]
  have "gl_rejected
       (Error (''Failed to load '' @ images ! k @ '': '' @
          (case m of None \<Rightarrow> ''Unknown error'' | Some x \<Rightarrow> x)))
       (gl_step ?r1 (TextureError k m))"
    using p m f(1,2) [of m] by (simp add: gl_rejected_def)
  then have "gl_rejected
       (Error (''Failed to load '' @ images ! k @ '': '' @
          (case m of None \<Rightarrow> ''Unknown error'' | Some x \<Rightarrow> x)))
       (gl_run (gl_step ?r1 (TextureError k m)) post)"
    by (rule gl_rejected_run)
  then show "gl_rejected
       (Error (''Failed to load '' @ images ! k @ '': '' @
          (case m of None \<Rightarrow> ''Unknown error'' | Some x \<Rightarrow> x)))
       (gl_run (WebGLEngine_new images) (pre @ TextureError k m # post))"
    by (simp add: gl_run_def)
  assume bad: "\<not> texture_ok img"
  have "gl_rejected (Error (''Invalid image dimensions: '' @ images ! k))
       (gl_step ?r1 (TextureLoad k img))"
    using p m f(3,4) [OF bad] by (simp add: gl_rejected_def)
  then have "gl_rejected (Error (''Invalid image dimensions: '' @ images ! k))
       (gl_run (gl_step ?r1 (TextureLoad k img)) post)"
    by (rule gl_rejected_run)
  then show "gl_rejected (Error (''Invalid image dimensions: '' @ images ! k))
       (gl_run (WebGLEngine_new images) (pre @ TextureLoad k img # post))"
    by (simp add: gl_run_def)
qed

lemma gl_success_outcome:
  assumes "\<forall>k<length images. texture_loaded ins k" "\<forall>i\<in>set ins. \<not> gl_is_failure i"
  shows "gl_loadPromise (gl_run (WebGLEngine_new images) ins) = Fulfilled ()"
    and "OnLoadComplete \<in> set (gl_emitted (gl_run (WebGLEngine_new images) ins))"
    and "OnReady \<in> set (gl_emitted (gl_run (WebGLEngine_new images) ins))"
    and "OnError e \<notin> set (gl_emitted (gl_run (WebGLEngine_new images) ins))"
  using gl_clean_run [OF assms(2), of images] assms(1)
  by (simp_all add: gl_clean_def)

text \<open>
  Claim C6. In either engine, when one of the load operations fails and it is the
  first to fail, the aggregate load is rejected with that failure, \<open>onError\<close> is
  called with it, and whatever happens afterwards \<open>onReady\<close> (and
  \<open>onLoadComplete\<close>) is never called. When every load operation succeeds,
  \<open>onLoadComplete\<close> and \<open>onReady\<close> are called and \<open>onError\<close> is not. The inputs
  before the failure, after it, and between the loads are arbitrary; an operation ends
  once, so the failing one has not succeeded before. In the scene-graph engine a load
  fails by the loader's error or by an image without size.
\<close>

theorem load_rejects_on_first_failure:
  "(k < length images \<and> (\<forall>j. ImageError j \<notin> set pre) \<and> ImageLoad k \<notin> set pre \<longrightarrow>
      loadPromise (css_run (CSSEngine_new images) (pre @ ImageError k # post)) =
        Rejected (Error (''Failed to load image: '' @ images ! k)) \<and>
      OnError (Error (''Failed to load image: '' @ images ! k))
        \<in> set (emitted (css_run (CSSEngine_new images) (pre @ ImageError k # post))) \<and>
      OnReady \<notin> set (emitted (css_run (CSSEngine_new images) (pre @ ImageError k # post))) \<and>
      OnLoadComplete
        \<notin> set (emitted (css_run (CSSEngine_new images) (pre @ ImageError k # post)))) \<and>
   ((\<forall>k<length images. ImageLoad k \<in> set ins) \<and> (\<forall>j. ImageError j \<notin> set ins) \<longrightarrow>
      loadPromise (css_run (CSSEngine_new images) ins) = Fulfilled () \<and>
      OnLoadComplete \<in> set (emitted (css_run (CSSEngine_new images) ins)) \<and>
      OnReady \<in> set (emitted (css_run (CSSEngine_new images) ins)) \<and>
      (\<forall>e. OnError e \<notin> set (emitted (css_run (CSSEngine_new images) ins)))) \<and>
   (k < length images \<and> (\<forall>i\<in>set gpre. \<not> gl_is_failure i) \<and> \<not> texture_loaded gpre k \<longrightarrow>
      gl_loadPromise (gl_run (WebGLEngine_new images) (gpre @ TextureError k m # gpost)) =
        Rejected (Error (''Failed to load '' @ images ! k @ '': '' @
          (case m of None \<Rightarrow> ''Unknown error'' | Some x \<Rightarrow> x))) \<and>
      OnError (Error (''Failed to load '' @ images ! k @ '': '' @
          (case m of None \<Rightarrow> ''Unknown error'' | Some x \<Rightarrow> x)))
        \<in> set (gl_emitted (gl_run (WebGLEngine_new images) (gpre @ TextureError k m # gpost))) \<and>
      OnReady
        \<notin> set (gl_emitted (gl_run (WebGLEngine_new images) (gpre @ TextureError k m # gpost))) \<and>
      OnLoadComplete
        \<notin> set (gl_emitted (gl_run (WebGLEngine_new images) (gpre @ TextureError k m # gpost)))) \<and>
   (k < length images \<and> (\<forall>i\<in>set gpre. \<not> gl_is_failure i) \<and> \<not> texture_loaded gpre k \<and>
    \<not> texture_ok img \<longrightarrow>
      gl_loadPromise (gl_run (WebGLEngine_new images) (gpre @ TextureLoad k img # gpost)) =
        Rejected (Error (''Invalid image dimensions: '' @ images ! k)) \<and>
      OnError (Error (''Invalid image dimensions: '' @ images ! k))
        \<in> set (gl_emitted (gl_run (WebGLEngine_new images) (gpre @ TextureLoad k img # gpost))) \<and>
      OnReady
        \<notin> set (gl_emitted (gl_run (WebGLEngine_new images) (gpre @ TextureLoad k img # gpost))) \<and>
      OnLoadComplete
        \<notin> set (gl_emitted (gl_run (WebGLEngine_new images) (gpre @ TextureLoad k img # gpost)))) \<and>
   ((\<forall>k<length images. texture_loaded gins k) \<and> (\<forall>i\<in>set gins. \<not> gl_is_failure i) \<longrightarrow>
      gl_loadPromise (gl_run (WebGLEngine_new images) gins) = Fulfilled () \<and>
      OnLoadComplete \<in> set (gl_emitted (gl_run (WebGLEngine_new images) gins)) \<and>
      OnReady \<in> set (gl_emitted (gl_run (WebGLEngine_new images) gins)) \<and>
      (\<forall>e. OnError e \<notin> set (gl_emitted (gl_run (WebGLEngine_new images) gins))))"
proof (intro conjI impI)
  assume a: "k < length images \<and> (\<forall>j. ImageError j \<notin> set pre) \<and> ImageLoad k \<notin> set pre"
  then have "css_rejected (Error (''Failed to load image: '' @ images ! k))
      (css_run (CSSEngine_new images) (pre @ ImageError k # post))"
    by (intro css_failure_outcome) simp_all
  then show "loadPromise (css_run (CSSEngine_new images) (pre @ ImageError k # post)) =
        Rejected (Error (''Failed to load image: '' @ images ! k))"
    and "OnError (Error (''Failed to load image: '' @ images ! k))
        \<in> set (emitted (css_run (CSSEngine_new images) (pre @ ImageError k # post)))"
    and "OnReady \<notin> set (emitted (css_run (CSSEngine_new images) (pre @ ImageError k # post)))"
    and "OnLoadComplete
        \<notin> set (emitted (css_run (CSSEngine_new images) (pre @ ImageError k # post)))"
    by (simp_all add: css_rejected_def)
next
  assume a: "(\<forall>k<length images. ImageLoad k \<in> set ins) \<and> (\<forall>j. ImageError j \<notin> set ins)"
  then show "loadPromise (css_run (CSSEngine_new images) ins) = Fulfilled ()"
    and "OnLoadComplete \<in> set (emitted (css_run (CSSEngine_new images) ins))"
    and "OnReady \<in> set (emitted (css_run (CSSEngine_new images) ins))"
    and "\<forall>e. OnError e \<notin> set (emitted (css_run (CSSEngine_new images) ins))"
    by (simp_all add: css_success_outcome)
next
  assume a: "k < length images \<and> (\<forall>i\<in>set gpre. \<not> gl_is_failure i) \<and> \<not> texture_loaded gpre k"
  then have "gl_rejected
       (Error (''Failed to load '' @ images ! k @ '': '' @
          (case m of None \<Rightarrow> ''Unknown error'' | Some x \<Rightarrow> x)))
       (gl_run (WebGLEngine_new images) (gpre @ TextureError k m # gpost))"
    by (intro gl_failure_outcome(1)) simp_all
  then show "gl_loadPromise (gl_run (WebGLEngine_new images) (gpre @ TextureError k m # gpost)) =
        Rejected (Error (''Failed to load '' @ images ! k @ '': '' @
          (case m of None \<Rightarrow> ''Unknown error'' | Some x \<Rightarrow> x)))"
    and "OnError (Error (''Failed to load '' @ images ! k @ '': '' @
          (case m of None \<Rightarrow> ''Unknown error'' | Some x \<Rightarrow> x)))
        \<in> set (gl_emitted (gl_run (WebGLEngine_new images) (gpre @ TextureError k m # gpost)))"
    and "OnReady
        \<notin> set (gl_emitted (gl_run (WebGLEngine_new images) (gpre @ TextureError k m # gpost)))"
    and "OnLoadComplete
        \<notin> set (gl_emitted (gl_run (WebGLEngine_new images) (gpre @ TextureError k m # gpost)))"
    by (simp_all add: gl_rejected_def)
next
  assume a: "k < length images \<and> (\<forall>i\<in>set gpre. \<not> gl_is_failure i) \<and>
    \<not> texture_loaded gpre k \<and> \<not> texture_ok img"
  then have "gl_rejected (Error (''Invalid image dimensions: '' @ images ! k))
       (gl_run (WebGLEngine_new images) (gpre @ TextureLoad k img # gpost))"
    by (intro gl_failure_outcome(2)) simp_all
  then show "gl_loadPromise (gl_run (WebGLEngine_new images) (gpre @ TextureLoad k img # gpost)) =
        Rejected (Error (''Invalid image dimensions: '' @ images ! k))"
    and "OnError (Error (''Invalid image dimensions: '' @ images ! k))
        \<in> set (gl_emitted (gl_run (WebGLEngine_new images) (gpre @ TextureLoad k img # gpost)))"
    and "OnReady
        \<notin> set (gl_emitted (gl_run (WebGLEngine_new images) (gpre @ TextureLoad k img # gpost)))"
    and "OnLoadComplete
        \<notin> set (gl_emitted (gl_run (WebGLEngine_new images) (gpre @ TextureLoad k img # gpost)))"
    by (simp_all add: gl_rejected_def)
next
  assume a: "(\<forall>k<length images. texture_loaded gins k) \<and> (\<forall>i\<in>set gins. \<not> gl_is_failure i)"
  then show "gl_loadPromise (gl_run (WebGLEngine_new images) gins) = Fulfilled ()"
    and "OnLoadComplete \<in> set (gl_emitted (gl_run (WebGLEngine_new images) gins))"
    and "OnReady \<in> set (gl_emitted (gl_run (WebGLEngine_new images) gins))"
    and "\<forall>e. OnError e \<notin> set (gl_emitted (gl_run (WebGLEngine_new images) gins))"
    by (simp_all add: gl_success_outcome)
qed

theorem load_rejects_on_first_failure_witness:
  "loadPromise (css_run (CSSEngine_new [''A'', ''B'']) [ImageLoad 1, ImageError 0, NextPage]) =
     Rejected (Error ''Failed to load image: A'') \<and>
   OnError (Error ''Failed to load image: A'')
     \<in> set (emitted (css_run (CSSEngine_new [''A'', ''B'']) [ImageLoad 1, ImageError 0, NextPage])) \<and>
   OnReady
     \<notin> set (emitted (css_run (CSSEngine_new [''A'', ''B'']) [ImageLoad 1, ImageError 0, NextPage])) \<and>
   loadPromise (css_run (CSSEngine_new [''A'', ''B'']) [ImageLoad 1, ImageLoad 0]) = Fulfilled () \<and>
   OnReady \<in> set (emitted (css_run (CSSEngine_new [''A'', ''B'']) [ImageLoad 1, ImageLoad 0])) \<and>
   gl_loadPromise (gl_run (WebGLEngine_new [''A'', ''B''])
       [TextureLoad 1 (Some (2, 3)), TextureError 0 None, GL_NextPage]) =
     Rejected (Error ''Failed to load A: Unknown error'') \<and>
   OnReady \<notin> set (gl_emitted (gl_run (WebGLEngine_new [''A'', ''B''])
       [TextureLoad 1 (Some (2, 3)), TextureError 0 None, GL_NextPage])) \<and>
   gl_loadPromise (gl_run (WebGLEngine_new [''A'', ''B''])
       [TextureLoad 1 (Some (2, 3)), TextureLoad 0 (Some (0, 3)), GL_NextPage]) =
     Rejected (Error ''Invalid image dimensions: A'') \<and>
   gl_loadPromise (gl_run (WebGLEngine_new [''A'', ''B''])
       [TextureLoad 1 (Some (2, 3)), TextureLoad 0 (Some (2, 3))]) = Fulfilled () \<and>
   OnReady \<in> set (gl_emitted (gl_run (WebGLEngine_new [''A'', ''B''])
       [TextureLoad 1 (Some (2, 3)), TextureLoad 0 (Some (2, 3))]))"
proof -
  let ?images = "[''A'', ''B'']"
  let ?pre = "[ImageLoad 1]"
  let ?post = "[NextPage]"
  let ?ins = "[ImageLoad 1, ImageLoad 0]"
  let ?gpre = "[TextureLoad 1 (Some (2, 3))]"
  let ?gpost = "[GL_NextPage]"
  let ?gins = "[TextureLoad 1 (Some (2, 3)), TextureLoad 0 (Some (2, 3))]"
  note t = load_rejects_on_first_failure
    [of 0 ?images ?pre ?post ?ins ?gpre None ?gpost "Some (0, 3)" ?gins]
  have h1: "0 < length ?images \<and> (\<forall>j. ImageError j \<notin> set ?pre) \<and> ImageLoad 0 \<notin> set ?pre"
    by simp
  have h2: "(\<forall>k<length ?images. ImageLoad k \<in> set ?ins) \<and> (\<forall>j. ImageError j \<notin> set ?ins)"
    by (auto simp: less_Suc_eq numeral_2_eq_2)
  have h3: "0 < length ?images \<and> (\<forall>i\<in>set ?gpre. \<not> gl_is_failure i) \<and>
      \<not> texture_loaded ?gpre 0"
    by (simp add: texture_loaded_def)
  have h4: "0 < length ?images \<and> (\<forall>i\<in>set ?gpre. \<not> gl_is_failure i) \<and>
      \<not> texture_loaded ?gpre 0 \<and> \<not> texture_ok (Some (0, 3))"
    by (simp add: texture_loaded_def)
  have h5: "(\<forall>k<length ?images. texture_loaded ?gins k) \<and> (\<forall>i\<in>set ?gins. \<not> gl_is_failure i)"
    by (auto simp: less_Suc_eq numeral_2_eq_2 texture_loaded_def)
  from t h1 have c1:
    "loadPromise (css_run (CSSEngine_new ?images) (?pre @ ImageError 0 # ?post)) =
        Rejected (Error (''Failed to load image: '' @ ?images ! 0))"
    "OnError (Error (''Failed to load image: '' @ ?images ! 0))
        \<in> set (emitted (css_run (CSSEngine_new ?images) (?pre @ ImageError 0 # ?post)))"
    "OnReady \<notin> set (emitted (css_run (CSSEngine_new ?images) (?pre @ ImageError 0 # ?post)))"
    by blast+
  from t h2 have c2: "loadPromise (css_run (CSSEngine_new ?images) ?ins) = Fulfilled ()"
    "OnReady \<in> set (emitted (css_run (CSSEngine_new ?images) ?ins))"
    by blast+
  from t h3 have c3:
    "gl_loadPromise (gl_run (WebGLEngine_new ?images) (?gpre @ TextureError 0 None # ?gpost)) =
        Rejected (Error (''Failed to load '' @ ?images ! 0 @ '': '' @
          (case None of None \<Rightarrow> ''Unknown error'' | Some x \<Rightarrow> x)))"
    "OnReady \<notin> set (gl_emitted
        (gl_run (WebGLEngine_new ?images) (?gpre @ TextureError 0 None # ?gpost)))"
    by blast+
  from t h4 have c4:
    "gl_loadPromise (gl_run (WebGLEngine_new ?images) (?gpre @ TextureLoad 0 (Some (0, 3)) # ?gpost)) =
        Rejected (Error (''Invalid image dimensions: '' @ ?images ! 0))"
    by blast
  from t h5 have c5: "gl_loadPromise (gl_run (WebGLEngine_new ?images) ?gins) = Fulfilled ()"
    "OnReady \<in> set (gl_emitted (gl_run (WebGLEngine_new ?images) ?gins))"
    by blast+
  from c1 c2 c3 c4 c5 show ?thesis
    by simp
qed

section \<open>Loading progress\<close>

text \<open>
  The layered engine reports the number of loaded images: over every run the
  \<open>loaded\<close> fields of its \<open>onLoadProgress\<close> calls never decrease, and when
  \<open>onLoadComplete\<close> has been called the last of them is the number of images.
\<close>

lemma progress_loaded_append [simp]:
  "progress_loaded (xs @ ys) = progress_loaded xs @ progress_loaded ys"
  by (induction xs rule: progress_loaded.induct) simp_all

lemma css_nav_step_progress:
  assumes "\<not> is_load_input i"
  shows "progress_loaded (emitted (css_step s i)) = progress_loaded (emitted s)"
  using assms
  by (cases i; auto simp: css_nav_defs CSSEngine_goToPage_def Let_def
      split: key.splits direction.splits list.splits if_splits)

lemma css_progress_inv_onload:
  assumes inv: "css_progress_inv s" and k: "k < length (media_src s)"
  shows "css_progress_inv (loadImage_onload k s)"
proof -
  let ?n = "length (media_src s)"
  let ?li = "insert k (loadedImages s)"
  let ?fire = "imagePromises s ! k = Pending \<and> loadPromise s = Pending \<and>
      list_all is_fulfilled ((imagePromises s)[k := Fulfilled ()])"
  from inv have fin: "finite (loadedImages s)" and sub: "loadedImages s \<subseteq> {..<?n}"
    and len: "length (imagePromises s) = ?n"
    and ful: "\<forall>j<?n. imagePromises s ! j = Fulfilled () \<longrightarrow> j \<in> loadedImages s"
    and srt: "sorted (progress_loaded (emitted s))"
    and bnd: "\<forall>x\<in>set (progress_loaded (emitted s)). x \<le> int (card (loadedImages s))"
    and cmp: "OnLoadComplete \<in> set (emitted s) \<longrightarrow> loadPromise s = Fulfilled ()"
    and fin_all: "loadPromise s = Fulfilled () \<and> media_src s \<noteq> [] \<longrightarrow>
         loadedImages s = {..<?n} \<and> progress_loaded (emitted s) \<noteq> [] \<and>
         last (progress_loaded (emitted s)) = int ?n"
    by (simp_all add: css_progress_inv_def)
  have card_le: "card (loadedImages s) \<le> card ?li"
    using fin by (simp add: card_insert_le)
  have pl: "progress_loaded (emitted (loadImage_onload k s)) =
      progress_loaded (emitted s) @ [int (card ?li)]"
    using k by (simp add: loadImage_onload_load)
  have srt': "sorted (progress_loaded (emitted (loadImage_onload k s)))"
    using srt bnd card_le by (auto simp: pl sorted_append)
  have bnd': "\<forall>x\<in>set (progress_loaded (emitted (loadImage_onload k s))). x \<le> int (card ?li)"
    using bnd card_le by (auto simp: pl)
  have sub': "?li \<subseteq> {..<?n}"
    using sub k by auto
  have ful': "\<forall>j<?n. imagePromises (loadImage_onload k s) ! j = Fulfilled () \<longrightarrow> j \<in> ?li"
    using ful k len by (auto simp: loadImage_onload_load nth_list_update split: if_splits)
  have all_in: "?li = {..<?n}" if "?fire"
  proof -
    from that len have "\<forall>j<?n. is_fulfilled ((imagePromises s)[k := Fulfilled ()] ! j)"
      by (simp add: list_all_length)
    then have "\<forall>j<?n. j \<noteq> k \<longrightarrow> imagePromises s ! j = Fulfilled ()"
      using len by (auto simp: nth_list_update elim!: is_fulfilled.elims split: if_splits)
    with ful have "\<forall>j<?n. j \<in> ?li"
      by auto
    with sub' show ?thesis
      by auto
  qed
  have all_in_old: "?li = {..<?n}" if "loadPromise s = Fulfilled ()"
    using that fin_all k by auto
  have final: "loadPromise (loadImage_onload k s) = Fulfilled () \<and> media_src s \<noteq> [] \<longrightarrow>
      ?li = {..<?n} \<and> progress_loaded (emitted (loadImage_onload k s)) \<noteq> [] \<and>
      last (progress_loaded (emitted (loadImage_onload k s))) = int ?n"
    using k all_in all_in_old by (auto simp: pl loadImage_onload_load split: if_splits)
  have cmp': "OnLoadComplete \<in> set (emitted (loadImage_onload k s)) \<longrightarrow>
      loadPromise (loadImage_onload k s) = Fulfilled ()"
    using cmp k by (auto simp: loadImage_onload_load)
  have len': "length (imagePromises (loadImage_onload k s)) = ?n"
    using len k by (simp add: loadImage_onload_load)
  from fin sub' len' ful' srt' bnd' cmp' final k show ?thesis
    unfolding css_progress_inv_def by (simp add: loadImage_onload_load(4))
qed

lemma css_progress_inv_onerror:
  assumes inv: "css_progress_inv s" and k: "k < length (media_src s)"
  shows "css_progress_inv (loadImage_onerror k s)"
  using assms unfolding css_progress_inv_def
  by (auto simp: loadImage_onerror_load nth_list_update)

lemma css_progress_inv_step:
  assumes "css_progress_inv s"
  shows "css_progress_inv (css_step s i)"
proof (cases "is_load_input i")
  case False
  with assms show ?thesis
    unfolding css_progress_inv_def
    by (simp add: css_nav_step_load_frame css_nav_step_progress)
next
  case True
  then obtain k where i: "i = ImageLoad k \<or> i = ImageError k"
    by (cases i) auto
  show ?thesis
  proof (cases "k < length (media_src s)")
    case True
    with assms i show ?thesis
      by (auto simp: css_progress_inv_onload css_progress_inv_onerror)
  next
    case False
    with assms i show ?thesis
      by (auto simp: load_input_out_of_range)
  qed
qed

lemma css_progress_inv_run:
  assumes "css_progress_inv s"
  shows "css_progress_inv (css_run s ins)"
  using assms unfolding css_run_def
  by (induction ins arbitrary: s) (simp_all add: css_progress_inv_step)

lemma css_progress_inv_new: "css_progress_inv (CSSEngine_new images)"
  by (simp add: css_progress_inv_def)

lemma CSSEngine_progress_monotone:
  "sorted (progress_loaded (emitted (css_run (CSSEngine_new images) ins)))"
  "OnLoadComplete \<in> set (emitted (css_run (CSSEngine_new images) ins)) \<Longrightarrow> images \<noteq> [] \<Longrightarrow>
     last (progress_loaded (emitted (css_run (CSSEngine_new images) ins))) = int (length images)"
  using css_progress_inv_run [OF css_progress_inv_new, of images ins]
  by (simp_all add: css_progress_inv_def)

lemma CSSEngine_progress_counts_loaded:
  "emitted (css_run (CSSEngine_new [''A'', ''B'']) [ImageLoad 1, ImageLoad 0]) =
     [OnLoadProgress \<lparr>loaded = 1, load_total = 2, progress = 1 / 2, currentItem = Some ''B''\<rparr>,
      OnLoadProgress \<lparr>loaded = 2, load_total = 2, progress = 1, currentItem = Some ''A''\<rparr>,
      OnLoadComplete, OnReady]"
  by (simp add: CSSEngine_new_def loadImages_def createSpreads_two css_eval numeral_2_eq_2)

text \<open>
  Claim C7. Over one load run the \<open>loaded\<close> fields of the \<open>onLoadProgress\<close> calls
  never decrease, whatever the order in which the items complete, and \<open>loaded\<close>
  equals \<open>total\<close> once \<open>onLoadComplete\<close> is called. The layered engine does this
  (above). The scene-graph engine reports \<open>index + 1\<close> of the texture that has just
  loaded instead of a count: when texture 1 of two loads before texture 0, it reports
  2 of 2 and then 1 of 2, and \<open>onLoadComplete\<close> follows the report of 1.
\<close>

theorem WebGLEngine_progress_follows_index:
  "gl_emitted (gl_run (WebGLEngine_new [''A'', ''B''])
      [TextureLoad 1 (Some (2, 3)), TextureLoad 0 (Some (2, 3))]) =
     [OnLoadProgress \<lparr>loaded = 2, load_total = 2, progress = 1, currentItem = Some ''B''\<rparr>,
      OnLoadProgress \<lparr>loaded = 1, load_total = 2, progress = 1 / 2, currentItem = Some ''A''\<rparr>,
      OnLoadComplete, OnReady]"
  by (simp add: WebGLEngine_new_two gl_eval upt2)

end
